theory Spec2Isabelle
  imports Complex_Main "HOL-Library.Word" "HOL-Library.List_Lexorder" "HOL-Library.Multiset"
begin

section \<open>GifCompose: the data of \<^verbatim>\<open>src/GifCompose/main.cpp\<close>\<close>

text \<open>
  The program is one coroutine, \<^verbatim>\<open>MainAsync\<close>, that drives Direct3D, Direct2D, the
  file system and the WinRT GIF encoder. The embedding keeps the calls in the order the
  source makes them: every call to an outside component is recorded in a trace, the GPU
  surfaces live in an explicit store addressed by handles, and every \<^verbatim>\<open>throw\<close>,
  failed \<^verbatim>\<open>check_hresult\<close> and failed \<^verbatim>\<open>co_await\<close> is an error value that ends the run.
\<close>

subsection \<open>Strings\<close>

text \<open>
  \<^verbatim>\<open>std::wstring\<close> on Windows is a sequence of 16-bit code units; \<^verbatim>\<open>operator<\<close>
  (used by \<^verbatim>\<open>std::sort\<close>) compares them lexicographically as unsigned numbers.
  \<open>L\<close> is the wide literal \<^verbatim>\<open>L"..."\<close> of an ASCII text.
\<close>

type_synonym wstring = "16 word list"

definition L :: "string \<Rightarrow> wstring" where
  "L cs = map (\<lambda>c. of_nat (of_char c)) cs"

text \<open>
  \<^verbatim>\<open>std::filesystem::path::extension\<close> of a file name (C++17): the text from the last
  dot on, and empty for \<^verbatim>\<open>.\<close> and \<^verbatim>\<open>..\<close>, for a name without a dot, and for a name
  whose only dot is its first character.
\<close>

definition dot :: "16 word" where
  "dot = 0x2E"

definition extension :: "wstring \<Rightarrow> wstring" where
  "extension name =
     (let n = length (takeWhile (\<lambda>c. c \<noteq> dot) (rev name)) in
      if name = [dot, dot] then []
      else if n = length name then []
      else if length name - 1 - n = 0 then []
      else drop (length name - 1 - n) name)"

definition has_extension :: "wstring \<Rightarrow> bool" where
  "has_extension name = (extension name \<noteq> [])"

subsection \<open>The file system\<close>

text \<open>
  A directory lists its entries in the order \<^verbatim>\<open>directory_iterator\<close> yields them (which
  the standard leaves unspecified). \<open>OtherNode\<close> is anything that is neither a regular
  file nor a directory. \<open>Unreadable\<close> is a path whose status the operating system
  refuses to report: on it the throwing overloads of \<^verbatim>\<open>std::filesystem::is_directory\<close>
  and \<^verbatim>\<open>std::filesystem::is_regular_file\<close>, which the source calls, throw
  \<^verbatim>\<open>filesystem_error\<close>.
\<close>

datatype node =
    RegularFile "8 word list"
  | Directory "(wstring \<times> node) list"
  | OtherNode
  | Unreadable

subsection \<open>Pixels, surfaces and bitmaps\<close>

text \<open>
  \<^verbatim>\<open>DXGI_FORMAT_B8G8R8A8_UNORM\<close>: four bytes a pixel, in the order blue, green, red,
  alpha. \<^verbatim>\<open>D2D1_SIZE_U\<close> is a pair of \<^verbatim>\<open>UINT32\<close>.
\<close>

record pixel =
  blue :: "8 word"
  green :: "8 word"
  red :: "8 word"
  alpha :: "8 word"

record D2D1_SIZE_U =
  width :: "32 word"
  height :: "32 word"

text \<open>
  A texture in GPU memory: its size and its pixels by column and row. A
  \<^verbatim>\<open>ID2D1Bitmap1\<close> made by \<^verbatim>\<open>CreateBitmapFromDxgiSurface\<close> shares the memory of its
  texture, so the bitmap carries the handle of the texture and its pixel size.
\<close>

record surface =
  extent :: D2D1_SIZE_U
  pixels :: "nat \<Rightarrow> nat \<Rightarrow> pixel"

record ID2D1Bitmap1 =
  texture :: nat
  pixel_size :: D2D1_SIZE_U

definition GetPixelSize :: "ID2D1Bitmap1 \<Rightarrow> D2D1_SIZE_U" where
  "GetPixelSize bitmap = pixel_size bitmap"

datatype DXGI_FORMAT = DXGI_FORMAT_UNKNOWN | DXGI_FORMAT_B8G8R8A8_UNORM

datatype D3D11_USAGE = D3D11_USAGE_DEFAULT | D3D11_USAGE_STAGING

record D3D11_TEXTURE2D_DESC =
  Width :: "32 word"
  Height :: "32 word"
  MipLevels :: "32 word"
  ArraySize :: "32 word"
  Format :: DXGI_FORMAT
  SampleDesc_Count :: "32 word"
  Usage :: D3D11_USAGE
  BindFlags :: "32 word"
  CPUAccessFlags :: "32 word"

definition D3D11_BIND_SHADER_RESOURCE :: "32 word" where
  "D3D11_BIND_SHADER_RESOURCE = 0x8"

definition D3D11_BIND_RENDER_TARGET :: "32 word" where
  "D3D11_BIND_RENDER_TARGET = 0x20"

definition D3D11_CPU_ACCESS_READ :: "32 word" where
  "D3D11_CPU_ACCESS_READ = 0x20000"

datatype D2D1_DEBUG_LEVEL =
    D2D1_DEBUG_LEVEL_NONE
  | D2D1_DEBUG_LEVEL_ERROR
  | D2D1_DEBUG_LEVEL_WARNING
  | D2D1_DEBUG_LEVEL_INFORMATION

datatype BitmapPixelFormat = Bgra8 | Rgba8 | Rgba16

datatype BitmapAlphaMode = Premultiplied | Straight | Ignore

datatype FileAccessMode = Read | ReadWrite

text \<open>A \<^verbatim>\<open>BitmapTypedValue\<close>, as far as the program builds one.\<close>

datatype BitmapTypedValue =
    UInt8Array "8 word list"
  | UInt16 "16 word"

subsection \<open>Calls to outside components\<close>

text \<open>
  One constructor for each outside call the source makes, with the arguments it passes.
  A call that returns data determined by the state (a new texture, the bytes of the
  staging texture) records that data too.
\<close>

datatype event =
    init_apartment
  | wprintf wstring
  | CreateD3DDevice
  | GetImmediateContext
  | CreateD2DFactory D2D1_DEBUG_LEVEL
  | CreateD2DDevice
  | CreateDeviceContext
  | fs_canonical wstring
  | fs_directory_iterator wstring
  | GetFolderFromPathAsync wstring
  | GetFileAsync wstring
  | OpenReadAsync wstring
  | LoadTextureFromStreamAsync wstring
  | CreateBitmapFromDxgiSurface nat
  | CreateStorageFileFromPathAsync wstring
  | CreateTexture2D D3D11_TEXTURE2D_DESC
  | SetTarget nat
  | BeginDraw
  | Clear pixel
  | DrawBitmap nat
  | EndDraw
  | CopyResource nat nat
  | CopyBytesFromTexture nat "8 word list"
  | OpenAsync FileAccessMode
  | BitmapEncoder_CreateAsync
  | BitmapContainerProperties_SetPropertiesAsync "(wstring \<times> BitmapTypedValue) list"
  | BitmapProperties_SetPropertiesAsync "(wstring \<times> BitmapTypedValue) list"
  | SetPixelData BitmapPixelFormat BitmapAlphaMode "32 word" "32 word" real real "8 word list"
  | GoToNextFrameAsync
  | FlushAsync

text \<open>
  What the source can throw: \<^verbatim>\<open>std::filesystem::filesystem_error\<close> from
  \<^verbatim>\<open>canonical\<close>, \<^verbatim>\<open>is_directory\<close>, \<^verbatim>\<open>directory_iterator\<close> and
  \<^verbatim>\<open>is_regular_file\<close>, \<^verbatim>\<open>winrt::hresult_invalid_argument\<close> with its message, a failed
  \<^verbatim>\<open>WINRT_VERIFY\<close>, and the failure of an outside call (a bad \<^verbatim>\<open>HRESULT\<close> through
  \<^verbatim>\<open>check_hresult\<close>, or an exception out of a \<^verbatim>\<open>co_await\<close> or a helper of the
  \<^verbatim>\<open>robmikh::common\<close> library).
\<close>

datatype error =
    filesystem_error
  | hresult_invalid_argument wstring
  | verify_failed
  | call_failed event

subsection \<open>The environment\<close>

text \<open>
  Everything the run depends on and the program does not compute: the file system, the
  image decoder behind \<^verbatim>\<open>LoadTextureFromStreamAsync\<close>, Direct2D's source-over blend of a
  source pixel onto a destination pixel, the contents of a texture created without
  initial data, and which outside calls fail (decided from the calls made so far).
\<close>

record world =
  canonical :: "wstring \<Rightarrow> wstring option"
  status :: "wstring \<Rightarrow> node option"
  decode :: "8 word list \<Rightarrow> surface option"
  blend :: "pixel \<Rightarrow> pixel \<Rightarrow> pixel"
  uninitialized :: "nat \<Rightarrow> nat \<Rightarrow> pixel"
  succeeds :: "event list \<Rightarrow> event \<Rightarrow> bool"

definition directory_entries :: "world \<Rightarrow> wstring \<Rightarrow> (wstring \<times> node) list" where
  "directory_entries w p = (case status w p of Some (Directory es) \<Rightarrow> es | _ \<Rightarrow> [])"

subsection \<open>The state of a run\<close>

record state =
  trace :: "event list"
  surfaces :: "nat \<Rightarrow> surface option"
  next_handle :: nat
  target :: "nat option"

definition initial_state :: state where
  "initial_state = \<lparr>trace = [], surfaces = (\<lambda>_. None), next_handle = 0, target = None\<rparr>"

type_synonym 'a io = "state \<Rightarrow> (error + 'a) \<times> state"

definition io_return :: "'a \<Rightarrow> 'a io" where
  "io_return x = (\<lambda>s. (Inr x, s))"

definition io_throw :: "error \<Rightarrow> 'a io" where
  "io_throw e = (\<lambda>s. (Inl e, s))"

definition io_bind :: "'a io \<Rightarrow> ('a \<Rightarrow> 'b io) \<Rightarrow> 'b io" where
  "io_bind m f = (\<lambda>s. case m s of (Inl e, s') \<Rightarrow> (Inl e, s') | (Inr x, s') \<Rightarrow> f x s')"

text \<open>A call that cannot fail (a \<^verbatim>\<open>void\<close> method, \<^verbatim>\<open>wprintf\<close>) is only recorded.\<close>

definition emit :: "event \<Rightarrow> unit io" where
  "emit e = (\<lambda>s. (Inr (), s\<lparr>trace := trace s @ [e]\<rparr>))"

text \<open>A call that can fail is recorded, and throws when the environment says so.\<close>

definition call :: "world \<Rightarrow> event \<Rightarrow> unit io" where
  "call w e = (\<lambda>s.
     if succeeds w (trace s) e then (Inr (), s\<lparr>trace := trace s @ [e]\<rparr>)
     else (Inl (call_failed e), s\<lparr>trace := trace s @ [e]\<rparr>))"

text \<open>
  A call into \<^verbatim>\<open>std::filesystem\<close> that can fail is recorded, and throws
  \<^verbatim>\<open>filesystem_error\<close> when the environment says so.
\<close>

definition call_fs :: "world \<Rightarrow> event \<Rightarrow> unit io" where
  "call_fs w e = (\<lambda>s.
     if succeeds w (trace s) e then (Inr (), s\<lparr>trace := trace s @ [e]\<rparr>)
     else (Inl filesystem_error, s\<lparr>trace := trace s @ [e]\<rparr>))"

definition get_state :: "state io" where
  "get_state = (\<lambda>s. (Inr s, s))"

definition modify :: "(state \<Rightarrow> state) \<Rightarrow> unit io" where
  "modify f = (\<lambda>s. (Inr (), f s))"


section \<open>The image loader\<close>

subsection \<open>Textures and bitmaps\<close>

text \<open>A new texture gets the next free handle.\<close>

definition new_texture :: "surface \<Rightarrow> nat io" where
  "new_texture sf = (\<lambda>s.
     (Inr (next_handle s),
      s\<lparr>surfaces := (surfaces s)(next_handle s := Some sf),
        next_handle := Suc (next_handle s)\<rparr>))"

text \<open>
  \<^verbatim>\<open>CreateBitmapFromTexture\<close> (lines 307-315): the texture is wrapped by
  \<^verbatim>\<open>CreateBitmapFromDxgiSurface\<close> under \<^verbatim>\<open>check_hresult\<close>. The device and the 2D
  context, which the source passes around, are the only ones of the run and are left out.
\<close>

definition CreateBitmapFromTexture :: "world \<Rightarrow> nat \<Rightarrow> ID2D1Bitmap1 io" where
  "CreateBitmapFromTexture w tex =
     io_bind (call w (CreateBitmapFromDxgiSurface tex)) (\<lambda>_.
     io_bind get_state (\<lambda>s.
     case surfaces s tex of
       None \<Rightarrow> io_throw (call_failed (CreateBitmapFromDxgiSurface tex))
     | Some sf \<Rightarrow> io_return \<lparr>texture = tex, pixel_size = extent sf\<rparr>))"

text \<open>
  \<^verbatim>\<open>folder.GetFileAsync(filename)\<close> finds the entry of that name in the folder;
  \<^verbatim>\<open>util::LoadTextureFromStreamAsync\<close> decodes the file's bytes into a new texture.
\<close>

definition winrt_GetFileAsync ::
  "world \<Rightarrow> (wstring \<times> node) list \<Rightarrow> wstring \<Rightarrow> 8 word list io" where
  "winrt_GetFileAsync w folder filename =
     io_bind (call w (GetFileAsync filename)) (\<lambda>_.
     case map_of folder filename of
       Some (RegularFile bytes) \<Rightarrow> io_return bytes
     | _ \<Rightarrow> io_throw (call_failed (GetFileAsync filename)))"

definition util_LoadTextureFromStreamAsync ::
  "world \<Rightarrow> wstring \<Rightarrow> 8 word list \<Rightarrow> nat io" where
  "util_LoadTextureFromStreamAsync w filename bytes =
     io_bind (call w (LoadTextureFromStreamAsync filename)) (\<lambda>_.
     case decode w bytes of
       None \<Rightarrow> io_throw (call_failed (LoadTextureFromStreamAsync filename))
     | Some sf \<Rightarrow> new_texture sf)"

subsection \<open>\<^verbatim>\<open>LoadBitmapsAsync\<close> (lines 264-305)\<close>

text \<open>
  \<^verbatim>\<open>std::filesystem::is_directory(p)\<close> and \<^verbatim>\<open>std::filesystem::is_regular_file(p)\<close>,
  the overloads without an \<^verbatim>\<open>error_code\<close>: they ask for the status of the path, answer
  \<^verbatim>\<open>false\<close> for a path that does not exist, and throw when the status cannot be read.
\<close>

definition is_directory :: "world \<Rightarrow> wstring \<Rightarrow> bool io" where
  "is_directory w p =
     (case status w p of
        Some (Directory _) \<Rightarrow> io_return True
      | Some Unreadable \<Rightarrow> io_throw filesystem_error
      | _ \<Rightarrow> io_return False)"

fun is_regular_file :: "node \<Rightarrow> bool io" where
  "is_regular_file (RegularFile _) = io_return True"
| "is_regular_file Unreadable = io_throw filesystem_error"
| "is_regular_file _ = io_return False"

text \<open>
  The loop over the directory (lines 276-287), with \<^verbatim>\<open>files\<close> as accumulator. The
  status of every entry is asked for, before its extension is looked at.
\<close>

primrec collect_files :: "(wstring \<times> node) list \<Rightarrow> wstring list \<Rightarrow> wstring list io" where
  "collect_files [] files = io_return files"
| "collect_files (entry # entries) files =
     (let path = fst entry in
      io_bind (is_regular_file (snd entry)) (\<lambda>regular.
      if regular \<and> has_extension path
      then (if extension path = L ''.png''
            then collect_files entries (files @ [path])
            else collect_files entries files)
      else collect_files entries files))"

text \<open>The loop over the sorted file names (lines 294-302), with \<^verbatim>\<open>bitmaps\<close> as accumulator.\<close>

fun load_files ::
  "world \<Rightarrow> (wstring \<times> node) list \<Rightarrow> wstring list \<Rightarrow> ID2D1Bitmap1 list
   \<Rightarrow> ID2D1Bitmap1 list io" where
  "load_files w folder [] bitmaps = io_return bitmaps"
| "load_files w folder (filename # files) bitmaps =
     io_bind (winrt_GetFileAsync w folder filename) (\<lambda>bytes.
     io_bind (call w (OpenReadAsync filename)) (\<lambda>_.
     io_bind (util_LoadTextureFromStreamAsync w filename bytes) (\<lambda>tex.
     io_bind (CreateBitmapFromTexture w tex) (\<lambda>bitmap.
     load_files w folder files (bitmaps @ [bitmap])))))"

text \<open>
  Making the \<^verbatim>\<open>directory_iterator\<close> and stepping it can throw \<^verbatim>\<open>filesystem_error\<close>;
  the loop has no effect but on the local \<^verbatim>\<open>files\<close>, so one fallible call stands for
  the whole enumeration.
\<close>

definition LoadBitmapsAsync :: "world \<Rightarrow> wstring \<Rightarrow> ID2D1Bitmap1 list io" where
  "LoadBitmapsAsync w path =
     io_bind (emit (fs_canonical path)) (\<lambda>_.
     case canonical w path of
       None \<Rightarrow> io_throw filesystem_error
     | Some fullPath \<Rightarrow>
         io_bind (is_directory w fullPath) (\<lambda>dir.
         if \<not> dir
         then io_throw (hresult_invalid_argument (L ''Path was not a folder!''))
         else
           io_bind (call_fs w (fs_directory_iterator fullPath)) (\<lambda>_.
           io_bind (collect_files (directory_entries w fullPath) []) (\<lambda>files.
           let files = sort files in
           io_bind (call w (GetFolderFromPathAsync fullPath)) (\<lambda>_.
           load_files w (directory_entries w fullPath) files [])))))"

text \<open>
  The specification's name for the ways a path is rejected: it does not exist
  (\<^verbatim>\<open>canonical\<close> throws), its status cannot be read (\<^verbatim>\<open>is_directory\<close> throws the
  same exception), or it is not a directory.
\<close>

definition InvalidPathError :: "error \<Rightarrow> bool" where
  "InvalidPathError e =
     (e = filesystem_error \<or> e = hresult_invalid_argument (L ''Path was not a folder!''))"


section \<open>Drawing\<close>

text \<open>
  Direct2D and Direct3D as far as the program uses them. \<^verbatim>\<open>Clear\<close> fills the current
  target; \<^verbatim>\<open>DrawBitmap\<close> with its default arguments blends the whole source bitmap onto
  the target at the origin, unscaled, pixel by pixel with the source-over blend of the
  environment; \<^verbatim>\<open>CopyResource\<close> overwrites the pixels of one texture with another's;
  \<^verbatim>\<open>util::CopyBytesFromTexture\<close> reads a texture row by row, four bytes a pixel. A draw
  call on a handle that names no texture changes nothing (no run gets there).
\<close>

definition clear_surface :: "pixel \<Rightarrow> surface \<Rightarrow> surface" where
  "clear_surface c sf = sf\<lparr>pixels := (\<lambda>x y. c)\<rparr>"

definition draw_over :: "world \<Rightarrow> surface \<Rightarrow> surface \<Rightarrow> surface" where
  "draw_over w src dst =
     dst\<lparr>pixels := (\<lambda>x y.
       if x < unat (width (extent src)) \<and> y < unat (height (extent src))
       then blend w (pixels src x y) (pixels dst x y)
       else pixels dst x y)\<rparr>"

definition on_target :: "(surface \<Rightarrow> surface) \<Rightarrow> state \<Rightarrow> state" where
  "on_target f s =
     (case target s of
        None \<Rightarrow> s
      | Some t \<Rightarrow>
          (case surfaces s t of
             None \<Rightarrow> s
           | Some sf \<Rightarrow> s\<lparr>surfaces := (surfaces s)(t := Some (f sf))\<rparr>))"

definition d2d_SetTarget :: "ID2D1Bitmap1 \<Rightarrow> unit io" where
  "d2d_SetTarget bitmap =
     io_bind (emit (SetTarget (texture bitmap))) (\<lambda>_.
     modify (\<lambda>s. s\<lparr>target := Some (texture bitmap)\<rparr>))"

definition d2d_Clear :: "pixel \<Rightarrow> unit io" where
  "d2d_Clear c =
     io_bind (emit (Clear c)) (\<lambda>_.
     modify (on_target (clear_surface c)))"

definition d2d_DrawBitmap :: "world \<Rightarrow> ID2D1Bitmap1 \<Rightarrow> unit io" where
  "d2d_DrawBitmap w bitmap =
     io_bind (emit (DrawBitmap (texture bitmap))) (\<lambda>_.
     modify (\<lambda>s.
       case surfaces s (texture bitmap) of
         None \<Rightarrow> s
       | Some src \<Rightarrow> on_target (draw_over w src) s))"

definition d3d_CreateTexture2D :: "world \<Rightarrow> D3D11_TEXTURE2D_DESC \<Rightarrow> nat io" where
  "d3d_CreateTexture2D w desc =
     io_bind (call w (CreateTexture2D desc)) (\<lambda>_.
     new_texture
       \<lparr>extent = \<lparr>width = Width desc, height = Height desc\<rparr>, pixels = uninitialized w\<rparr>)"

definition d3d_CopyResource :: "nat \<Rightarrow> nat \<Rightarrow> unit io" where
  "d3d_CopyResource dst src =
     io_bind (emit (CopyResource dst src)) (\<lambda>_.
     modify (\<lambda>s.
       case (surfaces s dst, surfaces s src) of
         (Some d, Some sf) \<Rightarrow> s\<lparr>surfaces := (surfaces s)(dst := Some (d\<lparr>pixels := pixels sf\<rparr>))\<rparr>
       | _ \<Rightarrow> s))"

definition surface_bytes :: "surface \<Rightarrow> 8 word list" where
  "surface_bytes sf =
     concat (map (\<lambda>y.
       concat (map (\<lambda>x.
         [blue (pixels sf x y), green (pixels sf x y), red (pixels sf x y),
          alpha (pixels sf x y)])
         [0 ..< unat (width (extent sf))]))
       [0 ..< unat (height (extent sf))])"

definition util_CopyBytesFromTexture :: "world \<Rightarrow> nat \<Rightarrow> 8 word list io" where
  "util_CopyBytesFromTexture w tex =
     io_bind get_state (\<lambda>s.
     case surfaces s tex of
       None \<Rightarrow> io_throw (call_failed (CopyBytesFromTexture tex []))
     | Some sf \<Rightarrow>
         io_bind (call w (CopyBytesFromTexture tex (surface_bytes sf))) (\<lambda>_.
         io_return (surface_bytes sf)))"

text \<open>
  \<^verbatim>\<open>D2D1_COLOR_F{ 1.0f, 1.0f, 1.0f, 1.0f }\<close> on a \<^verbatim>\<open>B8G8R8A8_UNORM\<close> target: every
  channel at its maximum, that is opaque white.
\<close>

definition opaque_white :: pixel where
  "opaque_white = \<lparr>blue = 0xFF, green = 0xFF, red = 0xFF, alpha = 0xFF\<rparr>"

section \<open>The GIF encoder\<close>

text \<open>\<^verbatim>\<open>CreateGifEncoderAsync\<close> (lines 317-338).\<close>

definition NETSCAPE_chars :: "8 word list" where
  "NETSCAPE_chars = map (\<lambda>c. of_nat (of_char c)) ''NETSCAPE2.0''"

definition WINRT_VERIFY :: "bool \<Rightarrow> unit io" where
  "WINRT_VERIFY b = (if b then io_return () else io_throw verify_failed)"

definition CreateGifEncoderAsync :: "world \<Rightarrow> unit io" where
  "CreateGifEncoderAsync w =
     io_bind (call w BitmapEncoder_CreateAsync) (\<lambda>_.
     let chars = NETSCAPE_chars in
     io_bind (WINRT_VERIFY (length chars = 11)) (\<lambda>_.
     call w (BitmapContainerProperties_SetPropertiesAsync
       [(L ''/appext/application'', UInt8Array chars),
        (L ''/appext/data'', UInt8Array [3, 1, 0, 0, 0])])))"

section \<open>\<^verbatim>\<open>MainAsync\<close> (lines 46-187)\<close>

text \<open>
  Lines 48-67. The variable \<^verbatim>\<open>flags\<close> of the source is computed and never used
  (\<^verbatim>\<open>util::CreateD3DDevice\<close> is called without it), so it does not appear.
\<close>

definition initialize_devices :: "world \<Rightarrow> bool \<Rightarrow> unit io" where
  "initialize_devices w useDebugLayer =
     io_bind (call w CreateD3DDevice) (\<lambda>_.
     io_bind (emit GetImmediateContext) (\<lambda>_.
     let debugLevel =
       (if useDebugLayer then D2D1_DEBUG_LEVEL_INFORMATION else D2D1_DEBUG_LEVEL_NONE) in
     io_bind (call w (CreateD2DFactory debugLevel)) (\<lambda>_.
     io_bind (call w CreateD2DDevice) (\<lambda>_.
     call w CreateDeviceContext))))"

text \<open>The two loops that compare sizes (lines 78-85 and 89-96).\<close>

fun check_frame_sizes :: "D2D1_SIZE_U \<Rightarrow> ID2D1Bitmap1 list \<Rightarrow> unit io" where
  "check_frame_sizes frameSize [] = io_return ()"
| "check_frame_sizes frameSize (frame # frames) =
     (let size = GetPixelSize frame in
      if width size \<noteq> width frameSize \<or> height size \<noteq> height frameSize
      then io_throw (hresult_invalid_argument (L ''All frames must be of the same size!''))
      else check_frame_sizes frameSize frames)"

fun check_background_sizes :: "D2D1_SIZE_U \<Rightarrow> ID2D1Bitmap1 list \<Rightarrow> unit io" where
  "check_background_sizes frameSize [] = io_return ()"
| "check_background_sizes frameSize (background # backgrounds) =
     (let size = GetPixelSize background in
      if width size \<noteq> width frameSize \<or> height size \<noteq> height frameSize
      then io_throw (hresult_invalid_argument
             (L ''All backgrounds must be of the same size as the frames!''))
      else check_background_sizes frameSize backgrounds)"

text \<open>
  Lines 101-125: the render target, the background template and the staging texture,
  all made from one descriptor of the frame size.
\<close>

record render_targets =
  renderTargetTexture :: nat
  renderTarget :: ID2D1Bitmap1
  backgroundTemplate :: ID2D1Bitmap1
  stagingTexture :: nat

definition render_target_desc :: "D2D1_SIZE_U \<Rightarrow> D3D11_TEXTURE2D_DESC" where
  "render_target_desc frameSize =
     \<lparr>Width = width frameSize, Height = height frameSize, MipLevels = 1, ArraySize = 1,
      Format = DXGI_FORMAT_B8G8R8A8_UNORM, SampleDesc_Count = 1,
      Usage = D3D11_USAGE_DEFAULT,
      BindFlags = or D3D11_BIND_RENDER_TARGET D3D11_BIND_SHADER_RESOURCE,
      CPUAccessFlags = 0\<rparr>"

definition create_render_targets :: "world \<Rightarrow> D2D1_SIZE_U \<Rightarrow> render_targets io" where
  "create_render_targets w frameSize =
     (let desc = render_target_desc frameSize in
      io_bind (d3d_CreateTexture2D w desc) (\<lambda>rtTexture.
      io_bind (CreateBitmapFromTexture w rtTexture) (\<lambda>rt.
      io_bind (d3d_CreateTexture2D w desc) (\<lambda>templateTexture.
      io_bind (CreateBitmapFromTexture w templateTexture) (\<lambda>template.
      let desc = desc\<lparr>Usage := D3D11_USAGE_STAGING, BindFlags := 0,
                      CPUAccessFlags := D3D11_CPU_ACCESS_READ\<rparr> in
      io_bind (d3d_CreateTexture2D w desc) (\<lambda>staging.
      io_return \<lparr>renderTargetTexture = rtTexture, renderTarget = rt,
                 backgroundTemplate = template, stagingTexture = staging\<rparr>))))))"

text \<open>Lines 127-136: the background template.\<close>

fun draw_backgrounds :: "world \<Rightarrow> ID2D1Bitmap1 list \<Rightarrow> unit io" where
  "draw_backgrounds w [] = io_return ()"
| "draw_backgrounds w (background # backgrounds) =
     io_bind (d2d_DrawBitmap w background) (\<lambda>_. draw_backgrounds w backgrounds)"

definition draw_background_template ::
  "world \<Rightarrow> ID2D1Bitmap1 \<Rightarrow> ID2D1Bitmap1 list \<Rightarrow> unit io" where
  "draw_background_template w template backgrounds =
     io_bind (d2d_SetTarget template) (\<lambda>_.
     let clearColor = opaque_white in
     io_bind (emit BeginDraw) (\<lambda>_.
     io_bind (d2d_Clear clearColor) (\<lambda>_.
     io_bind (draw_backgrounds w backgrounds) (\<lambda>_.
     call w EndDraw))))"

text \<open>
  Lines 148-178: the body of the frame loop. The index \<^verbatim>\<open>i\<close> is an \<^verbatim>\<open>int\<close> compared
  with \<^verbatim>\<open>frames.size()\<close>; it is a natural number here (a run holds one GPU texture per
  frame, far fewer than \<open>2^31\<close>). \<^verbatim>\<open>frames.size() - 1\<close> is evaluated only inside the
  loop, where the vector is not empty. The delay is a \<^verbatim>\<open>uint32_t\<close> cast to
  \<^verbatim>\<open>uint16_t\<close>; the two scale arguments are the \<^verbatim>\<open>double\<close> 1.0.
\<close>

definition render_and_encode_frame ::
  "world \<Rightarrow> ID2D1Bitmap1 list \<Rightarrow> render_targets \<Rightarrow> D2D1_SIZE_U \<Rightarrow> 32 word \<Rightarrow> nat
   \<Rightarrow> unit io" where
  "render_and_encode_frame w frames rts frameSize frameDelay i =
     (let frame = frames ! i in
      io_bind (emit BeginDraw) (\<lambda>_.
      io_bind (d2d_DrawBitmap w (backgroundTemplate rts)) (\<lambda>_.
      io_bind (d2d_DrawBitmap w frame) (\<lambda>_.
      io_bind (call w EndDraw) (\<lambda>_.
      io_bind (d3d_CopyResource (stagingTexture rts) (renderTargetTexture rts)) (\<lambda>_.
      io_bind (util_CopyBytesFromTexture w (stagingTexture rts)) (\<lambda>bytes.
      io_bind (call w (BitmapProperties_SetPropertiesAsync
                 [(L ''/grctlext/Delay'', UInt16 (ucast frameDelay))])) (\<lambda>_.
      io_bind (call w (SetPixelData Bgra8 Premultiplied
                 (width frameSize) (height frameSize) 1.0 1.0 bytes)) (\<lambda>_.
      if i < length frames - 1 then call w GoToNextFrameAsync else io_return ())))))))))"

function frame_loop ::
  "world \<Rightarrow> ID2D1Bitmap1 list \<Rightarrow> render_targets \<Rightarrow> D2D1_SIZE_U \<Rightarrow> 32 word \<Rightarrow> nat
   \<Rightarrow> unit io" where
  "frame_loop w frames rts frameSize frameDelay i s =
     (if i < length frames
      then (case render_and_encode_frame w frames rts frameSize frameDelay i s of
              (Inl e, s') \<Rightarrow> (Inl e, s')
            | (Inr _, s') \<Rightarrow> frame_loop w frames rts frameSize frameDelay (i + 1) s')
      else (Inr (), s))"
  by pat_completeness auto
termination
  by (relation "measure (\<lambda>(w, frames, rts, frameSize, frameDelay, i, s). length frames - i)")
     auto

declare frame_loop.simps [simp del]

text \<open>Lines 138-182.\<close>

definition encode_frames ::
  "world \<Rightarrow> ID2D1Bitmap1 list \<Rightarrow> render_targets \<Rightarrow> D2D1_SIZE_U \<Rightarrow> unit io" where
  "encode_frames w frames rts frameSize =
     (let frameDelay = 13 in
      io_bind (d2d_SetTarget (renderTarget rts)) (\<lambda>_.
      io_bind (call w (OpenAsync ReadWrite)) (\<lambda>_.
      io_bind (CreateGifEncoderAsync w) (\<lambda>_.
      io_bind (frame_loop w frames rts frameSize frameDelay 0) (\<lambda>_.
      call w FlushAsync)))))"

definition MainAsync :: "world \<Rightarrow> bool \<Rightarrow> wstring \<Rightarrow> wstring \<Rightarrow> wstring \<Rightarrow> unit io" where
  "MainAsync w useDebugLayer framesPath backgroundPath outputPath =
     io_bind (initialize_devices w useDebugLayer) (\<lambda>_.
     io_bind (LoadBitmapsAsync w framesPath) (\<lambda>frames.
     case frames of
       [] \<Rightarrow> emit (wprintf (L ''No frames found, exiting...\<newline>''))
     | frame0 # _ \<Rightarrow>
         let frameSize = GetPixelSize frame0 in
         io_bind (check_frame_sizes frameSize frames) (\<lambda>_.
         io_bind (LoadBitmapsAsync w backgroundPath) (\<lambda>backgrounds.
         io_bind (check_background_sizes frameSize backgrounds) (\<lambda>_.
         io_bind (call w (CreateStorageFileFromPathAsync outputPath)) (\<lambda>_.
         io_bind (create_render_targets w frameSize) (\<lambda>rts.
         io_bind (draw_background_template w (backgroundTemplate rts) backgrounds) (\<lambda>_.
         io_bind (encode_frames w frames rts frameSize) (\<lambda>_.
         emit (wprintf (L ''Done!\<newline>'')))))))))))"

text \<open>
  The specification's name for the two size errors of lines 83 and 94.
\<close>

definition DimensionMismatchError :: "error \<Rightarrow> bool" where
  "DimensionMismatchError e =
     (e = hresult_invalid_argument (L ''All frames must be of the same size!'') \<or>
      e = hresult_invalid_argument
            (L ''All backgrounds must be of the same size as the frames!''))"


section \<open>The command line (lines 189-262)\<close>

record Options =
  UseDebugLayer :: bool
  FramesPath :: wstring
  BackgroundPath :: wstring
  OutputPath :: wstring

datatype CliResult = Valid | Invalid | Help

text \<open>
  \<^verbatim>\<open>GetFlag\<close> (with one name and with two) and \<^verbatim>\<open>GetFlagValue\<close> belong to
  \<^verbatim>\<open>robmikh::common::wcli::impl\<close>, which is not part of this repository: they are
  parameters of the model.
\<close>

record wcli =
  GetFlag :: "wstring list \<Rightarrow> wstring \<Rightarrow> bool"
  GetFlag2 :: "wstring list \<Rightarrow> wstring \<Rightarrow> wstring \<Rightarrow> bool"
  GetFlagValue :: "wstring list \<Rightarrow> wstring \<Rightarrow> wstring \<Rightarrow> wstring"

definition PrintHelp :: "unit io" where
  "PrintHelp =
     io_bind (emit (wprintf (L ''GifCompose.exe\<newline>''))) (\<lambda>_.
     io_bind (emit (wprintf (L ''An application that creates gifs from files.\<newline>''))) (\<lambda>_.
     io_bind (emit (wprintf (L ''\<newline>''))) (\<lambda>_.
     io_bind (emit (wprintf (L ''Arguments:\<newline>''))) (\<lambda>_.
     io_bind (emit (wprintf (L
       ''  -f <frames path>         (required) Path to the frame images.\<newline>''))) (\<lambda>_.
     io_bind (emit (wprintf (L
       ''  -b <backgrounds path>    (required) Path to the background images.\<newline>''))) (\<lambda>_.
     io_bind (emit (wprintf (L
       ''  -o <output path>         (required) Path to the output image that will be created.\<newline>''))) (\<lambda>_.
     io_bind (emit (wprintf (L ''\<newline>''))) (\<lambda>_.
     io_bind (emit (wprintf (L ''Flags:\<newline>''))) (\<lambda>_.
     io_bind (emit (wprintf (L
       ''  -dxDebug           (optional) Use the DirectX and DirectML debug layers.\<newline>''))) (\<lambda>_.
     emit (wprintf (L ''\<newline>''))))))))))))"

definition ParseOptions :: "wcli \<Rightarrow> wstring list \<Rightarrow> Options \<Rightarrow> (CliResult \<times> Options) io" where
  "ParseOptions cli args options =
     (if GetFlag cli args (L ''-help'') \<or> GetFlag cli args (L ''/?'')
      then io_bind PrintHelp (\<lambda>_. io_return (Help, options))
      else
        let framesPath = GetFlagValue cli args (L ''-f'') (L ''/f'') in
        if framesPath = []
        then io_bind (emit (wprintf (L ''Invalid frames path! Use '-help' for help.\<newline>'')))
               (\<lambda>_. io_return (Invalid, options))
        else
          let backgroundPath = GetFlagValue cli args (L ''-b'') (L ''/b'') in
          if backgroundPath = []
          then io_bind
                 (emit (wprintf (L ''Invalid background path! Use '-help' for help.\<newline>'')))
                 (\<lambda>_. io_return (Invalid, options))
          else
            let outputPath = GetFlagValue cli args (L ''-o'') (L ''/o'') in
            if outputPath = []
            then io_bind
                   (emit (wprintf (L ''Invalid output path! Use '-help' for help.\<newline>'')))
                   (\<lambda>_. io_return (Invalid, options))
            else
              let useDebugLayer = GetFlag2 cli args (L ''-dxDebug'') (L ''/dxDebug'') in
              io_return (Valid,
                options\<lparr>UseDebugLayer := useDebugLayer, FramesPath := framesPath,
                        BackgroundPath := backgroundPath, OutputPath := outputPath\<rparr>))"

text \<open>
  \<^verbatim>\<open>wmain\<close> (lines 189-211) either returns an exit code or is left by the exception
  that \<^verbatim>\<open>MainAsync(...).get()\<close> rethrows, which nothing catches. \<open>argv\<close> includes the
  program's name; \<^verbatim>\<open>Options options = {}\<close> is the value-initialised record.
\<close>

datatype exit = Returned int | Unhandled error

definition wmain :: "world \<Rightarrow> wcli \<Rightarrow> wstring list \<Rightarrow> state \<Rightarrow> exit \<times> state" where
  "wmain w cli argv s =
     (let args = drop 1 argv;
          options = \<lparr>UseDebugLayer = False, FramesPath = [], BackgroundPath = [],
                     OutputPath = []\<rparr>
      in case io_bind (emit init_apartment) (\<lambda>_. ParseOptions cli args options) s of
           (Inl e, s') \<Rightarrow> (Unhandled e, s')
         | (Inr (cliResult, options), s') \<Rightarrow>
             (case cliResult of
                Help \<Rightarrow> (Returned 0, s')
              | Invalid \<Rightarrow> (Returned 1, s')
              | Valid \<Rightarrow>
                  (case MainAsync w (UseDebugLayer options) (FramesPath options)
                          (BackgroundPath options) (OutputPath options) s' of
                     (Inl e, s'') \<Rightarrow> (Unhandled e, s'')
                   | (Inr _, s'') \<Rightarrow> (Returned 0, s''))))"


section \<open>Vocabulary of the specification\<close>

text \<open>
  The names of the entries of a directory that the loader takes: regular files whose
  extension is \<^verbatim>\<open>.png\<close>, in directory order.
\<close>

fun regular_file :: "node \<Rightarrow> bool" where
  "regular_file (RegularFile _) = True"
| "regular_file _ = False"

definition png_names :: "(wstring \<times> node) list \<Rightarrow> wstring list" where
  "png_names entries =
     map fst (filter (\<lambda>(name, nd). regular_file nd \<and> extension name = L ''.png'') entries)"

text \<open>
  A bitmap is the decoded file of a given name in a folder: the file is a regular file
  there, its bytes decode to a surface, and that surface is what the bitmap's texture
  holds in the state.
\<close>

definition loaded_from ::
  "world \<Rightarrow> (wstring \<times> node) list \<Rightarrow> state \<Rightarrow> wstring \<Rightarrow> ID2D1Bitmap1 \<Rightarrow> bool" where
  "loaded_from w folder s name bitmap =
     (\<exists>bytes sf. map_of folder name = Some (RegularFile bytes) \<and> decode w bytes = Some sf \<and>
        surfaces s (texture bitmap) = Some sf \<and> pixel_size bitmap = extent sf)"

text \<open>
  The outside calls of one pass of the frame loop, for a frame and the bytes read back
  for it; \<open>advance\<close> says whether the encoder is moved to the next frame afterwards.
\<close>

definition frame_calls ::
  "render_targets \<Rightarrow> D2D1_SIZE_U \<Rightarrow> ID2D1Bitmap1 \<Rightarrow> 8 word list \<Rightarrow> bool \<Rightarrow> event list" where
  "frame_calls rts frameSize frame bytes advance =
     [BeginDraw,
      DrawBitmap (texture (backgroundTemplate rts)),
      DrawBitmap (texture frame),
      EndDraw,
      CopyResource (stagingTexture rts) (renderTargetTexture rts),
      CopyBytesFromTexture (stagingTexture rts) bytes,
      BitmapProperties_SetPropertiesAsync [(L ''/grctlext/Delay'', UInt16 13)],
      SetPixelData Bgra8 Premultiplied (width frameSize) (height frameSize) 1 1 bytes] @
     (if advance then [GoToNextFrameAsync] else [])"

subsection \<open>Kinds of calls\<close>

text \<open>
  Calls that draw: everything done on the 2D context or to copy and read a render
  target. Calls that touch the output: creating and opening the output file and every
  call on the encoder.
\<close>

fun is_drawing :: "event \<Rightarrow> bool" where
  "is_drawing (SetTarget _) = True"
| "is_drawing BeginDraw = True"
| "is_drawing (Clear _) = True"
| "is_drawing (DrawBitmap _) = True"
| "is_drawing EndDraw = True"
| "is_drawing (CopyResource _ _) = True"
| "is_drawing (CopyBytesFromTexture _ _) = True"
| "is_drawing _ = False"

fun is_encoder_call :: "event \<Rightarrow> bool" where
  "is_encoder_call BitmapEncoder_CreateAsync = True"
| "is_encoder_call (BitmapContainerProperties_SetPropertiesAsync _) = True"
| "is_encoder_call (BitmapProperties_SetPropertiesAsync _) = True"
| "is_encoder_call (SetPixelData _ _ _ _ _ _ _) = True"
| "is_encoder_call GoToNextFrameAsync = True"
| "is_encoder_call FlushAsync = True"
| "is_encoder_call _ = False"

fun is_output_call :: "event \<Rightarrow> bool" where
  "is_output_call (CreateStorageFileFromPathAsync _) = True"
| "is_output_call (OpenAsync _) = True"
| "is_output_call e = is_encoder_call e"

text \<open>
  The events a run adds to the trace of the state it starts in.
\<close>

definition new_events :: "state \<Rightarrow> state \<Rightarrow> event list" where
  "new_events s s' = drop (length (trace s)) (trace s')"

text \<open>
  A computation emits only events of a given kind, whatever its result.
\<close>

definition emits :: "(event \<Rightarrow> bool) \<Rightarrow> 'a io \<Rightarrow> bool" where
  "emits Q m = (\<forall>s. \<exists>evs. trace (snd (m s)) = trace s @ evs \<and> list_all Q evs)"

text \<open>
  The calls that build the background template (lines 127-136), the calls that set up
  the encoder (lines 141-144 and 317-337), and all calls of a complete run from the
  creation of the output file on, for given backgrounds, frames and read-back bytes.
\<close>

definition template_calls :: "render_targets \<Rightarrow> ID2D1Bitmap1 list \<Rightarrow> event list" where
  "template_calls rts backgrounds =
     [SetTarget (texture (backgroundTemplate rts)), BeginDraw, Clear opaque_white] @
     map (\<lambda>background. DrawBitmap (texture background)) backgrounds @
     [EndDraw]"

definition encoder_setup_calls :: "render_targets \<Rightarrow> event list" where
  "encoder_setup_calls rts =
     [SetTarget (texture (renderTarget rts)),
      OpenAsync ReadWrite,
      BitmapEncoder_CreateAsync,
      BitmapContainerProperties_SetPropertiesAsync
        [(L ''/appext/application'', UInt8Array NETSCAPE_chars),
         (L ''/appext/data'', UInt8Array [3, 1, 0, 0, 0])]]"

definition all_frame_calls ::
  "render_targets \<Rightarrow> D2D1_SIZE_U \<Rightarrow> ID2D1Bitmap1 list \<Rightarrow> 8 word list list \<Rightarrow> event list" where
  "all_frame_calls rts frameSize frames bs =
     concat (map (\<lambda>j. frame_calls rts frameSize (frames ! j) (bs ! j) (j < length frames - 1))
       [0 ..< length frames])"

definition target_creation_calls :: "D2D1_SIZE_U \<Rightarrow> render_targets \<Rightarrow> event list" where
  "target_creation_calls frameSize rts =
     [CreateTexture2D (render_target_desc frameSize),
      CreateBitmapFromDxgiSurface (renderTargetTexture rts),
      CreateTexture2D (render_target_desc frameSize),
      CreateBitmapFromDxgiSurface (texture (backgroundTemplate rts)),
      CreateTexture2D ((render_target_desc frameSize)
        \<lparr>Usage := D3D11_USAGE_STAGING, BindFlags := 0,
         CPUAccessFlags := D3D11_CPU_ACCESS_READ\<rparr>)]"

text \<open>
  The calls that write a frame (its metadata and its pixels), and the steps of the
  encoder's frame protocol that a call stands for.
\<close>

fun is_frame_write :: "event \<Rightarrow> bool" where
  "is_frame_write (BitmapProperties_SetPropertiesAsync _) = True"
| "is_frame_write (SetPixelData _ _ _ _ _ _ _) = True"
| "is_frame_write _ = False"

datatype encoder_step = SetMetadata | CommitPixels | Advance | Flush

fun step_of :: "event \<Rightarrow> encoder_step option" where
  "step_of (BitmapProperties_SetPropertiesAsync _) = Some SetMetadata"
| "step_of (SetPixelData _ _ _ _ _ _ _) = Some CommitPixels"
| "step_of GoToNextFrameAsync = Some Advance"
| "step_of FlushAsync = Some Flush"
| "step_of _ = None"

fun is_container_call :: "event \<Rightarrow> bool" where
  "is_container_call BitmapEncoder_CreateAsync = True"
| "is_container_call (BitmapContainerProperties_SetPropertiesAsync _) = True"
| "is_container_call _ = False"

fun encoder_steps :: "event list \<Rightarrow> encoder_step list" where
  "encoder_steps [] = []"
| "encoder_steps (e # es) =
     (case step_of e of None \<Rightarrow> encoder_steps es | Some st \<Rightarrow> st # encoder_steps es)"

text \<open>
  What the specification says the background template is: a canvas of the frame size
  cleared to opaque white, with the layers drawn onto it one after the other, each
  source-over onto what is already there. A pixel covers whatever lies below it when the
  blend returns it unchanged for every destination.
\<close>

definition white_canvas :: "D2D1_SIZE_U \<Rightarrow> surface" where
  "white_canvas frameSize = \<lparr>extent = frameSize, pixels = (\<lambda>x y. opaque_white)\<rparr>"

definition composite_over :: "world \<Rightarrow> surface \<Rightarrow> surface list \<Rightarrow> surface" where
  "composite_over w canvas layers = foldl (\<lambda>c layer. draw_over w layer c) canvas layers"

definition covers :: "world \<Rightarrow> pixel \<Rightarrow> bool" where
  "covers w p = (\<forall>d. blend w p d = p)"

definition inside :: "surface \<Rightarrow> nat \<Rightarrow> nat \<Rightarrow> bool" where
  "inside sf x y = (x < unat (width (extent sf)) \<and> y < unat (height (extent sf)))"

text \<open>
  Errors that come from outside the program's own checks: a failed outside call or a
  failed \<^verbatim>\<open>WINRT_VERIFY\<close>. A computation fails only with errors of a given kind.
\<close>

fun outside_failure :: "error \<Rightarrow> bool" where
  "outside_failure (call_failed _) = True"
| "outside_failure verify_failed = True"
| "outside_failure _ = False"

definition fails_only :: "(error \<Rightarrow> bool) \<Rightarrow> 'a io \<Rightarrow> bool" where
  "fails_only E m = (\<forall>s e s'. m s = (Inl e, s') \<longrightarrow> E e)"

text \<open>
  What the specification says the frame loop renders: for every frame in turn, the
  template drawn onto what the render target holds and the frame drawn onto that; the
  render target is not cleared between frames.
\<close>

fun rendered_frames :: "world \<Rightarrow> surface \<Rightarrow> surface list \<Rightarrow> surface \<Rightarrow> surface list" where
  "rendered_frames w template [] canvas = []"
| "rendered_frames w template (frame # frames) canvas =
     (let canvas' = draw_over w frame (draw_over w template canvas)
      in canvas' # rendered_frames w template frames canvas')"

section \<open>A small environment to run the program in\<close>

text \<open>
  Used where a statement is instantiated at concrete data. An image file here is six
  bytes: width, height and the one colour of all its pixels. The blend keeps an opaque
  source pixel and otherwise the destination. No outside call fails. The directory
  \<^verbatim>\<open>locked\<close> holds an entry whose status cannot be read.
\<close>

definition example_decode :: "8 word list \<Rightarrow> surface option" where
  "example_decode bytes =
     (case bytes of
        [w, h, b, g, r, a] \<Rightarrow>
          Some \<lparr>extent = \<lparr>width = ucast w, height = ucast h\<rparr>,
                pixels = (\<lambda>x y. \<lparr>blue = b, green = g, red = r, alpha = a\<rparr>)\<rparr>
      | _ \<Rightarrow> None)"

definition example_blend :: "pixel \<Rightarrow> pixel \<Rightarrow> pixel" where
  "example_blend src dst = (if alpha src = 0xFF then src else dst)"

definition example_files :: "(wstring \<times> node) list" where
  "example_files =
     [(L ''frames'', Directory
         [(L ''b.png'', RegularFile [2, 1, 0, 0, 0xFF, 0xFF]),
          (L ''notes.txt'', RegularFile [1, 2, 3]),
          (L ''old.png'', Directory [(L ''z.png'', RegularFile [2, 1, 9, 9, 9, 0xFF])]),
          (L ''.png'', RegularFile [2, 1, 7, 7, 7, 0xFF]),
          (L ''a.png'', RegularFile [2, 1, 0xFF, 0, 0, 0xFF])]),
      (L ''single'', Directory [(L ''only.png'', RegularFile [1, 1, 0, 0xFF, 0, 0xFF])]),
      (L ''mixed'', Directory
         [(L ''a.png'', RegularFile [2, 1, 0, 0, 0, 0xFF]),
          (L ''b.png'', RegularFile [1, 2, 0, 0, 0, 0xFF])]),
      (L ''backgrounds'', Directory
         [(L ''bg2.png'', RegularFile [2, 1, 0, 0xFF, 0, 0xFF]),
          (L ''bg1.png'', RegularFile [2, 1, 5, 5, 5, 0])]),
      (L ''wide'', Directory [(L ''bg.png'', RegularFile [3, 1, 0, 0, 0, 0xFF])]),
      (L ''empty'', Directory []),
      (L ''file.png'', RegularFile [2, 1, 0, 0, 0, 0xFF]),
      (L ''locked'', Directory
         [(L ''a.png'', RegularFile [2, 1, 0, 0, 0, 0xFF]),
          (L ''b.png'', Unreadable)])]"

definition example_world :: world where
  "example_world =
     \<lparr>canonical = (\<lambda>p. case map_of example_files p of None \<Rightarrow> None | Some _ \<Rightarrow> Some p),
      status = map_of example_files,
      decode = example_decode,
      blend = example_blend,
      uninitialized = (\<lambda>x y. \<lparr>blue = 0, green = 0, red = 0, alpha = 0\<rparr>),
      succeeds = (\<lambda>_ _. True)\<rparr>"

definition example_cli :: wcli where
  "example_cli =
     \<lparr>GetFlag = (\<lambda>args flag. flag \<in> set args),
      GetFlag2 = (\<lambda>args flag alias. flag \<in> set args \<or> alias \<in> set args),
      GetFlagValue = (\<lambda>args flag alias.
        case dropWhile (\<lambda>a. a \<noteq> flag \<and> a \<noteq> alias) args of
          _ # v # _ \<Rightarrow> v
        | _ \<Rightarrow> [])\<rparr>"

section \<open>Running the monad\<close>

lemma io_bind_Inr:
  "io_bind m f s = (Inr y, s'') \<longleftrightarrow> (\<exists>x s'. m s = (Inr x, s') \<and> f x s' = (Inr y, s''))"
  by (auto simp: io_bind_def split: prod.splits sum.splits)

lemma io_bind_Inl:
  "io_bind m f s = (Inl e, s'') \<longleftrightarrow>
     m s = (Inl e, s'') \<or> (\<exists>x s'. m s = (Inr x, s') \<and> f x s' = (Inl e, s''))"
  by (auto simp: io_bind_def split: prod.splits sum.splits)

lemma io_return_eq: "io_return x s = (r, s') \<longleftrightarrow> r = Inr x \<and> s' = s"
  by (auto simp: io_return_def)

lemma io_throw_eq: "io_throw e s = (r, s') \<longleftrightarrow> r = Inl e \<and> s' = s"
  by (auto simp: io_throw_def)

lemma emit_eq: "emit e s = (r, s') \<longleftrightarrow> r = Inr () \<and> s' = s\<lparr>trace := trace s @ [e]\<rparr>"
  by (auto simp: emit_def)

lemma call_Inr:
  "call w e s = (Inr u, s') \<longleftrightarrow> succeeds w (trace s) e \<and> s' = s\<lparr>trace := trace s @ [e]\<rparr>"
  by (auto simp: call_def)

lemma call_Inl:
  "call w e s = (Inl x, s') \<longleftrightarrow>
     \<not> succeeds w (trace s) e \<and> x = call_failed e \<and> s' = s\<lparr>trace := trace s @ [e]\<rparr>"
  by (auto simp: call_def)

lemma call_fs_Inr:
  "call_fs w e s = (Inr u, s') \<longleftrightarrow> succeeds w (trace s) e \<and> s' = s\<lparr>trace := trace s @ [e]\<rparr>"
  by (auto simp: call_fs_def)

lemma call_fs_Inl:
  "call_fs w e s = (Inl x, s') \<longleftrightarrow>
     \<not> succeeds w (trace s) e \<and> x = filesystem_error \<and> s' = s\<lparr>trace := trace s @ [e]\<rparr>"
  by (auto simp: call_fs_def)

lemma get_state_eq: "get_state s = (r, s') \<longleftrightarrow> r = Inr s \<and> s' = s"
  by (auto simp: get_state_def)

lemma modify_eq: "modify f s = (r, s') \<longleftrightarrow> r = Inr () \<and> s' = f s"
  by (auto simp: modify_def)

lemma new_texture_eq:
  "new_texture sf s = (r, s') \<longleftrightarrow>
     r = Inr (next_handle s) \<and>
     s' = s\<lparr>surfaces := (surfaces s)(next_handle s := Some sf), next_handle := Suc (next_handle s)\<rparr>"
  by (auto simp: new_texture_def)

lemmas io_simps = io_bind_Inr io_bind_Inl io_return_eq io_throw_eq emit_eq call_Inr call_Inl
  call_fs_Inr call_fs_Inl get_state_eq modify_eq new_texture_eq

section \<open>The image loader\<close>

lemma is_directory_eq:
  "is_directory w p s =
     ((case status w p of
         Some (Directory _) \<Rightarrow> Inr True
       | Some Unreadable \<Rightarrow> Inl filesystem_error
       | _ \<Rightarrow> Inr False), s)"
  by (simp add: is_directory_def io_return_def io_throw_def split: option.splits node.splits)

lemma png_has_extension: "extension name = L ''.png'' \<Longrightarrow> has_extension name"
  by (simp add: has_extension_def L_def)

lemma collect_files_Cons:
  "collect_files (entry # entries) files s =
     (if snd entry = Unreadable then (Inl filesystem_error, s)
      else collect_files entries
             (if regular_file (snd entry) \<and> extension (fst entry) = L ''.png''
              then files @ [fst entry] else files) s)"
  by (cases "snd entry")
     (simp_all add: Let_def io_bind_def io_return_def io_throw_def png_has_extension)

lemma collect_files_eq:
  "collect_files entries files s =
     (if Unreadable \<in> snd ` set entries then Inl filesystem_error
      else Inr (files @ png_names entries), s)"
proof (induction entries arbitrary: files)
  case Nil
  then show ?case by (simp add: io_return_def png_names_def)
next
  case (Cons entry entries)
  show ?case
    unfolding collect_files_Cons Cons.IH by (cases entry) (auto simp: png_names_def)
qed

lemma load_one:
  assumes "winrt_GetFileAsync w folder filename s = (Inr bytes, s1)"
      and "call w (OpenReadAsync filename) s1 = (Inr u, s2)"
      and "util_LoadTextureFromStreamAsync w filename bytes s2 = (Inr tex, s3)"
      and "CreateBitmapFromTexture w tex s3 = (Inr bitmap, s4)"
    shows "\<exists>sf. map_of folder filename = Some (RegularFile bytes) \<and> decode w bytes = Some sf \<and>
        bitmap = \<lparr>texture = next_handle s, pixel_size = extent sf\<rparr> \<and>
        surfaces s4 = (surfaces s)(next_handle s := Some sf) \<and>
        next_handle s4 = Suc (next_handle s) \<and> target s4 = target s"
  using assms
  by (auto simp: winrt_GetFileAsync_def util_LoadTextureFromStreamAsync_def
      CreateBitmapFromTexture_def io_simps
      split: option.splits node.splits)

lemma load_files_Inr:
  "load_files w folder files acc s = (Inr bitmaps, s') \<Longrightarrow>
     \<exists>new. bitmaps = acc @ new \<and>
       list_all2 (\<lambda>name bitmap. loaded_from w folder s' name bitmap \<and>
          next_handle s \<le> texture bitmap \<and> texture bitmap < next_handle s') files new \<and>
       next_handle s \<le> next_handle s' \<and>
       (\<forall>h<next_handle s. surfaces s' h = surfaces s h) \<and> target s' = target s"
proof (induction files arbitrary: acc s)
  case Nil
  then show ?case by (simp add: io_simps)
next
  case (Cons filename files)
  from Cons.prems obtain bytes s1 u s2 tex s3 bitmap s4 where
    steps: "winrt_GetFileAsync w folder filename s = (Inr bytes, s1)"
      "call w (OpenReadAsync filename) s1 = (Inr u, s2)"
      "util_LoadTextureFromStreamAsync w filename bytes s2 = (Inr tex, s3)"
      "CreateBitmapFromTexture w tex s3 = (Inr bitmap, s4)"
    and rest: "load_files w folder files (acc @ [bitmap]) s4 = (Inr bitmaps, s')"
    by (auto simp: io_bind_Inr)
  from load_one[OF steps] obtain sf where
    one: "map_of folder filename = Some (RegularFile bytes)" "decode w bytes = Some sf"
      "bitmap = \<lparr>texture = next_handle s, pixel_size = extent sf\<rparr>"
      "surfaces s4 = (surfaces s)(next_handle s := Some sf)"
      "next_handle s4 = Suc (next_handle s)" "target s4 = target s"
    by blast
  from Cons.IH[OF rest] obtain new where
    new: "bitmaps = (acc @ [bitmap]) @ new"
      "list_all2 (\<lambda>name bitmap. loaded_from w folder s' name bitmap \<and>
          next_handle s4 \<le> texture bitmap \<and> texture bitmap < next_handle s') files new"
      "next_handle s4 \<le> next_handle s'"
      "\<forall>h<next_handle s4. surfaces s' h = surfaces s4 h" "target s' = target s4"
    by blast
  have here: "loaded_from w folder s' filename bitmap"
    using one new(4) by (simp add: loaded_from_def)
  have later: "list_all2 (\<lambda>name bitmap. loaded_from w folder s' name bitmap \<and>
          next_handle s \<le> texture bitmap \<and> texture bitmap < next_handle s') files new"
    using new(2) one(5) by (auto elim!: list_all2_mono)
  have "list_all2 (\<lambda>name bitmap. loaded_from w folder s' name bitmap \<and>
          next_handle s \<le> texture bitmap \<and> texture bitmap < next_handle s')
          (filename # files) (bitmap # new)"
    using here later one(3,5) new(3) by simp
  moreover have "\<forall>h<next_handle s. surfaces s' h = surfaces s h"
    using new(4) one(4,5) by simp
  ultimately show ?case
    using new(1,3,5) one(5,6) by (intro exI[of _ "bitmap # new"]) simp
qed


lemmas loader_defs = LoadBitmapsAsync_def io_bind_def io_return_def io_throw_def
  emit_def call_def call_fs_def get_state_def example_world_def example_files_def example_decode_def
  is_directory_def directory_entries_def L_def extension_def has_extension_def dot_def
  winrt_GetFileAsync_def util_LoadTextureFromStreamAsync_def CreateBitmapFromTexture_def new_texture_def
  Let_def

lemma example_load_frames:
  "LoadBitmapsAsync example_world (L ''frames'') s =
     (Inr [\<lparr>texture = next_handle s, pixel_size = \<lparr>width = 2, height = 1\<rparr>\<rparr>,
           \<lparr>texture = Suc (next_handle s), pixel_size = \<lparr>width = 2, height = 1\<rparr>\<rparr>],
      s\<lparr>trace := trace s @
           [fs_canonical (L ''frames''), fs_directory_iterator (L ''frames''),
            GetFolderFromPathAsync (L ''frames''),
            GetFileAsync (L ''a.png''), OpenReadAsync (L ''a.png''),
            LoadTextureFromStreamAsync (L ''a.png''), CreateBitmapFromDxgiSurface (next_handle s),
            GetFileAsync (L ''b.png''), OpenReadAsync (L ''b.png''),
            LoadTextureFromStreamAsync (L ''b.png''),
            CreateBitmapFromDxgiSurface (Suc (next_handle s))],
         surfaces := (surfaces s)
           (next_handle s := Some \<lparr>extent = \<lparr>width = 2, height = 1\<rparr>,
              pixels = (\<lambda>x y. \<lparr>blue = 0xFF, green = 0, red = 0, alpha = 0xFF\<rparr>)\<rparr>,
            Suc (next_handle s) := Some \<lparr>extent = \<lparr>width = 2, height = 1\<rparr>,
              pixels = (\<lambda>x y. \<lparr>blue = 0, green = 0, red = 0xFF, alpha = 0xFF\<rparr>)\<rparr>),
         next_handle := Suc (Suc (next_handle s))\<rparr>)"
  by (simp add: loader_defs)

lemma example_load_missing:
  "LoadBitmapsAsync example_world (L ''missing'') s =
     (Inl filesystem_error, s\<lparr>trace := trace s @ [fs_canonical (L ''missing'')]\<rparr>)"
  by (simp add: loader_defs)

lemma example_load_file:
  "LoadBitmapsAsync example_world (L ''file.png'') s =
     (Inl (hresult_invalid_argument (L ''Path was not a folder!'')),
      s\<lparr>trace := trace s @ [fs_canonical (L ''file.png'')]\<rparr>)"
  by (simp add: loader_defs)

lemma example_load_locked:
  "LoadBitmapsAsync example_world (L ''locked'') s =
     (Inl filesystem_error,
      s\<lparr>trace := trace s @ [fs_canonical (L ''locked''), fs_directory_iterator (L ''locked'')]\<rparr>)"
  by (simp add: loader_defs)


lemma LoadBitmapsAsync_Inl:
  assumes "canonical w path = Some fullPath"
  shows "(\<forall>entries. status w fullPath \<noteq> Some (Directory entries)) \<Longrightarrow>
      \<exists>e. LoadBitmapsAsync w path s = (Inl e, s\<lparr>trace := trace s @ [fs_canonical path]\<rparr>) \<and>
        InvalidPathError e"
    and "status w fullPath = Some (Directory entries) \<Longrightarrow> Unreadable \<in> snd ` set entries \<Longrightarrow>
      LoadBitmapsAsync w path s =
        (Inl filesystem_error,
         s\<lparr>trace := trace s @ [fs_canonical path, fs_directory_iterator fullPath]\<rparr>)"
proof -
  let ?s1 = "s\<lparr>trace := trace s @ [fs_canonical path]\<rparr>"
  have start: "LoadBitmapsAsync w path s =
      io_bind (is_directory w fullPath) (\<lambda>dir.
         if \<not> dir
         then io_throw (hresult_invalid_argument (L ''Path was not a folder!''))
         else
           io_bind (call_fs w (fs_directory_iterator fullPath)) (\<lambda>_.
           io_bind (collect_files (directory_entries w fullPath) []) (\<lambda>files.
           let files = sort files in
           io_bind (call w (GetFolderFromPathAsync fullPath)) (\<lambda>_.
           load_files w (directory_entries w fullPath) files [])))) ?s1"
    by (simp add: LoadBitmapsAsync_def io_bind_def emit_def assms)
  {
    assume no: "\<forall>entries. status w fullPath \<noteq> Some (Directory entries)"
    have "is_directory w fullPath ?s1 = (Inl filesystem_error, ?s1) \<or>
        is_directory w fullPath ?s1 = (Inr False, ?s1)"
      using no by (auto simp: is_directory_eq split: option.splits node.splits)
    then show "\<exists>e. LoadBitmapsAsync w path s = (Inl e, ?s1) \<and> InvalidPathError e"
      unfolding start by (auto simp: io_bind_def io_throw_def InvalidPathError_def)
  }
  {
    assume dir: "status w fullPath = Some (Directory entries)"
      and bad: "Unreadable \<in> snd ` set entries"
    have d: "is_directory w fullPath ?s1 = (Inr True, ?s1)"
      by (simp add: is_directory_eq dir)
    show "LoadBitmapsAsync w path s =
        (Inl filesystem_error,
         s\<lparr>trace := trace s @ [fs_canonical path, fs_directory_iterator fullPath]\<rparr>)"
      unfolding start using bad
      by (simp add: io_bind_def d call_fs_def collect_files_eq directory_entries_def dir)
  }
qed

lemma LoadBitmapsAsync_Inr:
  assumes "LoadBitmapsAsync w path s = (Inr bitmaps, s')"
  shows "\<exists>fullPath entries. canonical w path = Some fullPath \<and>
      status w fullPath = Some (Directory entries) \<and>
      Unreadable \<notin> snd ` set entries \<and>
      list_all2 (\<lambda>name bitmap. loaded_from w entries s' name bitmap \<and>
          next_handle s \<le> texture bitmap \<and> texture bitmap < next_handle s')
        (sort (png_names entries)) bitmaps \<and>
      next_handle s \<le> next_handle s' \<and>
      (\<forall>h<next_handle s. surfaces s' h = surfaces s h) \<and> target s' = target s"
proof -
  from assms obtain fullPath where full: "canonical w path = Some fullPath"
    by (auto simp: LoadBitmapsAsync_def io_simps split: option.splits)
  have dir: "\<exists>entries. status w fullPath = Some (Directory entries)"
  proof (rule ccontr)
    assume "\<not> ?thesis"
    then have "\<forall>entries. status w fullPath \<noteq> Some (Directory entries)"
      by simp
    from LoadBitmapsAsync_Inl(1)[OF full this, of s] assms show False
      by auto
  qed
  then obtain entries where entries: "status w fullPath = Some (Directory entries)"
    by (elim exE)
  have readable: "Unreadable \<notin> snd ` set entries"
  proof
    assume "Unreadable \<in> snd ` set entries"
    from LoadBitmapsAsync_Inl(2)[OF full entries this, of s] assms show False
      by simp
  qed
  let ?s1 = "s\<lparr>trace := trace s @ [fs_canonical path, fs_directory_iterator fullPath,
                 GetFolderFromPathAsync fullPath]\<rparr>"
  have d: "\<And>t. is_directory w fullPath t = (Inr True, t)"
    by (simp add: is_directory_eq entries)
  from assms full entries readable
  have run: "load_files w entries (sort (png_names entries)) [] ?s1 = (Inr bitmaps, s')"
    by (auto simp: LoadBitmapsAsync_def io_simps d directory_entries_def collect_files_eq)
  from load_files_Inr[OF run] full entries readable show ?thesis
    by auto
qed

lemma load_files_ok:
  assumes ok: "\<And>tr e. succeeds w tr e"
  shows "\<forall>name\<in>set files. \<exists>bytes sf.
      map_of folder name = Some (RegularFile bytes) \<and> decode w bytes = Some sf \<Longrightarrow>
    \<exists>bitmaps s'. load_files w folder files acc s = (Inr bitmaps, s')"
proof (induction files arbitrary: acc s)
  case Nil
  show ?case by (simp add: io_return_def)
next
  case (Cons filename files)
  from Cons.prems obtain bytes sf where
    here: "map_of folder filename = Some (RegularFile bytes)" "decode w bytes = Some sf"
    by auto
  let ?s4 = "s\<lparr>surfaces := (surfaces s)(next_handle s := Some sf),
      next_handle := Suc (next_handle s),
      trace := trace s @
        [GetFileAsync filename, OpenReadAsync filename, LoadTextureFromStreamAsync filename,
         CreateBitmapFromDxgiSurface (next_handle s)]\<rparr>"
  let ?bitmap = "\<lparr>texture = next_handle s, pixel_size = extent sf\<rparr>"
  have step: "load_files w folder (filename # files) acc s =
      load_files w folder files (acc @ [?bitmap]) ?s4"
    by (simp add: winrt_GetFileAsync_def util_LoadTextureFromStreamAsync_def
        CreateBitmapFromTexture_def io_bind_def call_def ok here new_texture_def get_state_def
        io_return_def)
  have "\<forall>name\<in>set files. \<exists>bytes sf.
      map_of folder name = Some (RegularFile bytes) \<and> decode w bytes = Some sf"
    using Cons.prems by simp
  from Cons.IH[OF this] show ?case
    unfolding step .
qed

lemma png_names_entry:
  assumes "name \<in> set (png_names entries)"
  shows "\<exists>bytes. (name, RegularFile bytes) \<in> set entries \<and> extension name = L ''.png''"
proof -
  from assms obtain nd where nd: "(name, nd) \<in> set entries" "regular_file nd"
    "extension name = L ''.png''"
    by (auto simp: png_names_def)
  from nd(2) obtain bytes where "nd = RegularFile bytes"
    by (cases nd) simp_all
  with nd show ?thesis
    by blast
qed

lemma LoadBitmapsAsync_ok:
  assumes ok: "\<And>tr e. succeeds w tr e"
      and full: "canonical w path = Some fullPath"
      and dir: "status w fullPath = Some (Directory entries)"
      and readable: "Unreadable \<notin> snd ` set entries"
      and names: "distinct (map fst entries)"
      and decodes: "\<forall>name bytes. (name, RegularFile bytes) \<in> set entries \<and>
          extension name = L ''.png'' \<longrightarrow> decode w bytes \<noteq> None"
  shows "\<exists>bitmaps s'. LoadBitmapsAsync w path s = (Inr bitmaps, s')"
proof -
  let ?s1 = "s\<lparr>trace := trace s @ [fs_canonical path, fs_directory_iterator fullPath,
                 GetFolderFromPathAsync fullPath]\<rparr>"
  have d: "\<And>t. is_directory w fullPath t = (Inr True, t)"
    by (simp add: is_directory_eq dir)
  have start: "LoadBitmapsAsync w path s =
      load_files w entries (sort (png_names entries)) [] ?s1"
    using readable
    by (simp add: LoadBitmapsAsync_def io_bind_def emit_def full d call_fs_def call_def ok
        collect_files_eq directory_entries_def dir)
  have "\<forall>name\<in>set (sort (png_names entries)). \<exists>bytes sf.
      map_of entries name = Some (RegularFile bytes) \<and> decode w bytes = Some sf"
  proof
    fix name assume "name \<in> set (sort (png_names entries))"
    then have "name \<in> set (png_names entries)"
      by simp
    from png_names_entry[OF this] obtain bytes where
      e: "(name, RegularFile bytes) \<in> set entries" "extension name = L ''.png''"
      by blast
    from names e(1) have "map_of entries name = Some (RegularFile bytes)"
      by simp
    moreover from decodes e obtain sf where "decode w bytes = Some sf"
      by blast
    ultimately show "\<exists>bytes sf.
      map_of entries name = Some (RegularFile bytes) \<and> decode w bytes = Some sf"
      by blast
  qed
  from load_files_ok[OF ok this] show ?thesis
    unfolding start .
qed

text \<open>
  Claim C7. Given a path, the loader fails with \<open>InvalidPathError\<close> when the path does
  not exist or is not a directory. It fails with \<^verbatim>\<open>filesystem_error\<close> when the
  directory holds an entry whose status cannot be read. When it returns, the path is a
  directory, the file names it took are exactly the regular files directly in that
  directory whose extension is \<^verbatim>\<open>.png\<close> (entries of subdirectories are never looked
  at), in ascending lexicographic order, and the returned bitmaps are the decoded files
  in that same order. And it does return when the path is a directory whose entries have
  different names and a status that can be read, every \<^verbatim>\<open>.png\<close> file among them
  decodes, and no outside call fails.
\<close>

theorem LoadBitmapsAsync_contract:
  "(canonical w path = None \<longrightarrow>
      (\<exists>e s'. LoadBitmapsAsync w path s = (Inl e, s') \<and> InvalidPathError e)) \<and>
   (\<forall>fullPath. canonical w path = Some fullPath \<and>
        (\<forall>entries. status w fullPath \<noteq> Some (Directory entries)) \<longrightarrow>
      (\<exists>e s'. LoadBitmapsAsync w path s = (Inl e, s') \<and> InvalidPathError e)) \<and>
   (\<forall>fullPath entries. canonical w path = Some fullPath \<and>
        status w fullPath = Some (Directory entries) \<and> Unreadable \<in> snd ` set entries \<longrightarrow>
      (\<exists>s'. LoadBitmapsAsync w path s = (Inl filesystem_error, s'))) \<and>
   (\<forall>bitmaps s'. LoadBitmapsAsync w path s = (Inr bitmaps, s') \<longrightarrow>
      (\<exists>fullPath entries names.
         canonical w path = Some fullPath \<and> status w fullPath = Some (Directory entries) \<and>
         Unreadable \<notin> snd ` set entries \<and>
         mset names = mset (png_names entries) \<and> sorted names \<and>
         list_all2 (loaded_from w entries s') names bitmaps)) \<and>
   (\<forall>fullPath entries. canonical w path = Some fullPath \<and>
        status w fullPath = Some (Directory entries) \<and> Unreadable \<notin> snd ` set entries \<and>
        distinct (map fst entries) \<and>
        (\<forall>name bytes. (name, RegularFile bytes) \<in> set entries \<and>
           extension name = L ''.png'' \<longrightarrow> decode w bytes \<noteq> None) \<and>
        (\<forall>tr e. succeeds w tr e) \<longrightarrow>
      (\<exists>bitmaps s'. LoadBitmapsAsync w path s = (Inr bitmaps, s')))"
proof (intro conjI allI impI)
  assume "canonical w path = None"
  then show "\<exists>e s'. LoadBitmapsAsync w path s = (Inl e, s') \<and> InvalidPathError e"
    by (simp add: LoadBitmapsAsync_def io_bind_def emit_def io_throw_def InvalidPathError_def)
next
  fix fullPath
  assume "canonical w path = Some fullPath \<and>
        (\<forall>entries. status w fullPath \<noteq> Some (Directory entries))"
  then have "canonical w path = Some fullPath"
    "\<forall>entries. status w fullPath \<noteq> Some (Directory entries)"
    by simp_all
  from LoadBitmapsAsync_Inl(1)[OF this, of s]
  show "\<exists>e s'. LoadBitmapsAsync w path s = (Inl e, s') \<and> InvalidPathError e"
    by blast
next
  fix fullPath entries
  assume "canonical w path = Some fullPath \<and>
        status w fullPath = Some (Directory entries) \<and> Unreadable \<in> snd ` set entries"
  then have "canonical w path = Some fullPath" "status w fullPath = Some (Directory entries)"
    "Unreadable \<in> snd ` set entries"
    by simp_all
  from LoadBitmapsAsync_Inl(2)[OF this, of s]
  show "\<exists>s'. LoadBitmapsAsync w path s = (Inl filesystem_error, s')"
    by (rule exI)
next
  fix bitmaps s'
  assume "LoadBitmapsAsync w path s = (Inr bitmaps, s')"
  from LoadBitmapsAsync_Inr[OF this] obtain fullPath entries where
    *: "canonical w path = Some fullPath" "status w fullPath = Some (Directory entries)"
      "Unreadable \<notin> snd ` set entries"
      "list_all2 (\<lambda>name bitmap. loaded_from w entries s' name bitmap \<and>
          next_handle s \<le> texture bitmap \<and> texture bitmap < next_handle s')
        (sort (png_names entries)) bitmaps"
    by blast
  from *(4) have "list_all2 (loaded_from w entries s') (sort (png_names entries)) bitmaps"
    by (auto elim!: list_all2_mono)
  with *(1,2,3) show "\<exists>fullPath entries names.
         canonical w path = Some fullPath \<and> status w fullPath = Some (Directory entries) \<and>
         Unreadable \<notin> snd ` set entries \<and>
         mset names = mset (png_names entries) \<and> sorted names \<and>
         list_all2 (loaded_from w entries s') names bitmaps"
    by (intro exI[of _ fullPath] exI[of _ entries] exI[of _ "sort (png_names entries)"]) simp
next
  fix fullPath entries
  assume "canonical w path = Some fullPath \<and>
        status w fullPath = Some (Directory entries) \<and> Unreadable \<notin> snd ` set entries \<and>
        distinct (map fst entries) \<and>
        (\<forall>name bytes. (name, RegularFile bytes) \<in> set entries \<and>
           extension name = L ''.png'' \<longrightarrow> decode w bytes \<noteq> None) \<and>
        (\<forall>tr e. succeeds w tr e)"
  then have ok: "\<And>tr e. succeeds w tr e"
    and rest: "canonical w path = Some fullPath" "status w fullPath = Some (Directory entries)"
      "Unreadable \<notin> snd ` set entries" "distinct (map fst entries)"
      "\<forall>name bytes. (name, RegularFile bytes) \<in> set entries \<and>
           extension name = L ''.png'' \<longrightarrow> decode w bytes \<noteq> None"
    by simp_all
  from ok rest show "\<exists>bitmaps s'. LoadBitmapsAsync w path s = (Inr bitmaps, s')"
    by (rule LoadBitmapsAsync_ok)
qed

lemma example_png_names:
  "png_names [(L ''b.png'', RegularFile [2, 1, 0, 0, 0xFF, 0xFF]),
          (L ''notes.txt'', RegularFile [1, 2, 3]),
          (L ''old.png'', Directory [(L ''z.png'', RegularFile [2, 1, 9, 9, 9, 0xFF])]),
          (L ''.png'', RegularFile [2, 1, 7, 7, 7, 0xFF]),
          (L ''a.png'', RegularFile [2, 1, 0xFF, 0, 0, 0xFF])] = [L ''b.png'', L ''a.png'']"
  by (simp add: png_names_def L_def extension_def dot_def)

text \<open>
  The contract at the example environment: a missing path, a path to a file, the
  directory \<^verbatim>\<open>locked\<close> with an entry whose status cannot be read, and the directory
  \<^verbatim>\<open>frames\<close>, whose five entries yield \<^verbatim>\<open>a.png\<close> and \<^verbatim>\<open>b.png\<close>.
\<close>

theorem LoadBitmapsAsync_contract_witness:
  "(\<exists>e s'. LoadBitmapsAsync example_world (L ''missing'') initial_state = (Inl e, s') \<and>
       InvalidPathError e) \<and>
   (\<exists>e s'. LoadBitmapsAsync example_world (L ''file.png'') initial_state = (Inl e, s') \<and>
       InvalidPathError e) \<and>
   (\<exists>s'. LoadBitmapsAsync example_world (L ''locked'') initial_state =
       (Inl filesystem_error, s')) \<and>
   (\<exists>bitmaps s' entries.
       LoadBitmapsAsync example_world (L ''frames'') initial_state = (Inr bitmaps, s') \<and>
       length bitmaps = 2 \<and>
       list_all2 (loaded_from example_world entries s') [L ''a.png'', L ''b.png''] bitmaps)"
proof (intro conjI)
  have "canonical example_world (L ''missing'') = None"
    by (simp add: example_world_def example_files_def L_def)
  with LoadBitmapsAsync_contract[of example_world "L ''missing''" initial_state]
  show "\<exists>e s'. LoadBitmapsAsync example_world (L ''missing'') initial_state = (Inl e, s') \<and>
       InvalidPathError e"
    by blast
next
  have "canonical example_world (L ''file.png'') = Some (L ''file.png'') \<and>
        (\<forall>entries. status example_world (L ''file.png'') \<noteq> Some (Directory entries))"
    by (simp add: example_world_def example_files_def L_def)
  with LoadBitmapsAsync_contract[of example_world "L ''file.png''" initial_state]
  show "\<exists>e s'. LoadBitmapsAsync example_world (L ''file.png'') initial_state = (Inl e, s') \<and>
       InvalidPathError e"
    by blast
next
  have "canonical example_world (L ''locked'') = Some (L ''locked'') \<and>
        status example_world (L ''locked'') =
          Some (Directory [(L ''a.png'', RegularFile [2, 1, 0, 0, 0, 0xFF]),
                           (L ''b.png'', Unreadable)]) \<and>
        Unreadable \<in> snd ` set [(L ''a.png'', RegularFile [2, 1, 0, 0, 0, 0xFF]),
                           (L ''b.png'', Unreadable)]"
    by (simp add: example_world_def example_files_def L_def)
  with LoadBitmapsAsync_contract[of example_world "L ''locked''" initial_state]
  show "\<exists>s'. LoadBitmapsAsync example_world (L ''locked'') initial_state =
       (Inl filesystem_error, s')"
    by blast
next
  let ?entries = "[(L ''b.png'', RegularFile [2, 1, 0, 0, 0xFF, 0xFF]),
          (L ''notes.txt'', RegularFile [1, 2, 3]),
          (L ''old.png'', Directory [(L ''z.png'', RegularFile [2, 1, 9, 9, 9, 0xFF])]),
          (L ''.png'', RegularFile [2, 1, 7, 7, 7, 0xFF]),
          (L ''a.png'', RegularFile [2, 1, 0xFF, 0, 0, 0xFF])]"
  have full: "canonical example_world (L ''frames'') = Some (L ''frames'')"
    and dir: "status example_world (L ''frames'') = Some (Directory ?entries)"
    by (simp_all add: example_world_def example_files_def L_def)
  have readable: "Unreadable \<notin> snd ` set ?entries"
    by simp
  have names: "distinct (map fst ?entries)"
    by (simp add: L_def)
  have decodes: "\<forall>name bytes. (name, RegularFile bytes) \<in> set ?entries \<and>
      extension name = L ''.png'' \<longrightarrow> decode example_world bytes \<noteq> None"
    by (auto simp: example_world_def example_decode_def L_def extension_def dot_def)
  have ok: "\<forall>tr e. succeeds example_world tr e"
    by (simp add: example_world_def)
  note contract = LoadBitmapsAsync_contract[of example_world "L ''frames''" initial_state]
  from contract full dir readable names decodes ok
  have "\<exists>bitmaps s'.
      LoadBitmapsAsync example_world (L ''frames'') initial_state = (Inr bitmaps, s')"
    by blast
  then obtain bitmaps s' where
    run: "LoadBitmapsAsync example_world (L ''frames'') initial_state = (Inr bitmaps, s')"
    by (elim exE)
  with contract obtain fullPath entries names where
    *: "canonical example_world (L ''frames'') = Some fullPath"
       "status example_world fullPath = Some (Directory entries)"
       "mset names = mset (png_names entries)" "sorted names"
       "list_all2 (loaded_from example_world entries s') names bitmaps"
    by blast
  from *(1) have "fullPath = L ''frames''"
    by (simp add: example_world_def example_files_def L_def)
  with *(2) have "png_names entries = [L ''b.png'', L ''a.png'']"
    using example_png_names by (auto simp: example_world_def example_files_def)
  with *(3,4) have "sort [L ''b.png'', L ''a.png''] = names"
    by (intro properties_for_sort) simp_all
  then have names: "names = [L ''a.png'', L ''b.png'']"
    by (simp add: L_def)
  from *(5) have "length bitmaps = 2"
    unfolding names by (simp add: list_all2_Cons1) auto
  with run *(5) names show "\<exists>bitmaps s' entries.
       LoadBitmapsAsync example_world (L ''frames'') initial_state = (Inr bitmaps, s') \<and>
       length bitmaps = 2 \<and>
       list_all2 (loaded_from example_world entries s') [L ''a.png'', L ''b.png''] bitmaps"
    by blast
qed

section \<open>The frame loop\<close>

lemma d2d_DrawBitmap_eq:
  "d2d_DrawBitmap w bitmap s = (r, s') \<longleftrightarrow>
     r = Inr () \<and>
     s' = (case surfaces s (texture bitmap) of
             None \<Rightarrow> s\<lparr>trace := trace s @ [DrawBitmap (texture bitmap)]\<rparr>
           | Some src \<Rightarrow>
               on_target (draw_over w src) (s\<lparr>trace := trace s @ [DrawBitmap (texture bitmap)]\<rparr>))"
  by (auto simp: d2d_DrawBitmap_def io_bind_def emit_def modify_def)

lemma on_target_fields [simp]:
  "trace (on_target f s) = trace s" "target (on_target f s) = target s"
  "next_handle (on_target f s) = next_handle s"
  by (auto simp: on_target_def split: option.splits)

lemma d2d_DrawBitmap_fields:
  assumes "d2d_DrawBitmap w bitmap s = (r, s')"
  shows "r = Inr ()" "trace s' = trace s @ [DrawBitmap (texture bitmap)]"
    "target s' = target s" "next_handle s' = next_handle s"
  using assms by (auto simp: d2d_DrawBitmap_eq split: option.splits)

lemma d3d_CopyResource_fields:
  assumes "d3d_CopyResource dst src s = (r, s')"
  shows "r = Inr ()" "trace s' = trace s @ [CopyResource dst src]"
    "target s' = target s" "next_handle s' = next_handle s"
  using assms
  by (auto simp: d3d_CopyResource_def io_bind_def emit_def modify_def split: option.splits)

lemma util_CopyBytesFromTexture_Inr:
  assumes "util_CopyBytesFromTexture w tex s = (Inr bytes, s')"
  shows "s' = s\<lparr>trace := trace s @ [CopyBytesFromTexture tex bytes]\<rparr>"
    "\<exists>sf. surfaces s tex = Some sf \<and> bytes = surface_bytes sf"
  using assms
  by (auto simp: util_CopyBytesFromTexture_def io_simps split: option.splits)

lemma render_and_encode_frame_trace:
  assumes "render_and_encode_frame w frames rts frameSize 13 i s = (Inr u, s')"
  shows "\<exists>bytes. trace s' = trace s @
      frame_calls rts frameSize (frames ! i) bytes (i < length frames - 1)"
proof -
  from assms obtain s1 s2 s3 s4 s5 bytes s6 s7 s8 u1 u2 u3 u4 u5 where
    steps: "d2d_DrawBitmap w (backgroundTemplate rts) (s\<lparr>trace := trace s @ [BeginDraw]\<rparr>) = (Inr u1, s2)"
      "d2d_DrawBitmap w (frames ! i) s2 = (Inr u2, s3)"
      "call w EndDraw s3 = (Inr u3, s4)"
      "d3d_CopyResource (stagingTexture rts) (renderTargetTexture rts) s4 = (Inr u4, s5)"
      "util_CopyBytesFromTexture w (stagingTexture rts) s5 = (Inr bytes, s6)"
      "call w (BitmapProperties_SetPropertiesAsync [(L ''/grctlext/Delay'', UInt16 (ucast (13 :: 32 word)))]) s6 = (Inr u5, s7)"
      "call w (SetPixelData Bgra8 Premultiplied (width frameSize) (height frameSize) 1 1 bytes) s7 = (Inr (), s8)"
      "(if i < length frames - 1 then call w GoToNextFrameAsync else io_return ()) s8 = (Inr u, s')"
    unfolding render_and_encode_frame_def Let_def io_bind_Inr emit_eq by auto
  have "trace s2 = trace s @ [BeginDraw, DrawBitmap (texture (backgroundTemplate rts))]"
    using d2d_DrawBitmap_fields(2)[OF steps(1)] by simp
  moreover have "trace s3 = trace s2 @ [DrawBitmap (texture (frames ! i))]"
    using d2d_DrawBitmap_fields(2)[OF steps(2)] .
  moreover have "trace s4 = trace s3 @ [EndDraw]"
    using steps(3) by (simp add: call_Inr)
  moreover have "trace s5 = trace s4 @ [CopyResource (stagingTexture rts) (renderTargetTexture rts)]"
    using d3d_CopyResource_fields(2)[OF steps(4)] .
  moreover have "trace s6 = trace s5 @ [CopyBytesFromTexture (stagingTexture rts) bytes]"
    using util_CopyBytesFromTexture_Inr(1)[OF steps(5)] by simp
  moreover have "trace s7 = trace s6 @ [BitmapProperties_SetPropertiesAsync [(L ''/grctlext/Delay'', UInt16 13)]]"
    using steps(6) by (simp add: call_Inr)
  moreover have "trace s8 = trace s7 @ [SetPixelData Bgra8 Premultiplied (width frameSize) (height frameSize) 1 1 bytes]"
    using steps(7) by (simp add: call_Inr)
  moreover have "trace s' = trace s8 @ (if i < length frames - 1 then [GoToNextFrameAsync] else [])"
    using steps(8) by (auto simp: call_Inr io_return_eq split: if_splits)
  ultimately show ?thesis
    by (intro exI[of _ bytes]) (simp add: frame_calls_def)
qed

lemma frame_loop_trace:
  "frame_loop w frames rts frameSize 13 i s = (Inr u, s') \<Longrightarrow>
     \<exists>bs. length bs = length frames - i \<and>
       trace s' = trace s @
         concat (map (\<lambda>j. frame_calls rts frameSize (frames ! j) (bs ! (j - i))
                              (j < length frames - 1)) [i ..< length frames])"
proof (induction w frames rts frameSize "13 :: 32 word" i s rule: frame_loop.induct)
  case (1 w frames rts frameSize i s)
  show ?case
  proof (cases "i < length frames")
    case False
    with "1.prems" show ?thesis
      by (simp add: frame_loop.simps)
  next
    case True
    with "1.prems" obtain u1 s1 where
      body: "render_and_encode_frame w frames rts frameSize 13 i s = (Inr u1, s1)"
      and rest: "frame_loop w frames rts frameSize 13 (i + 1) s1 = (Inr u, s')"
      by (auto simp: frame_loop.simps[of w frames rts frameSize 13 i s]
          split: prod.splits sum.splits)
    from render_and_encode_frame_trace[OF body] obtain bytes where
      here: "trace s1 = trace s @
        frame_calls rts frameSize (frames ! i) bytes (i < length frames - 1)"
      by blast
    from "1.hyps"[OF True body[symmetric] refl rest] obtain bs where
      bs: "length bs = length frames - (i + 1)"
        "trace s' = trace s1 @
           concat (map (\<lambda>j. frame_calls rts frameSize (frames ! j) (bs ! (j - (i + 1)))
                                (j < length frames - 1)) [i + 1 ..< length frames])"
      by blast
    have shift: "map (\<lambda>j. frame_calls rts frameSize (frames ! j) (bs ! (j - Suc i))
                     (j < length frames - Suc 0)) [Suc i ..< length frames] =
          map (\<lambda>j. frame_calls rts frameSize (frames ! j) ((bytes # bs) ! (j - i))
                     (j < length frames - Suc 0)) [Suc i ..< length frames]"
      by (rule map_cong) (auto simp: Suc_diff_le)
    from here bs True show ?thesis
      by (intro exI[of _ "bytes # bs"]) (simp add: upt_conv_Cons shift)
  qed
qed

section \<open>Which calls a part of the program makes\<close>

lemma emitsD:
  "emits Q m \<Longrightarrow> m s = (r, s') \<Longrightarrow> \<exists>evs. trace s' = trace s @ evs \<and> list_all Q evs"
  by (auto simp: emits_def dest!: spec[of _ s])

lemma emits_new_events:
  "emits Q m \<Longrightarrow> m s = (r, s') \<Longrightarrow> list_all Q (new_events s s')"
  by (auto simp: new_events_def dest!: emitsD)

lemma emits_mono: "emits P m \<Longrightarrow> (\<And>e. P e \<Longrightarrow> Q e) \<Longrightarrow> emits Q m"
  unfolding emits_def by (metis (mono_tags, lifting) list_all_iff)

lemma emits_return [intro!]: "emits Q (io_return x)"
  by (simp add: emits_def io_return_def)

lemma emits_throw [intro!]: "emits Q (io_throw e)"
  by (simp add: emits_def io_throw_def)

lemma emits_get_state [intro!]: "emits Q get_state"
  by (simp add: emits_def get_state_def)

lemma emits_emit [intro!]: "Q e \<Longrightarrow> emits Q (emit e)"
  by (simp add: emits_def emit_def)

lemma emits_call [intro!]: "Q e \<Longrightarrow> emits Q (call w e)"
  by (simp add: emits_def call_def)

lemma emits_modify: "(\<And>s. trace (f s) = trace s) \<Longrightarrow> emits Q (modify f)"
  by (simp add: emits_def modify_def)

lemma emits_new_texture [intro!]: "emits Q (new_texture sf)"
  by (simp add: emits_def new_texture_def)

lemma emits_bind [intro!]:
  assumes "emits Q m" and "\<And>x. emits Q (f x)"
  shows "emits Q (io_bind m f)"
  unfolding emits_def
proof
  fix s
  obtain r s1 where m: "m s = (r, s1)" by (cases "m s")
  from emitsD[OF assms(1) m] obtain evs1 where
    evs1: "trace s1 = trace s @ evs1" "list_all Q evs1" by blast
  show "\<exists>evs. trace (snd (io_bind m f s)) = trace s @ evs \<and> list_all Q evs"
  proof (cases r)
    case (Inl e)
    with m evs1 show ?thesis by (auto simp: io_bind_def)
  next
    case (Inr x)
    obtain r2 s2 where f: "f x s1 = (r2, s2)" by (cases "f x s1")
    from emitsD[OF assms(2) f] obtain evs2 where
      "trace s2 = trace s1 @ evs2" "list_all Q evs2" by blast
    with m Inr f evs1 show ?thesis
      by (intro exI[of _ "evs1 @ evs2"]) (simp add: io_bind_def)
  qed
qed

lemma emits_if [intro!]:
  "(c \<Longrightarrow> emits Q a) \<Longrightarrow> (\<not> c \<Longrightarrow> emits Q b) \<Longrightarrow> emits Q (if c then a else b)"
  by simp

lemma emits_initialize_devices:
  "emits (\<lambda>e. \<not> is_drawing e \<and> \<not> is_output_call e \<and> (\<forall>p. e \<noteq> fs_canonical p))
     (initialize_devices w useDebugLayer)"
  unfolding initialize_devices_def Let_def by (intro emits_bind emits_call emits_emit) simp_all

lemma emits_CreateBitmapFromTexture:
  "Q (CreateBitmapFromDxgiSurface tex) \<Longrightarrow> emits Q (CreateBitmapFromTexture w tex)"
  unfolding CreateBitmapFromTexture_def by (auto split: option.splits)

lemma emits_load_files:
  "(\<And>e. \<not> is_drawing e \<and> \<not> is_output_call e \<and> (\<forall>p. e \<noteq> fs_canonical p) \<Longrightarrow> Q e) \<Longrightarrow>
   emits Q (load_files w folder files bitmaps)"
proof (induction files arbitrary: bitmaps)
  case Nil
  show ?case by auto
next
  case (Cons filename files)
  show ?case
    unfolding load_files.simps winrt_GetFileAsync_def util_LoadTextureFromStreamAsync_def
    by (intro emits_bind emits_call emits_CreateBitmapFromTexture Cons)
       (auto split: option.splits node.splits)
qed

lemma emits_call_fs [intro!]: "Q e \<Longrightarrow> emits Q (call_fs w e)"
  by (simp add: emits_def call_fs_def)

lemma emits_is_directory: "emits Q (is_directory w p)"
  by (simp add: emits_def is_directory_eq)

lemma emits_collect_files: "emits Q (collect_files entries files)"
  by (simp add: emits_def collect_files_eq)

lemma emits_LoadBitmapsAsync:
  "emits (\<lambda>e. \<not> is_drawing e \<and> \<not> is_output_call e \<and> (\<forall>p. e = fs_canonical p \<longrightarrow> p = path))
     (LoadBitmapsAsync w path)"
  unfolding LoadBitmapsAsync_def Let_def
  by (auto split: option.splits intro!: emits_load_files emits_is_directory emits_collect_files)

lemma emits_check_frame_sizes: "emits Q (check_frame_sizes frameSize frames)"
  by (induction frames) (auto simp: Let_def)

lemma emits_check_background_sizes: "emits Q (check_background_sizes frameSize backgrounds)"
  by (induction backgrounds) (auto simp: Let_def)

section \<open>Checks before rendering\<close>

lemma new_events_append: "trace s' = trace s @ evs \<Longrightarrow> new_events s s' = evs"
  by (simp add: new_events_def)

lemma new_events_trans:
  "trace s1 = trace s0 @ a \<Longrightarrow> trace s2 = trace s1 @ b \<Longrightarrow> new_events s0 s2 = a @ b"
  by (simp add: new_events_def)

lemma check_frame_sizes_eq:
  "check_frame_sizes frameSize frames s =
     (if \<forall>f\<in>set frames. GetPixelSize f = frameSize then (Inr (), s)
      else (Inl (hresult_invalid_argument (L ''All frames must be of the same size!'')), s))"
  by (induction frames) (auto simp: io_return_def io_throw_def Let_def)

lemma check_background_sizes_eq:
  "check_background_sizes frameSize backgrounds s =
     (if \<forall>b\<in>set backgrounds. GetPixelSize b = frameSize then (Inr (), s)
      else (Inl (hresult_invalid_argument
              (L ''All backgrounds must be of the same size as the frames!'')), s))"
  by (induction backgrounds) (auto simp: io_return_def io_throw_def Let_def)

lemma initialize_devices_ok:
  assumes "\<And>tr e. succeeds w tr e"
  shows "initialize_devices w useDebugLayer s =
     (Inr (), s\<lparr>trace := trace s @
        [CreateD3DDevice, GetImmediateContext,
         CreateD2DFactory (if useDebugLayer then D2D1_DEBUG_LEVEL_INFORMATION
                           else D2D1_DEBUG_LEVEL_NONE),
         CreateD2DDevice, CreateDeviceContext]\<rparr>)"
  by (simp add: initialize_devices_def io_bind_def call_def emit_def assms)

lemma example_succeeds: "succeeds example_world tr e"
  by (simp add: example_world_def)

lemma example_load_empty:
  "LoadBitmapsAsync example_world (L ''empty'') s =
     (Inr [], s\<lparr>trace := trace s @
        [fs_canonical (L ''empty''), fs_directory_iterator (L ''empty''),
         GetFolderFromPathAsync (L ''empty'')]\<rparr>)"
  by (simp add: loader_defs)

lemma io_bind_Inr_I: "m s = (Inr x, s') \<Longrightarrow> io_bind m f s = f x s'"
  by (simp add: io_bind_def)

lemma io_bind_Inl_I: "m s = (Inl e, s') \<Longrightarrow> io_bind m f s = (Inl e, s')"
  by (simp add: io_bind_def)

lemma MainAsync_no_frames:
  assumes "initialize_devices w useDebugLayer s0 = (Inr (), s1)"
      and "LoadBitmapsAsync w framesPath s1 = (Inr [], s2)"
  shows "MainAsync w useDebugLayer framesPath backgroundPath outputPath s0 =
     (Inr (), s2\<lparr>trace := trace s2 @ [wprintf (L ''No frames found, exiting...\<newline>'')]\<rparr>)"
  by (simp only: MainAsync_def io_bind_Inr_I[where m = "initialize_devices w useDebugLayer", OF assms(1)]
      io_bind_Inr_I[where m = "LoadBitmapsAsync w framesPath", OF assms(2)]
      list.case emit_def)

lemma MainAsync_with_frames:
  assumes "initialize_devices w useDebugLayer s0 = (Inr (), s1)"
      and "LoadBitmapsAsync w framesPath s1 = (Inr (frame0 # frames), s2)"
  shows "MainAsync w useDebugLayer framesPath backgroundPath outputPath s0 =
     io_bind (check_frame_sizes (GetPixelSize frame0) (frame0 # frames)) (\<lambda>_.
     io_bind (LoadBitmapsAsync w backgroundPath) (\<lambda>backgrounds.
     io_bind (check_background_sizes (GetPixelSize frame0) backgrounds) (\<lambda>_.
     io_bind (call w (CreateStorageFileFromPathAsync outputPath)) (\<lambda>_.
     io_bind (create_render_targets w (GetPixelSize frame0)) (\<lambda>rts.
     io_bind (draw_background_template w (backgroundTemplate rts) backgrounds) (\<lambda>_.
     io_bind (encode_frames w (frame0 # frames) rts (GetPixelSize frame0)) (\<lambda>_.
     emit (wprintf (L ''Done!\<newline>''))))))))) s2"
  by (simp only: MainAsync_def io_bind_Inr_I[where m = "initialize_devices w useDebugLayer", OF assms(1)]
      io_bind_Inr_I[where m = "LoadBitmapsAsync w framesPath", OF assms(2)]
      list.case Let_def)

lemma no_drawing_after_loading:
  assumes "initialize_devices w useDebugLayer s0 = (Inr (), s1)"
      and "LoadBitmapsAsync w framesPath s1 = (r, s2)"
  shows "list_all (\<lambda>e. \<not> is_drawing e \<and> \<not> is_output_call e) (new_events s0 s2)"
    and "backgroundPath \<noteq> framesPath \<Longrightarrow> fs_canonical backgroundPath \<notin> set (new_events s0 s2)"
    and "trace s2 = trace s0 @ new_events s0 s2"
proof -
  from emitsD[OF emits_initialize_devices assms(1)] obtain a where
    a: "trace s1 = trace s0 @ a"
       "list_all (\<lambda>e. \<not> is_drawing e \<and> \<not> is_output_call e \<and> (\<forall>p. e \<noteq> fs_canonical p)) a"
    by blast
  from emitsD[OF emits_LoadBitmapsAsync assms(2)] obtain b where
    b: "trace s2 = trace s1 @ b"
       "list_all (\<lambda>e. \<not> is_drawing e \<and> \<not> is_output_call e \<and>
          (\<forall>p. e = fs_canonical p \<longrightarrow> p = framesPath)) b"
    by blast
  have ev: "new_events s0 s2 = a @ b"
    using a(1) b(1) by (rule new_events_trans)
  show "list_all (\<lambda>e. \<not> is_drawing e \<and> \<not> is_output_call e) (new_events s0 s2)"
    using a(2) b(2) by (auto simp: ev list_all_iff)
  show "fs_canonical backgroundPath \<notin> set (new_events s0 s2)" if "backgroundPath \<noteq> framesPath"
    using a(2) b(2) that by (auto simp: ev list_all_iff)
  show "trace s2 = trace s0 @ new_events s0 s2"
    using a(1) b(1) by (simp add: ev)
qed

text \<open>
  Claim C10. When the frames directory yields no image, \<^verbatim>\<open>MainAsync\<close> returns normally
  right after printing its message: the final state is the state after loading the
  frames plus that one line, for every backgrounds path, so the backgrounds path is never
  resolved (no \<^verbatim>\<open>canonical\<close> call on it) and cannot cause an error.
\<close>

theorem no_frames_returns_before_backgrounds:
  assumes "initialize_devices w useDebugLayer s0 = (Inr (), s1)"
      and "LoadBitmapsAsync w framesPath s1 = (Inr [], s2)"
  shows "MainAsync w useDebugLayer framesPath backgroundPath outputPath s0 =
           (Inr (), s2\<lparr>trace := trace s2 @ [wprintf (L ''No frames found, exiting...\<newline>'')]\<rparr>) \<and>
         (backgroundPath \<noteq> framesPath \<longrightarrow>
            fs_canonical backgroundPath \<notin> set (new_events s0 s2))"
  using MainAsync_no_frames[OF assms] no_drawing_after_loading(2)[OF assms, of backgroundPath]
  by simp

theorem no_frames_returns_before_backgrounds_witness:
  "\<exists>s2. canonical example_world (L ''missing'') = None \<and>
     MainAsync example_world False (L ''empty'') (L ''missing'') (L ''out.gif'') initial_state =
       (Inr (), s2\<lparr>trace := trace s2 @ [wprintf (L ''No frames found, exiting...\<newline>'')]\<rparr>) \<and>
     fs_canonical (L ''missing'') \<notin> set (new_events initial_state s2)"
proof -
  obtain s1 where
    init: "initialize_devices example_world False initial_state = (Inr (), s1)"
    by (simp add: initialize_devices_ok example_succeeds)
  obtain s2 where load: "LoadBitmapsAsync example_world (L ''empty'') s1 = (Inr [], s2)"
    by (simp add: example_load_empty)
  have "L ''missing'' \<noteq> L ''empty''"
    by (simp add: L_def)
  moreover have "canonical example_world (L ''missing'') = None"
    by (simp add: example_world_def example_files_def L_def)
  ultimately show ?thesis
    using no_frames_returns_before_backgrounds[OF init load, of "L ''missing''" "L ''out.gif''"]
    by blast
qed


lemma emits_PrintHelp: "emits (\<lambda>e. \<exists>text. e = wprintf text) PrintHelp"
  unfolding PrintHelp_def by (intro emits_bind emits_emit) simp_all

lemma emits_ParseOptions: "emits (\<lambda>e. \<exists>text. e = wprintf text) (ParseOptions cli args options)"
  unfolding ParseOptions_def Let_def by (intro emits_if emits_bind emits_PrintHelp) auto

text \<open>
  Claim C8. When the command line is valid and the frames directory yields no image,
  \<^verbatim>\<open>wmain\<close> returns exit code 0 (no exception leaves it), the last thing it does is
  print the "no frames" line, and nothing it did drew anything, created or opened the
  output file, or called the encoder: no output frame is written.
\<close>

theorem no_frames_exit_code_zero:
  assumes "ParseOptions cli (drop 1 argv)
             \<lparr>UseDebugLayer = False, FramesPath = [], BackgroundPath = [], OutputPath = []\<rparr>
             (s\<lparr>trace := trace s @ [init_apartment]\<rparr>) = (Inr (Valid, options), s0)"
      and "initialize_devices w (UseDebugLayer options) s0 = (Inr (), s1)"
      and "LoadBitmapsAsync w (FramesPath options) s1 = (Inr [], s2)"
  shows "\<exists>evs. wmain w cli argv s =
           (Returned 0,
            s2\<lparr>trace := trace s @ evs @ [wprintf (L ''No frames found, exiting...\<newline>'')]\<rparr>) \<and>
         list_all (\<lambda>e. \<not> is_drawing e \<and> \<not> is_output_call e) evs"
proof -
  let ?msg = "wprintf (L ''No frames found, exiting...\<newline>'')"
  from emitsD[OF emits_ParseOptions assms(1)] obtain a where
    a: "trace s0 = trace s @ [init_apartment] @ a" "list_all (\<lambda>e. \<exists>text. e = wprintf text) a"
    by auto
  have b: "list_all (\<lambda>e. \<not> is_drawing e \<and> \<not> is_output_call e) (new_events s0 s2)"
    using assms(2,3) by (rule no_drawing_after_loading(1))
  have s2: "trace s2 = trace s0 @ new_events s0 s2"
    using assms(2,3) by (rule no_drawing_after_loading(3))
  have main: "MainAsync w (UseDebugLayer options) (FramesPath options) (BackgroundPath options)
      (OutputPath options) s0 = (Inr (), s2\<lparr>trace := trace s2 @ [?msg]\<rparr>)"
    using assms(2,3) by (rule MainAsync_no_frames)
  have parse: "io_bind (emit init_apartment) (\<lambda>_. ParseOptions cli (drop 1 argv)
       \<lparr>UseDebugLayer = False, FramesPath = [], BackgroundPath = [], OutputPath = []\<rparr>) s =
       (Inr (Valid, options), s0)"
    using assms(1) by (simp add: io_bind_def emit_def)
  have "wmain w cli argv s = (Returned 0, s2\<lparr>trace := trace s2 @ [?msg]\<rparr>)"
    unfolding wmain_def Let_def parse by (simp add: main)
  moreover have "trace s2 @ [?msg] = trace s @ ([init_apartment] @ a @ new_events s0 s2) @ [?msg]"
    using a(1) s2 by simp
  moreover have "list_all (\<lambda>e. \<not> is_drawing e \<and> \<not> is_output_call e)
      ([init_apartment] @ a @ new_events s0 s2)"
    using a(2) b by (auto simp: list_all_iff)
  ultimately show ?thesis
    by (intro exI[of _ "[init_apartment] @ a @ new_events s0 s2"]) simp
qed

lemma example_ParseOptions:
  "ParseOptions example_cli
     [L ''-f'', L ''empty'', L ''-b'', L ''missing'', L ''-o'', L ''out.gif'']
     \<lparr>UseDebugLayer = False, FramesPath = [], BackgroundPath = [], OutputPath = []\<rparr> s =
   (Inr (Valid, \<lparr>UseDebugLayer = False, FramesPath = L ''empty'',
                  BackgroundPath = L ''missing'', OutputPath = L ''out.gif''\<rparr>), s)"
  by (simp add: ParseOptions_def example_cli_def L_def io_return_def)

theorem no_frames_exit_code_zero_witness:
  "\<exists>evs s2. wmain example_world example_cli
       [L ''GifCompose.exe'', L ''-f'', L ''empty'', L ''-b'', L ''missing'', L ''-o'',
        L ''out.gif''] initial_state =
       (Returned 0,
        s2\<lparr>trace := trace initial_state @ evs @
              [wprintf (L ''No frames found, exiting...\<newline>'')]\<rparr>) \<and>
     list_all (\<lambda>e. \<not> is_drawing e \<and> \<not> is_output_call e) evs"
proof -
  let ?options = "\<lparr>UseDebugLayer = False, FramesPath = L ''empty'',
                  BackgroundPath = L ''missing'', OutputPath = L ''out.gif''\<rparr>"
  let ?argv = "[L ''GifCompose.exe'', L ''-f'', L ''empty'', L ''-b'', L ''missing'', L ''-o'',
        L ''out.gif'']"
  have parse: "ParseOptions example_cli (drop 1 ?argv)
     \<lparr>UseDebugLayer = False, FramesPath = [], BackgroundPath = [], OutputPath = []\<rparr>
     (initial_state\<lparr>trace := trace initial_state @ [init_apartment]\<rparr>) =
     (Inr (Valid, ?options), initial_state\<lparr>trace := trace initial_state @ [init_apartment]\<rparr>)"
    by (simp add: example_ParseOptions)
  obtain s1 where
    init: "initialize_devices example_world (UseDebugLayer ?options)
             (initial_state\<lparr>trace := trace initial_state @ [init_apartment]\<rparr>) = (Inr (), s1)"
    by (simp add: initialize_devices_ok example_succeeds)
  obtain s2 where
    load: "LoadBitmapsAsync example_world (FramesPath ?options) s1 = (Inr [], s2)"
    by (simp add: example_load_empty)
  from no_frames_exit_code_zero[OF parse init load] show ?thesis
    by blast
qed

lemma MainAsync_frames_mismatch:
  assumes "initialize_devices w useDebugLayer s0 = (Inr (), s1)"
      and "LoadBitmapsAsync w framesPath s1 = (Inr (frame0 # frames), s2)"
      and False: "\<not> (\<forall>f\<in>set (frame0 # frames). GetPixelSize f = GetPixelSize frame0)"
  shows "MainAsync w useDebugLayer framesPath backgroundPath outputPath s0 =
      (Inl (hresult_invalid_argument (L ''All frames must be of the same size!'')), s2)"
proof -
  from False have chk: "check_frame_sizes (GetPixelSize frame0) (frame0 # frames) s2 =
      (Inl (hresult_invalid_argument (L ''All frames must be of the same size!'')), s2)"
    by (subst check_frame_sizes_eq) (rule if_not_P)
  show "MainAsync w useDebugLayer framesPath backgroundPath outputPath s0 =
      (Inl (hresult_invalid_argument (L ''All frames must be of the same size!'')), s2)"
    by (simp only: MainAsync_with_frames[OF assms(1,2)]
        io_bind_Inl_I[where m = "check_frame_sizes (GetPixelSize frame0) (frame0 # frames)",
          OF chk])
qed

lemma MainAsync_backgrounds_mismatch:
  assumes "initialize_devices w useDebugLayer s0 = (Inr (), s1)"
      and "LoadBitmapsAsync w framesPath s1 = (Inr (frame0 # frames), s2)"
      and True: "(\<forall>f\<in>set (frame0 # frames). GetPixelSize f = GetPixelSize frame0)"
     and bg: "LoadBitmapsAsync w backgroundPath s2 = (Inr backgrounds, s3)"
        "\<not> (\<forall>b\<in>set backgrounds. GetPixelSize b = GetPixelSize frame0)"
  shows "MainAsync w useDebugLayer framesPath backgroundPath outputPath s0 =
      (Inl (hresult_invalid_argument
              (L ''All backgrounds must be of the same size as the frames!'')), s3)"
proof -
  have frames_ok: "check_frame_sizes (GetPixelSize frame0) (frame0 # frames) s2 = (Inr (), s2)"
    using True by (subst check_frame_sizes_eq) (rule if_P)
  have chk: "check_background_sizes (GetPixelSize frame0) backgrounds s3 =
      (Inl (hresult_invalid_argument
              (L ''All backgrounds must be of the same size as the frames!'')), s3)"
    using bg(2) by (subst check_background_sizes_eq) (rule if_not_P)
  show "MainAsync w useDebugLayer framesPath backgroundPath outputPath s0 =
      (Inl (hresult_invalid_argument
              (L ''All backgrounds must be of the same size as the frames!'')), s3)"
    by (simp only: MainAsync_with_frames[OF assms(1,2)]
        io_bind_Inr_I[where m = "check_frame_sizes (GetPixelSize frame0) (frame0 # frames)", OF frames_ok]
        io_bind_Inr_I[where m = "LoadBitmapsAsync w backgroundPath", OF bg(1)]
        io_bind_Inl_I[where m = "check_background_sizes (GetPixelSize frame0) backgrounds",
          OF chk])
qed

text \<open>
  Claim C2. When the frames have loaded and some frame differs in size from the first
  one, or the frames agree, the backgrounds have loaded and some background differs in
  size from the first frame, \<^verbatim>\<open>MainAsync\<close> ends with \<open>DimensionMismatchError\<close>, and up
  to that point it has made no drawing call, has not created or opened the output file
  and has not called the encoder.
\<close>

theorem dimension_mismatch_aborts_before_rendering:
  assumes "initialize_devices w useDebugLayer s0 = (Inr (), s1)"
      and "LoadBitmapsAsync w framesPath s1 = (Inr (frame0 # frames), s2)"
      and "(\<exists>f\<in>set frames. GetPixelSize f \<noteq> GetPixelSize frame0) \<or>
           (\<exists>backgrounds s3. LoadBitmapsAsync w backgroundPath s2 = (Inr backgrounds, s3) \<and>
              (\<exists>b\<in>set backgrounds. GetPixelSize b \<noteq> GetPixelSize frame0))"
  shows "\<exists>e s. MainAsync w useDebugLayer framesPath backgroundPath outputPath s0 = (Inl e, s) \<and>
           DimensionMismatchError e \<and>
           list_all (\<lambda>ev. \<not> is_drawing ev \<and> \<not> is_output_call ev) (new_events s0 s)"
proof (cases "\<forall>f\<in>set (frame0 # frames). GetPixelSize f = GetPixelSize frame0")
  case False
  have "MainAsync w useDebugLayer framesPath backgroundPath outputPath s0 =
      (Inl (hresult_invalid_argument (L ''All frames must be of the same size!'')), s2)"
    using assms(1,2) False by (rule MainAsync_frames_mismatch)
  moreover have "list_all (\<lambda>ev. \<not> is_drawing ev \<and> \<not> is_output_call ev) (new_events s0 s2)"
    using assms(1,2) by (rule no_drawing_after_loading(1))
  ultimately show ?thesis
    by (simp add: DimensionMismatchError_def)
next
  case True
  then have "\<not> (\<exists>f\<in>set frames. GetPixelSize f \<noteq> GetPixelSize frame0)"
    by (meson list.set_intros(2))
  with assms(3) obtain backgrounds s3 where
    bg: "LoadBitmapsAsync w backgroundPath s2 = (Inr backgrounds, s3)"
        "\<not> (\<forall>b\<in>set backgrounds. GetPixelSize b = GetPixelSize frame0)"
    by blast
  have "MainAsync w useDebugLayer framesPath backgroundPath outputPath s0 =
      (Inl (hresult_invalid_argument
              (L ''All backgrounds must be of the same size as the frames!'')), s3)"
    using assms(1,2) True bg by (rule MainAsync_backgrounds_mismatch)
  moreover have "list_all (\<lambda>ev. \<not> is_drawing ev \<and> \<not> is_output_call ev) (new_events s0 s3)"
  proof -
    have a: "list_all (\<lambda>ev. \<not> is_drawing ev \<and> \<not> is_output_call ev) (new_events s0 s2)"
      using assms(1,2) by (rule no_drawing_after_loading(1))
    have s2: "trace s2 = trace s0 @ new_events s0 s2"
      using assms(1,2) by (rule no_drawing_after_loading(3))
    from emitsD[OF emits_LoadBitmapsAsync bg(1)] obtain c where
      c: "trace s3 = trace s2 @ c"
         "list_all (\<lambda>e. \<not> is_drawing e \<and> \<not> is_output_call e \<and>
            (\<forall>p. e = fs_canonical p \<longrightarrow> p = backgroundPath)) c"
      by blast
    have "new_events s0 s3 = new_events s0 s2 @ c"
      using s2 c(1) by (rule new_events_trans)
    with a c(2) show ?thesis
      by (auto simp: list_all_iff)
  qed
  ultimately show ?thesis
    by (simp add: DimensionMismatchError_def)
qed


lemma example_load_mixed:
  "\<exists>s'. LoadBitmapsAsync example_world (L ''mixed'') s =
     (Inr [\<lparr>texture = next_handle s, pixel_size = \<lparr>width = 2, height = 1\<rparr>\<rparr>,
           \<lparr>texture = Suc (next_handle s), pixel_size = \<lparr>width = 1, height = 2\<rparr>\<rparr>], s')"
  by (simp add: loader_defs)

lemma example_load_wide:
  "\<exists>s'. LoadBitmapsAsync example_world (L ''wide'') s =
     (Inr [\<lparr>texture = next_handle s, pixel_size = \<lparr>width = 3, height = 1\<rparr>\<rparr>], s')"
  by (simp add: loader_defs)

text \<open>
  Two runs in the example environment: the frames of \<^verbatim>\<open>mixed\<close> are 2x1 and 1x2; the
  frames of \<^verbatim>\<open>frames\<close> are 2x1 and the background of \<^verbatim>\<open>wide\<close> is 3x1.
\<close>

theorem dimension_mismatch_aborts_before_rendering_witness:
  "(\<exists>e s. MainAsync example_world False (L ''mixed'') (L ''empty'') (L ''out.gif'')
             initial_state = (Inl e, s) \<and>
          DimensionMismatchError e \<and>
          list_all (\<lambda>ev. \<not> is_drawing ev \<and> \<not> is_output_call ev) (new_events initial_state s)) \<and>
   (\<exists>e s. MainAsync example_world False (L ''frames'') (L ''wide'') (L ''out.gif'')
             initial_state = (Inl e, s) \<and>
          DimensionMismatchError e \<and>
          list_all (\<lambda>ev. \<not> is_drawing ev \<and> \<not> is_output_call ev) (new_events initial_state s))"
proof
  obtain s1 where
    init: "initialize_devices example_world False initial_state = (Inr (), s1)"
    by (simp add: initialize_devices_ok example_succeeds)
  obtain s2 where
    load: "LoadBitmapsAsync example_world (L ''mixed'') s1 =
      (Inr (\<lparr>texture = next_handle s1, pixel_size = \<lparr>width = 2, height = 1\<rparr>\<rparr> #
            [\<lparr>texture = Suc (next_handle s1), pixel_size = \<lparr>width = 1, height = 2\<rparr>\<rparr>]), s2)"
    using example_load_mixed[of s1] by blast
  have "\<exists>f\<in>set [\<lparr>texture = Suc (next_handle s1), pixel_size = \<lparr>width = 1, height = 2\<rparr>\<rparr>].
      GetPixelSize f \<noteq>
      GetPixelSize \<lparr>texture = next_handle s1, pixel_size = \<lparr>width = 2, height = 1\<rparr>\<rparr>"
    by (simp add: GetPixelSize_def)
  then show "\<exists>e s. MainAsync example_world False (L ''mixed'') (L ''empty'') (L ''out.gif'')
             initial_state = (Inl e, s) \<and>
          DimensionMismatchError e \<and>
          list_all (\<lambda>ev. \<not> is_drawing ev \<and> \<not> is_output_call ev) (new_events initial_state s)"
    using dimension_mismatch_aborts_before_rendering[OF init load, of "L ''empty''" "L ''out.gif''"]
    by blast
next
  obtain s1 where
    init: "initialize_devices example_world False initial_state = (Inr (), s1)"
    by (simp add: initialize_devices_ok example_succeeds)
  obtain s2 where
    load: "LoadBitmapsAsync example_world (L ''frames'') s1 =
      (Inr (\<lparr>texture = next_handle s1, pixel_size = \<lparr>width = 2, height = 1\<rparr>\<rparr> #
            [\<lparr>texture = Suc (next_handle s1), pixel_size = \<lparr>width = 2, height = 1\<rparr>\<rparr>]), s2)"
    by (simp add: example_load_frames)
  obtain s3 where
    bg: "LoadBitmapsAsync example_world (L ''wide'') s2 =
      (Inr [\<lparr>texture = next_handle s2, pixel_size = \<lparr>width = 3, height = 1\<rparr>\<rparr>], s3)"
    using example_load_wide[of s2] by blast
  have "\<exists>backgrounds s3. LoadBitmapsAsync example_world (L ''wide'') s2 = (Inr backgrounds, s3) \<and>
      (\<exists>b\<in>set backgrounds. GetPixelSize b \<noteq>
         GetPixelSize \<lparr>texture = next_handle s1, pixel_size = \<lparr>width = 2, height = 1\<rparr>\<rparr>)"
    using bg by (simp add: GetPixelSize_def)
  then show "\<exists>e s. MainAsync example_world False (L ''frames'') (L ''wide'') (L ''out.gif'')
             initial_state = (Inl e, s) \<and>
          DimensionMismatchError e \<and>
          list_all (\<lambda>ev. \<not> is_drawing ev \<and> \<not> is_output_call ev) (new_events initial_state s)"
    using dimension_mismatch_aborts_before_rendering[OF init load, of "L ''wide''" "L ''out.gif''"]
    by blast
qed

section \<open>The calls of a complete run\<close>

lemma create_render_targets_Inr:
  assumes "create_render_targets w frameSize s = (Inr rts, s')"
  shows "rts = \<lparr>renderTargetTexture = next_handle s,
               renderTarget = \<lparr>texture = next_handle s, pixel_size = frameSize\<rparr>,
               backgroundTemplate = \<lparr>texture = Suc (next_handle s), pixel_size = frameSize\<rparr>,
               stagingTexture = Suc (Suc (next_handle s))\<rparr>"
    and "trace s' = trace s @ target_creation_calls frameSize rts"
    and "surfaces s' = (surfaces s)
           (next_handle s := Some \<lparr>extent = frameSize, pixels = uninitialized w\<rparr>,
            Suc (next_handle s) := Some \<lparr>extent = frameSize, pixels = uninitialized w\<rparr>,
            Suc (Suc (next_handle s)) := Some \<lparr>extent = frameSize, pixels = uninitialized w\<rparr>)"
    and "next_handle s' = Suc (Suc (Suc (next_handle s)))"
    and "target s' = target s"
  using assms
  by (auto simp: create_render_targets_def d3d_CreateTexture2D_def CreateBitmapFromTexture_def
      Let_def io_simps render_target_desc_def target_creation_calls_def
      split: option.splits if_splits)

lemma draw_backgrounds_fields:
  "draw_backgrounds w backgrounds s = (r, s') \<Longrightarrow>
     r = Inr () \<and>
     trace s' = trace s @ map (\<lambda>background. DrawBitmap (texture background)) backgrounds \<and>
     target s' = target s \<and> next_handle s' = next_handle s"
proof (induction backgrounds arbitrary: s)
  case Nil
  then show ?case by (simp add: io_return_eq)
next
  case (Cons background backgrounds)
  obtain r1 s1 where one: "d2d_DrawBitmap w background s = (r1, s1)"
    by (cases "d2d_DrawBitmap w background s")
  note f = d2d_DrawBitmap_fields[OF one]
  from Cons.prems one f(1) have "draw_backgrounds w backgrounds s1 = (r, s')"
    by (simp add: io_bind_def)
  from Cons.IH[OF this] f show ?case
    by simp
qed

lemma draw_background_template_trace:
  assumes "draw_background_template w (backgroundTemplate rts) backgrounds s = (Inr u, s')"
  shows "trace s' = trace s @ template_calls rts backgrounds"
    and "target s' = Some (texture (backgroundTemplate rts))"
    and "next_handle s' = next_handle s"
  using assms
  by (auto simp: draw_background_template_def d2d_SetTarget_def d2d_Clear_def Let_def io_simps
      template_calls_def dest!: draw_backgrounds_fields)

lemma CreateGifEncoderAsync_Inr:
  assumes "CreateGifEncoderAsync w s = (Inr u, s')"
  shows "s' = s\<lparr>trace := trace s @
      [BitmapEncoder_CreateAsync,
       BitmapContainerProperties_SetPropertiesAsync
         [(L ''/appext/application'', UInt8Array NETSCAPE_chars),
          (L ''/appext/data'', UInt8Array [3, 1, 0, 0, 0])]]\<rparr>"
  using assms
  by (auto simp: CreateGifEncoderAsync_def WINRT_VERIFY_def Let_def io_simps split: if_splits)

lemma encode_frames_trace:
  assumes "encode_frames w frames rts frameSize s = (Inr u, s')"
  shows "\<exists>bs. length bs = length frames \<and>
     trace s' = trace s @ encoder_setup_calls rts @ all_frame_calls rts frameSize frames bs @
       [FlushAsync]"
  using assms
  by (auto simp: encode_frames_def d2d_SetTarget_def Let_def io_simps encoder_setup_calls_def
      all_frame_calls_def dest!: CreateGifEncoderAsync_Inr frame_loop_trace)


lemma io_bind_InrE:
  assumes "io_bind m f s = (Inr y, s'')"
  obtains x s' where "m s = (Inr x, s')" and "f x s' = (Inr y, s'')"
  using assms by (auto simp: io_bind_Inr)

lemma MainAsync_success_trace:
  assumes init: "initialize_devices w useDebugLayer s0 = (Inr (), s1)"
      and load: "LoadBitmapsAsync w framesPath s1 = (Inr (frame0 # frames), s2)"
      and run: "MainAsync w useDebugLayer framesPath backgroundPath outputPath s0 = (Inr u, s)"
  obtains backgrounds s3 rts bs where
      "LoadBitmapsAsync w backgroundPath s2 = (Inr backgrounds, s3)"
      "\<forall>f\<in>set (frame0 # frames). GetPixelSize f = GetPixelSize frame0"
      "\<forall>b\<in>set backgrounds. GetPixelSize b = GetPixelSize frame0"
      "rts = \<lparr>renderTargetTexture = next_handle s3,
             renderTarget = \<lparr>texture = next_handle s3, pixel_size = GetPixelSize frame0\<rparr>,
             backgroundTemplate =
               \<lparr>texture = Suc (next_handle s3), pixel_size = GetPixelSize frame0\<rparr>,
             stagingTexture = Suc (Suc (next_handle s3))\<rparr>"
      "length bs = Suc (length frames)"
      "trace s = trace s3 @
        CreateStorageFileFromPathAsync outputPath #
        target_creation_calls (GetPixelSize frame0) rts @
        template_calls rts backgrounds @
        encoder_setup_calls rts @
        all_frame_calls rts (GetPixelSize frame0) (frame0 # frames) bs @
        [FlushAsync, wprintf (L ''Done!\<newline>'')]"
proof -
  let ?size = "GetPixelSize frame0"
  from run have "io_bind (check_frame_sizes ?size (frame0 # frames)) (\<lambda>_.
     io_bind (LoadBitmapsAsync w backgroundPath) (\<lambda>backgrounds.
     io_bind (check_background_sizes ?size backgrounds) (\<lambda>_.
     io_bind (call w (CreateStorageFileFromPathAsync outputPath)) (\<lambda>_.
     io_bind (create_render_targets w ?size) (\<lambda>rts.
     io_bind (draw_background_template w (backgroundTemplate rts) backgrounds) (\<lambda>_.
     io_bind (encode_frames w (frame0 # frames) rts ?size) (\<lambda>_.
     emit (wprintf (L ''Done!\<newline>''))))))))) s2 = (Inr u, s)"
    by (simp only: MainAsync_with_frames[OF init load])
  then obtain u1 t1 where
    chk1: "check_frame_sizes ?size (frame0 # frames) s2 = (Inr u1, t1)"
    and c1: "io_bind (LoadBitmapsAsync w backgroundPath) (\<lambda>backgrounds.
     io_bind (check_background_sizes ?size backgrounds) (\<lambda>_.
     io_bind (call w (CreateStorageFileFromPathAsync outputPath)) (\<lambda>_.
     io_bind (create_render_targets w ?size) (\<lambda>rts.
     io_bind (draw_background_template w (backgroundTemplate rts) backgrounds) (\<lambda>_.
     io_bind (encode_frames w (frame0 # frames) rts ?size) (\<lambda>_.
     emit (wprintf (L ''Done!\<newline>'')))))))) t1 = (Inr u, s)"
    by (rule io_bind_InrE)
  from chk1 have frames_ok: "\<forall>f\<in>set (frame0 # frames). GetPixelSize f = ?size" and t1: "t1 = s2"
    unfolding check_frame_sizes_eq by (simp_all split: if_splits)
  from c1 obtain backgrounds s3 where
    bg: "LoadBitmapsAsync w backgroundPath t1 = (Inr backgrounds, s3)"
    and c2: "io_bind (check_background_sizes ?size backgrounds) (\<lambda>_.
     io_bind (call w (CreateStorageFileFromPathAsync outputPath)) (\<lambda>_.
     io_bind (create_render_targets w ?size) (\<lambda>rts.
     io_bind (draw_background_template w (backgroundTemplate rts) backgrounds) (\<lambda>_.
     io_bind (encode_frames w (frame0 # frames) rts ?size) (\<lambda>_.
     emit (wprintf (L ''Done!\<newline>''))))))) s3 = (Inr u, s)"
    by (rule io_bind_InrE)
  from c2 obtain u2 t2 where
    chk2: "check_background_sizes ?size backgrounds s3 = (Inr u2, t2)"
    and c3: "io_bind (call w (CreateStorageFileFromPathAsync outputPath)) (\<lambda>_.
     io_bind (create_render_targets w ?size) (\<lambda>rts.
     io_bind (draw_background_template w (backgroundTemplate rts) backgrounds) (\<lambda>_.
     io_bind (encode_frames w (frame0 # frames) rts ?size) (\<lambda>_.
     emit (wprintf (L ''Done!\<newline>'')))))) t2 = (Inr u, s)"
    by (rule io_bind_InrE)
  from chk2 have bgs_ok: "\<forall>b\<in>set backgrounds. GetPixelSize b = ?size" and t2: "t2 = s3"
    unfolding check_background_sizes_eq by (simp_all split: if_splits)
  from c3 obtain u3 s4 where
    outfile: "call w (CreateStorageFileFromPathAsync outputPath) t2 = (Inr u3, s4)"
    and c4: "io_bind (create_render_targets w ?size) (\<lambda>rts.
     io_bind (draw_background_template w (backgroundTemplate rts) backgrounds) (\<lambda>_.
     io_bind (encode_frames w (frame0 # frames) rts ?size) (\<lambda>_.
     emit (wprintf (L ''Done!\<newline>''))))) s4 = (Inr u, s)"
    by (rule io_bind_InrE)
  from c4 obtain rts s5 where
    targets: "create_render_targets w ?size s4 = (Inr rts, s5)"
    and c5: "io_bind (draw_background_template w (backgroundTemplate rts) backgrounds) (\<lambda>_.
     io_bind (encode_frames w (frame0 # frames) rts ?size) (\<lambda>_.
     emit (wprintf (L ''Done!\<newline>'')))) s5 = (Inr u, s)"
    by (rule io_bind_InrE)
  from c5 obtain u5 s6 where
    template: "draw_background_template w (backgroundTemplate rts) backgrounds s5 = (Inr u5, s6)"
    and c6: "io_bind (encode_frames w (frame0 # frames) rts ?size) (\<lambda>_.
     emit (wprintf (L ''Done!\<newline>''))) s6 = (Inr u, s)"
    by (rule io_bind_InrE)
  from c6 obtain u6 s7 where
    encode: "encode_frames w (frame0 # frames) rts ?size s6 = (Inr u6, s7)"
    and fin: "emit (wprintf (L ''Done!\<newline>'')) s7 = (Inr u, s)"
    by (rule io_bind_InrE)
  from encode_frames_trace[OF encode] obtain bs where
    bs: "length bs = length (frame0 # frames)"
      "trace s7 = trace s6 @ encoder_setup_calls rts @
         all_frame_calls rts ?size (frame0 # frames) bs @ [FlushAsync]"
    by blast
  have s4: "trace s4 = trace s3 @ [CreateStorageFileFromPathAsync outputPath]"
    "next_handle s4 = next_handle s3"
    using outfile t2 by (simp_all add: call_Inr)
  have rts: "rts = \<lparr>renderTargetTexture = next_handle s3,
             renderTarget = \<lparr>texture = next_handle s3, pixel_size = ?size\<rparr>,
             backgroundTemplate = \<lparr>texture = Suc (next_handle s3), pixel_size = ?size\<rparr>,
             stagingTexture = Suc (Suc (next_handle s3))\<rparr>"
    using create_render_targets_Inr(1)[OF targets] s4(2) by simp
  have "trace s = trace s3 @
        CreateStorageFileFromPathAsync outputPath #
        target_creation_calls ?size rts @
        template_calls rts backgrounds @
        encoder_setup_calls rts @
        all_frame_calls rts ?size (frame0 # frames) bs @
        [FlushAsync, wprintf (L ''Done!\<newline>'')]"
    using s4(1) create_render_targets_Inr(2)[OF targets]
      draw_background_template_trace(1)[OF template] bs(2) fin
    by (simp add: emit_eq)
  moreover have "LoadBitmapsAsync w backgroundPath s2 = (Inr backgrounds, s3)"
    using bg t1 by simp
  moreover have "length bs = Suc (length frames)"
    using bs(1) by simp
  ultimately show ?thesis
    using frames_ok bgs_ok rts by (intro that[of backgrounds s3 rts bs])
qed

lemma MainAsync_success_events:
  assumes init: "initialize_devices w useDebugLayer s0 = (Inr (), s1)"
      and load: "LoadBitmapsAsync w framesPath s1 = (Inr (frame0 # frames), s2)"
      and run: "MainAsync w useDebugLayer framesPath backgroundPath outputPath s0 = (Inr u, s)"
  obtains pre backgrounds rts bs where
      "list_all (\<lambda>e. \<not> is_drawing e \<and> \<not> is_output_call e) pre"
      "\<forall>f\<in>set (frame0 # frames). GetPixelSize f = GetPixelSize frame0"
      "\<forall>b\<in>set backgrounds. GetPixelSize b = GetPixelSize frame0"
      "renderTargetTexture rts = texture (renderTarget rts)"
      "distinct [renderTargetTexture rts, texture (backgroundTemplate rts), stagingTexture rts]"
      "length bs = Suc (length frames)"
      "new_events s0 s = pre @
        CreateStorageFileFromPathAsync outputPath #
        target_creation_calls (GetPixelSize frame0) rts @
        template_calls rts backgrounds @
        encoder_setup_calls rts @
        all_frame_calls rts (GetPixelSize frame0) (frame0 # frames) bs @
        [FlushAsync, wprintf (L ''Done!\<newline>'')]"
proof -
  from init load run obtain backgrounds s3 rts bs where
    *: "LoadBitmapsAsync w backgroundPath s2 = (Inr backgrounds, s3)"
      "\<forall>f\<in>set (frame0 # frames). GetPixelSize f = GetPixelSize frame0"
      "\<forall>b\<in>set backgrounds. GetPixelSize b = GetPixelSize frame0"
      "rts = \<lparr>renderTargetTexture = next_handle s3,
             renderTarget = \<lparr>texture = next_handle s3, pixel_size = GetPixelSize frame0\<rparr>,
             backgroundTemplate =
               \<lparr>texture = Suc (next_handle s3), pixel_size = GetPixelSize frame0\<rparr>,
             stagingTexture = Suc (Suc (next_handle s3))\<rparr>"
      "length bs = Suc (length frames)"
      "trace s = trace s3 @
        CreateStorageFileFromPathAsync outputPath #
        target_creation_calls (GetPixelSize frame0) rts @
        template_calls rts backgrounds @
        encoder_setup_calls rts @
        all_frame_calls rts (GetPixelSize frame0) (frame0 # frames) bs @
        [FlushAsync, wprintf (L ''Done!\<newline>'')]"
    by (rule MainAsync_success_trace)
  have a: "list_all (\<lambda>e. \<not> is_drawing e \<and> \<not> is_output_call e) (new_events s0 s2)"
    using init load by (rule no_drawing_after_loading(1))
  have s2: "trace s2 = trace s0 @ new_events s0 s2"
    using init load by (rule no_drawing_after_loading(3))
  from emitsD[OF emits_LoadBitmapsAsync *(1)] obtain c where
    c: "trace s3 = trace s2 @ c"
       "list_all (\<lambda>e. \<not> is_drawing e \<and> \<not> is_output_call e \<and>
          (\<forall>p. e = fs_canonical p \<longrightarrow> p = backgroundPath)) c"
    by blast
  let ?pre = "new_events s0 s2 @ c"
  let ?rest = "CreateStorageFileFromPathAsync outputPath #
        target_creation_calls (GetPixelSize frame0) rts @
        template_calls rts backgrounds @
        encoder_setup_calls rts @
        all_frame_calls rts (GetPixelSize frame0) (frame0 # frames) bs @
        [FlushAsync, wprintf (L ''Done!\<newline>'')]"
  have pre: "list_all (\<lambda>e. \<not> is_drawing e \<and> \<not> is_output_call e) ?pre"
    using a c(2) by (auto simp: list_all_iff)
  have "trace s = trace s0 @ ?pre @ ?rest"
    unfolding *(6) c(1) by (subst s2) simp
  then have ev: "new_events s0 s = ?pre @ ?rest"
    by (rule new_events_append)
  have h: "renderTargetTexture rts = texture (renderTarget rts)"
    "distinct [renderTargetTexture rts, texture (backgroundTemplate rts), stagingTexture rts]"
    by (simp_all add: *(4))
  show ?thesis
    using pre *(2,3) h *(5) ev by (rule that)
qed

lemma filter_frame_calls_write:
  "filter is_frame_write (frame_calls rts frameSize frame bytes advance) =
     [BitmapProperties_SetPropertiesAsync [(L ''/grctlext/Delay'', UInt16 13)],
      SetPixelData Bgra8 Premultiplied (width frameSize) (height frameSize) 1 1 bytes]"
  by (simp add: frame_calls_def)

lemma filter_all_frame_calls_write:
  assumes "length bs = length frames"
  shows "filter is_frame_write (all_frame_calls rts frameSize frames bs) =
     concat (map (\<lambda>bytes.
       [BitmapProperties_SetPropertiesAsync [(L ''/grctlext/Delay'', UInt16 13)],
        SetPixelData Bgra8 Premultiplied (width frameSize) (height frameSize) 1 1 bytes]) bs)"
proof -
  have "filter is_frame_write (all_frame_calls rts frameSize frames bs) =
      concat (map (\<lambda>j.
       [BitmapProperties_SetPropertiesAsync [(L ''/grctlext/Delay'', UInt16 13)],
        SetPixelData Bgra8 Premultiplied (width frameSize) (height frameSize) 1 1 (bs ! j)])
        [0 ..< length bs])"
    by (simp add: all_frame_calls_def filter_concat comp_def filter_frame_calls_write assms)
  also have "\<dots> = concat (map (\<lambda>bytes.
       [BitmapProperties_SetPropertiesAsync [(L ''/grctlext/Delay'', UInt16 13)],
        SetPixelData Bgra8 Premultiplied (width frameSize) (height frameSize) 1 1 bytes])
       (map (\<lambda>j. bs ! j) [0 ..< length bs]))"
    by (simp add: comp_def)
  finally show ?thesis
    by (simp add: map_nth)
qed

lemma not_output_not_frame_write:
  "list_all (\<lambda>e. \<not> is_drawing e \<and> \<not> is_output_call e) pre \<Longrightarrow> filter is_frame_write pre = []"
proof (induction pre)
  case Nil
  show ?case by simp
next
  case (Cons e pre)
  then have "\<not> is_output_call e" by simp
  then have "\<not> is_frame_write e" by (cases e) simp_all
  with Cons show ?case by simp
qed

section \<open>Runs in which no outside call fails\<close>

lemma on_target_keeps: "surfaces s h \<noteq> None \<Longrightarrow> surfaces (on_target f s) h \<noteq> None"
  by (auto simp: on_target_def split: option.splits)

lemma d2d_DrawBitmap_keeps:
  "d2d_DrawBitmap w bitmap s = (r, s') \<Longrightarrow> surfaces s h \<noteq> None \<Longrightarrow> surfaces s' h \<noteq> None"
  by (auto simp: d2d_DrawBitmap_eq on_target_def split: option.splits)

lemma draw_backgrounds_keeps:
  "draw_backgrounds w backgrounds s = (r, s') \<Longrightarrow> surfaces s h \<noteq> None \<Longrightarrow>
     surfaces s' h \<noteq> None"
proof (induction backgrounds arbitrary: s)
  case Nil
  then show ?case by (simp add: io_return_eq)
next
  case (Cons background backgrounds)
  obtain r1 s1 where one: "d2d_DrawBitmap w background s = (r1, s1)"
    by (cases "d2d_DrawBitmap w background s")
  from Cons.prems(1) one d2d_DrawBitmap_fields(1)[OF one]
  have "draw_backgrounds w backgrounds s1 = (r, s')"
    by (simp add: io_bind_def)
  moreover have "surfaces s1 h \<noteq> None"
    using one Cons.prems(2) by (rule d2d_DrawBitmap_keeps)
  ultimately show ?case
    by (rule Cons.IH)
qed

lemma create_render_targets_ok:
  assumes "\<And>tr e. succeeds w tr e"
  shows "\<exists>rts s'. create_render_targets w frameSize s = (Inr rts, s') \<and>
           surfaces s' (stagingTexture rts) \<noteq> None"
  by (simp add: create_render_targets_def d3d_CreateTexture2D_def CreateBitmapFromTexture_def
      io_bind_def call_def new_texture_def get_state_def io_return_def Let_def assms)

lemma draw_background_template_ok:
  assumes "\<And>tr e. succeeds w tr e"
  shows "\<exists>s'. draw_background_template w template backgrounds s = (Inr (), s') \<and>
           (surfaces s h \<noteq> None \<longrightarrow> surfaces s' h \<noteq> None)"
proof -
  let ?s1 = "on_target (clear_surface opaque_white)
     (s\<lparr>target := Some (texture template),
        trace := trace s @ [SetTarget (texture template), BeginDraw, Clear opaque_white]\<rparr>)"
  obtain r s2 where loop: "draw_backgrounds w backgrounds ?s1 = (r, s2)"
    by (cases "draw_backgrounds w backgrounds ?s1")
  have r: "r = Inr ()"
    using draw_backgrounds_fields[OF loop] by simp
  have keep: "surfaces s h \<noteq> None \<Longrightarrow> surfaces s2 h \<noteq> None"
    by (rule draw_backgrounds_keeps[OF loop]) (simp add: on_target_keeps)
  have "draw_background_template w template backgrounds s =
      (Inr (), s2\<lparr>trace := trace s2 @ [EndDraw]\<rparr>)"
    using loop r
    by (simp add: draw_background_template_def d2d_SetTarget_def d2d_Clear_def Let_def
        io_bind_def emit_def modify_def call_def assms)
  with keep show ?thesis
    by auto
qed

lemma render_and_encode_frame_ok:
  assumes "\<And>tr e. succeeds w tr e" and "surfaces s (stagingTexture rts) \<noteq> None"
  shows "\<exists>s'. render_and_encode_frame w frames rts frameSize frameDelay i s = (Inr (), s') \<and>
           surfaces s' (stagingTexture rts) \<noteq> None"
proof -
  let ?s1 = "s\<lparr>trace := trace s @ [BeginDraw]\<rparr>"
  obtain r2 s2 where d1: "d2d_DrawBitmap w (backgroundTemplate rts) ?s1 = (r2, s2)"
    by (cases "d2d_DrawBitmap w (backgroundTemplate rts) ?s1")
  obtain r3 s3 where d2: "d2d_DrawBitmap w (frames ! i) s2 = (r3, s3)"
    by (cases "d2d_DrawBitmap w (frames ! i) s2")
  let ?s4 = "s3\<lparr>trace := trace s3 @ [EndDraw]\<rparr>"
  obtain r5 s5 where cp:
    "d3d_CopyResource (stagingTexture rts) (renderTargetTexture rts) ?s4 = (r5, s5)"
    by (cases "d3d_CopyResource (stagingTexture rts) (renderTargetTexture rts) ?s4")
  have k2: "surfaces s2 (stagingTexture rts) \<noteq> None"
    by (rule d2d_DrawBitmap_keeps[OF d1]) (simp add: assms(2))
  have k3: "surfaces s3 (stagingTexture rts) \<noteq> None"
    using d2 k2 by (rule d2d_DrawBitmap_keeps)
  have k5: "surfaces s5 (stagingTexture rts) \<noteq> None"
    using cp k3
    by (auto simp: d3d_CopyResource_def io_bind_def emit_def modify_def split: option.splits)
  then obtain sf where sf: "surfaces s5 (stagingTexture rts) = Some sf"
    by blast
  have r: "r2 = Inr ()" "r3 = Inr ()" "r5 = Inr ()"
    using d2d_DrawBitmap_fields(1)[OF d1] d2d_DrawBitmap_fields(1)[OF d2]
      d3d_CopyResource_fields(1)[OF cp] by simp_all
  have "\<exists>evs. render_and_encode_frame w frames rts frameSize frameDelay i s =
      (Inr (), s5\<lparr>trace := evs\<rparr>)"
    using d1 d2 cp r sf
    by (auto simp: render_and_encode_frame_def Let_def io_bind_def emit_def call_def assms(1)
        util_CopyBytesFromTexture_def get_state_def io_return_def)
  with k5 show ?thesis
    by auto
qed

lemma frame_loop_ok:
  "(\<And>tr e. succeeds w tr e) \<Longrightarrow> surfaces s (stagingTexture rts) \<noteq> None \<Longrightarrow>
     \<exists>s'. frame_loop w frames rts frameSize frameDelay i s = (Inr (), s')"
proof (induction w frames rts frameSize frameDelay i s rule: frame_loop.induct)
  case (1 w frames rts frameSize frameDelay i s)
  show ?case
  proof (cases "i < length frames")
    case False
    then show ?thesis
      by (simp add: frame_loop.simps)
  next
    case True
    from render_and_encode_frame_ok[OF "1.prems", of frames frameSize frameDelay i]
    obtain s1 where
      body: "render_and_encode_frame w frames rts frameSize frameDelay i s = (Inr (), s1)"
      and keep: "surfaces s1 (stagingTexture rts) \<noteq> None"
      by blast
    from "1.IH"[OF True body[symmetric] refl "1.prems"(1) keep] obtain s' where
      "frame_loop w frames rts frameSize frameDelay (i + 1) s1 = (Inr (), s')"
      by blast
    with True body show ?thesis
      by (simp add: frame_loop.simps[of w frames rts frameSize frameDelay i s])
  qed
qed

lemma encode_frames_ok:
  assumes "\<And>tr e. succeeds w tr e" and "surfaces s (stagingTexture rts) \<noteq> None"
  shows "\<exists>s'. encode_frames w frames rts frameSize s = (Inr (), s')"
proof -
  let ?s1 = "s\<lparr>target := Some (texture (renderTarget rts)),
               trace := trace s @ encoder_setup_calls rts\<rparr>"
  have "surfaces ?s1 (stagingTexture rts) \<noteq> None"
    using assms(2) by simp
  from frame_loop_ok[OF assms(1) this, of frames frameSize 13 0] obtain s2 where
    "frame_loop w frames rts frameSize 13 0 ?s1 = (Inr (), s2)"
    by blast
  then show ?thesis
    by (simp add: encode_frames_def d2d_SetTarget_def CreateGifEncoderAsync_def WINRT_VERIFY_def
        NETSCAPE_chars_def Let_def io_bind_def emit_def modify_def call_def io_return_def
        assms(1) encoder_setup_calls_def)
qed

lemma MainAsync_ok:
  assumes ok: "\<And>tr e. succeeds w tr e"
      and init: "initialize_devices w useDebugLayer s0 = (Inr (), s1)"
      and load: "LoadBitmapsAsync w framesPath s1 = (Inr (frame0 # frames), s2)"
      and sizes: "\<forall>frame\<in>set frames. GetPixelSize frame = GetPixelSize frame0"
      and bg: "LoadBitmapsAsync w backgroundPath s2 = (Inr backgrounds, s3)"
      and bg_sizes: "\<forall>background\<in>set backgrounds. GetPixelSize background = GetPixelSize frame0"
  shows "\<exists>s. MainAsync w useDebugLayer framesPath backgroundPath outputPath s0 = (Inr (), s)"
proof -
  let ?size = "GetPixelSize frame0"
  have chk1: "check_frame_sizes ?size (frame0 # frames) s2 = (Inr (), s2)"
    using sizes by (subst check_frame_sizes_eq) (rule if_P, simp)
  have chk2: "check_background_sizes ?size backgrounds s3 = (Inr (), s3)"
    using bg_sizes by (subst check_background_sizes_eq) (rule if_P)
  let ?s4 = "s3\<lparr>trace := trace s3 @ [CreateStorageFileFromPathAsync outputPath]\<rparr>"
  have outfile: "call w (CreateStorageFileFromPathAsync outputPath) s3 = (Inr (), ?s4)"
    by (simp add: call_def ok)
  from create_render_targets_ok[OF ok, of ?size ?s4] obtain rts s5 where
    targets: "create_render_targets w ?size ?s4 = (Inr rts, s5)"
    and staging: "surfaces s5 (stagingTexture rts) \<noteq> None"
    by blast
  from draw_background_template_ok[OF ok, of "backgroundTemplate rts" backgrounds s5
      "stagingTexture rts"] staging
  obtain s6 where
    template: "draw_background_template w (backgroundTemplate rts) backgrounds s5 = (Inr (), s6)"
    and staging6: "surfaces s6 (stagingTexture rts) \<noteq> None"
    by blast
  from encode_frames_ok[OF ok staging6, of "frame0 # frames" ?size] obtain s7 where
    encode: "encode_frames w (frame0 # frames) rts ?size s6 = (Inr (), s7)"
    by blast
  have "MainAsync w useDebugLayer framesPath backgroundPath outputPath s0 =
      (Inr (), s7\<lparr>trace := trace s7 @ [wprintf (L ''Done!\<newline>'')]\<rparr>)"
    by (simp only: MainAsync_with_frames[OF init load]
        io_bind_Inr_I[where m = "check_frame_sizes ?size (frame0 # frames)", OF chk1]
        io_bind_Inr_I[where m = "LoadBitmapsAsync w backgroundPath", OF bg]
        io_bind_Inr_I[where m = "check_background_sizes ?size backgrounds", OF chk2]
        io_bind_Inr_I[where m = "call w (CreateStorageFileFromPathAsync outputPath)", OF outfile]
        io_bind_Inr_I[where m = "create_render_targets w ?size", OF targets]
        io_bind_Inr_I[where m = "draw_background_template w (backgroundTemplate rts) backgrounds",
          OF template]
        io_bind_Inr_I[where m = "encode_frames w (frame0 # frames) rts ?size", OF encode]
        emit_def)
  then show ?thesis
    by blast
qed

section \<open>The encoder protocol\<close>

lemma encoder_call_is_output_call: "is_encoder_call e \<Longrightarrow> is_output_call e"
  by (cases e) simp_all

lemma no_output_no_encoder_call:
  "list_all (\<lambda>e. \<not> is_drawing e \<and> \<not> is_output_call e) pre \<Longrightarrow>
     list_all (\<lambda>e. \<not> is_encoder_call e) pre"
  by (auto simp: list_all_iff dest: encoder_call_is_output_call)

lemma list_all_all_frame_calls:
  assumes "\<And>frame bytes advance. list_all P (frame_calls rts frameSize frame bytes advance)"
  shows "list_all P (all_frame_calls rts frameSize frames bs)"
  using assms by (auto simp: all_frame_calls_def list_all_iff)

text \<open>
  Claim C3. In a run that completes with a non-empty frame set, the new calls split as
  \<open>before @ [create, container properties] @ after\<close>: the encoder is created and the
  very next call sets the two container properties, the application tag with the 11
  bytes of \<^verbatim>\<open>NETSCAPE2.0\<close> and the data block 3, 1, 0, 0, 0; no call on the encoder comes
  before, and afterwards the encoder is not created and the container properties are
  not written again.
\<close>

theorem container_properties_written_once:
  assumes "initialize_devices w useDebugLayer s0 = (Inr (), s1)"
      and "LoadBitmapsAsync w framesPath s1 = (Inr (frame0 # frames), s2)"
      and "MainAsync w useDebugLayer framesPath backgroundPath outputPath s0 = (Inr u, s)"
  shows "\<exists>before after.
     new_events s0 s = before @
       [BitmapEncoder_CreateAsync,
        BitmapContainerProperties_SetPropertiesAsync
          [(L ''/appext/application'',
            UInt8Array [0x4E, 0x45, 0x54, 0x53, 0x43, 0x41, 0x50, 0x45, 0x32, 0x2E, 0x30]),
           (L ''/appext/data'', UInt8Array [3, 1, 0, 0, 0])]] @ after \<and>
     list_all (\<lambda>e. \<not> is_encoder_call e) before \<and>
     list_all (\<lambda>e. \<not> is_container_call e) after"
proof -
  from assms obtain pre backgrounds rts bs where
    *: "list_all (\<lambda>e. \<not> is_drawing e \<and> \<not> is_output_call e) pre"
      "new_events s0 s = pre @
        CreateStorageFileFromPathAsync outputPath #
        target_creation_calls (GetPixelSize frame0) rts @
        template_calls rts backgrounds @
        encoder_setup_calls rts @
        all_frame_calls rts (GetPixelSize frame0) (frame0 # frames) bs @
        [FlushAsync, wprintf (L ''Done!\<newline>'')]"
    by (rule MainAsync_success_events)
  let ?before = "pre @ CreateStorageFileFromPathAsync outputPath #
        target_creation_calls (GetPixelSize frame0) rts @
        template_calls rts backgrounds @
        [SetTarget (texture (renderTarget rts)), OpenAsync ReadWrite]"
  let ?after = "all_frame_calls rts (GetPixelSize frame0) (frame0 # frames) bs @
        [FlushAsync, wprintf (L ''Done!\<newline>'')]"
  have "list_all (\<lambda>e. \<not> is_encoder_call e) (template_calls rts backgrounds)"
    by (simp add: template_calls_def list_all_iff)
  then have before: "list_all (\<lambda>e. \<not> is_encoder_call e) ?before"
    using no_output_no_encoder_call[OF *(1)] by (simp add: target_creation_calls_def)
  have "list_all (\<lambda>e. \<not> is_container_call e)
      (all_frame_calls rts (GetPixelSize frame0) (frame0 # frames) bs)"
    by (rule list_all_all_frame_calls) (simp add: frame_calls_def)
  then have after: "list_all (\<lambda>e. \<not> is_container_call e) ?after"
    by simp
  have "new_events s0 s = ?before @
       [BitmapEncoder_CreateAsync,
        BitmapContainerProperties_SetPropertiesAsync
          [(L ''/appext/application'',
            UInt8Array [0x4E, 0x45, 0x54, 0x53, 0x43, 0x41, 0x50, 0x45, 0x32, 0x2E, 0x30]),
           (L ''/appext/data'', UInt8Array [3, 1, 0, 0, 0])]] @ ?after"
    by (simp add: *(2) encoder_setup_calls_def NETSCAPE_chars_def)
  with before after show ?thesis
    by (intro exI[of _ ?before] exI[of _ ?after] conjI)
qed

lemma encoder_steps_append: "encoder_steps (xs @ ys) = encoder_steps xs @ encoder_steps ys"
  by (induction xs) (auto split: option.splits)

lemma encoder_steps_concat: "encoder_steps (concat xss) = concat (map encoder_steps xss)"
  by (induction xss) (simp_all add: encoder_steps_append)

lemma encoder_steps_no_output:
  "list_all (\<lambda>e. \<not> is_drawing e \<and> \<not> is_output_call e) pre \<Longrightarrow> encoder_steps pre = []"
proof (induction pre)
  case Nil
  show ?case by simp
next
  case (Cons e pre)
  then have "\<not> is_output_call e" by simp
  then have "step_of e = None" by (cases e) simp_all
  with Cons show ?case by simp
qed

lemma encoder_steps_template_calls: "encoder_steps (template_calls rts backgrounds) = []"
proof -
  have "encoder_steps (map (\<lambda>background. DrawBitmap (texture background)) backgrounds) = []"
    by (induction backgrounds) simp_all
  then show ?thesis
    by (simp add: template_calls_def encoder_steps_append)
qed

lemma encoder_steps_frame_calls:
  "encoder_steps (frame_calls rts frameSize frame bytes advance) =
     [SetMetadata, CommitPixels] @ (if advance then [Advance] else [])"
  by (simp add: frame_calls_def)

lemma encoder_steps_all_frame_calls:
  "encoder_steps (all_frame_calls rts frameSize (frame0 # frames) bs) =
     concat (replicate (length frames) [SetMetadata, CommitPixels, Advance]) @
     [SetMetadata, CommitPixels]"
proof -
  let ?n = "length frames"
  let ?f = "\<lambda>j. frame_calls rts frameSize ((frame0 # frames) ! j) (bs ! j) (j < ?n)"
  have a: "all_frame_calls rts frameSize (frame0 # frames) bs =
      concat (map ?f [0 ..< ?n]) @ ?f ?n"
    by (simp add: all_frame_calls_def)
  have "map (\<lambda>j. encoder_steps (?f j)) [0 ..< ?n] =
      map (\<lambda>j. [SetMetadata, CommitPixels, Advance]) [0 ..< ?n]"
    by (rule map_cong) (simp_all add: encoder_steps_frame_calls)
  then have b: "map (\<lambda>j. encoder_steps (?f j)) [0 ..< ?n] =
      replicate ?n [SetMetadata, CommitPixels, Advance]"
    by (simp add: map_replicate_const)
  have c: "encoder_steps (?f ?n) = [SetMetadata, CommitPixels]"
    by (simp add: encoder_steps_frame_calls)
  show ?thesis
    by (simp only: a encoder_steps_append encoder_steps_concat map_map comp_def b c)
qed

lemma count_advance:
  "length (filter (\<lambda>e. e = GoToNextFrameAsync) evs) =
     length (filter (\<lambda>st. st = Advance) (encoder_steps evs))"
proof (induction evs)
  case Nil
  show ?case by simp
next
  case (Cons e evs)
  then show ?case by (cases e) simp_all
qed

lemma count_flush:
  "length (filter (\<lambda>e. e = FlushAsync) evs) =
     length (filter (\<lambda>st. st = Flush) (encoder_steps evs))"
proof (induction evs)
  case Nil
  show ?case by simp
next
  case (Cons e evs)
  then show ?case by (cases e) simp_all
qed

lemma filter_concat_replicate:
  "length (filter P (concat (replicate n xs))) = n * length (filter P xs)"
  by (induction n) simp_all

text \<open>
  Claim C5. In a run that completes with a frame set of \<open>N\<close> frames (\<open>N \<ge> 1\<close>), the
  frame protocol of the encoder is: \<open>N - 1\<close> times metadata, pixels, advance; then
  metadata, pixels, flush. So the encoder is advanced exactly \<open>N - 1\<close> times, each time
  between the pixels of one frame and the metadata of the next and never after the last
  frame, and it is flushed exactly once, after the pixels of the last frame.
\<close>

theorem advance_between_frames_flush_once:
  assumes "initialize_devices w useDebugLayer s0 = (Inr (), s1)"
      and "LoadBitmapsAsync w framesPath s1 = (Inr (frame0 # frames), s2)"
      and "MainAsync w useDebugLayer framesPath backgroundPath outputPath s0 = (Inr u, s)"
  shows "encoder_steps (new_events s0 s) =
           concat (replicate (length (frame0 # frames) - 1) [SetMetadata, CommitPixels, Advance]) @
           [SetMetadata, CommitPixels, Flush] \<and>
         length (filter (\<lambda>e. e = GoToNextFrameAsync) (new_events s0 s)) =
           length (frame0 # frames) - 1 \<and>
         length (filter (\<lambda>e. e = FlushAsync) (new_events s0 s)) = 1"
proof -
  from assms obtain pre backgrounds rts bs where
    *: "list_all (\<lambda>e. \<not> is_drawing e \<and> \<not> is_output_call e) pre"
      "new_events s0 s = pre @
        CreateStorageFileFromPathAsync outputPath #
        target_creation_calls (GetPixelSize frame0) rts @
        template_calls rts backgrounds @
        encoder_setup_calls rts @
        all_frame_calls rts (GetPixelSize frame0) (frame0 # frames) bs @
        [FlushAsync, wprintf (L ''Done!\<newline>'')]"
    by (rule MainAsync_success_events)
  have steps: "encoder_steps (new_events s0 s) =
      concat (replicate (length frames) [SetMetadata, CommitPixels, Advance]) @
      [SetMetadata, CommitPixels, Flush]"
    by (simp add: *(2) encoder_steps_append encoder_steps_no_output[OF *(1)]
        encoder_steps_template_calls encoder_steps_all_frame_calls
        target_creation_calls_def encoder_setup_calls_def)
  show ?thesis
    by (simp add: steps count_advance count_flush filter_concat_replicate)
qed

section \<open>The frame renderer\<close>

lemma filter_drawing_no_output:
  "list_all (\<lambda>e. \<not> is_drawing e \<and> \<not> is_output_call e) pre \<Longrightarrow> filter is_drawing pre = []"
  by (induction pre) simp_all

lemma filter_drawing_template_calls:
  "filter is_drawing (template_calls rts backgrounds) = template_calls rts backgrounds"
  by (simp add: template_calls_def filter_map comp_def)

lemma filter_drawing_frame_calls:
  "filter is_drawing (frame_calls rts frameSize frame bytes advance) =
     [BeginDraw, DrawBitmap (texture (backgroundTemplate rts)), DrawBitmap (texture frame),
      EndDraw, CopyResource (stagingTexture rts) (renderTargetTexture rts),
      CopyBytesFromTexture (stagingTexture rts) bytes]"
  by (simp add: frame_calls_def)

lemma filter_drawing_all_frame_calls:
  "filter is_drawing (all_frame_calls rts frameSize frames bs) =
     concat (map (\<lambda>i.
       [BeginDraw, DrawBitmap (texture (backgroundTemplate rts)),
        DrawBitmap (texture (frames ! i)),
        EndDraw, CopyResource (stagingTexture rts) (renderTargetTexture rts),
        CopyBytesFromTexture (stagingTexture rts) (bs ! i)]) [0 ..< length frames])"
  by (simp add: all_frame_calls_def filter_concat comp_def filter_drawing_frame_calls)

section \<open>A complete run in the example environment\<close>

lemma example_load_backgrounds:
  "\<exists>s'. LoadBitmapsAsync example_world (L ''backgrounds'') s =
     (Inr [\<lparr>texture = next_handle s, pixel_size = \<lparr>width = 2, height = 1\<rparr>\<rparr>,
           \<lparr>texture = Suc (next_handle s), pixel_size = \<lparr>width = 2, height = 1\<rparr>\<rparr>], s')"
  by (simp add: loader_defs)

lemma example_load_single:
  "\<exists>s'. LoadBitmapsAsync example_world (L ''single'') s =
     (Inr [\<lparr>texture = next_handle s, pixel_size = \<lparr>width = 1, height = 1\<rparr>\<rparr>], s')"
  by (simp add: loader_defs)

lemma example_run:
  obtains s1 s2 s where
    "initialize_devices example_world False initial_state = (Inr (), s1)"
    "LoadBitmapsAsync example_world (L ''frames'') s1 =
       (Inr (\<lparr>texture = 0, pixel_size = \<lparr>width = 2, height = 1\<rparr>\<rparr> #
             [\<lparr>texture = 1, pixel_size = \<lparr>width = 2, height = 1\<rparr>\<rparr>]), s2)"
    "MainAsync example_world False (L ''frames'') (L ''backgrounds'') (L ''out.gif'')
       initial_state = (Inr (), s)"
proof -
  obtain s1 where
    init: "initialize_devices example_world False initial_state = (Inr (), s1)"
    and h1: "next_handle s1 = 0"
    by (simp add: initialize_devices_ok example_succeeds initial_state_def)
  obtain s2 where
    load: "LoadBitmapsAsync example_world (L ''frames'') s1 =
       (Inr (\<lparr>texture = 0, pixel_size = \<lparr>width = 2, height = 1\<rparr>\<rparr> #
             [\<lparr>texture = 1, pixel_size = \<lparr>width = 2, height = 1\<rparr>\<rparr>]), s2)"
    by (simp add: example_load_frames h1)
  obtain backgrounds s3 where
    bg: "LoadBitmapsAsync example_world (L ''backgrounds'') s2 = (Inr backgrounds, s3)"
    and sizes: "\<forall>b\<in>set backgrounds. GetPixelSize b = \<lparr>width = 2, height = 1\<rparr>"
    using example_load_backgrounds[of s2] by (auto simp: GetPixelSize_def)
  have "\<exists>s. MainAsync example_world False (L ''frames'') (L ''backgrounds'') (L ''out.gif'')
       initial_state = (Inr (), s)"
    using example_succeeds init load _ bg
    by (rule MainAsync_ok) (use sizes in \<open>simp_all add: GetPixelSize_def\<close>)
  then obtain s where
    "MainAsync example_world False (L ''frames'') (L ''backgrounds'') (L ''out.gif'')
       initial_state = (Inr (), s)"
    by (elim exE)
  with init load show ?thesis
    by (rule that)
qed

text \<open>
  Statements about a complete run, at the run of the example environment on the
  directories \<^verbatim>\<open>frames\<close> (two frames of 2x1) and \<^verbatim>\<open>backgrounds\<close>.
\<close>

theorem container_properties_written_once_witness:
  "\<exists>s before after.
     MainAsync example_world False (L ''frames'') (L ''backgrounds'') (L ''out.gif'')
       initial_state = (Inr (), s) \<and>
     new_events initial_state s = before @
       [BitmapEncoder_CreateAsync,
        BitmapContainerProperties_SetPropertiesAsync
          [(L ''/appext/application'',
            UInt8Array [0x4E, 0x45, 0x54, 0x53, 0x43, 0x41, 0x50, 0x45, 0x32, 0x2E, 0x30]),
           (L ''/appext/data'', UInt8Array [3, 1, 0, 0, 0])]] @ after \<and>
     list_all (\<lambda>e. \<not> is_encoder_call e) before \<and>
     list_all (\<lambda>e. \<not> is_container_call e) after"
proof -
  obtain s1 s2 s where run:
    "initialize_devices example_world False initial_state = (Inr (), s1)"
    "LoadBitmapsAsync example_world (L ''frames'') s1 =
       (Inr (\<lparr>texture = 0, pixel_size = \<lparr>width = 2, height = 1\<rparr>\<rparr> #
             [\<lparr>texture = 1, pixel_size = \<lparr>width = 2, height = 1\<rparr>\<rparr>]), s2)"
    "MainAsync example_world False (L ''frames'') (L ''backgrounds'') (L ''out.gif'')
       initial_state = (Inr (), s)"
    by (rule example_run)
  from container_properties_written_once[OF run] run(3) show ?thesis
    by blast
qed

theorem advance_between_frames_flush_once_witness:
  "\<exists>s.
     MainAsync example_world False (L ''frames'') (L ''backgrounds'') (L ''out.gif'')
       initial_state = (Inr (), s) \<and>
     encoder_steps (new_events initial_state s) =
       [SetMetadata, CommitPixels, Advance, SetMetadata, CommitPixels, Flush] \<and>
     length (filter (\<lambda>e. e = GoToNextFrameAsync) (new_events initial_state s)) = 1 \<and>
     length (filter (\<lambda>e. e = FlushAsync) (new_events initial_state s)) = 1"
proof -
  obtain s1 s2 s where run:
    "initialize_devices example_world False initial_state = (Inr (), s1)"
    "LoadBitmapsAsync example_world (L ''frames'') s1 =
       (Inr (\<lparr>texture = 0, pixel_size = \<lparr>width = 2, height = 1\<rparr>\<rparr> #
             [\<lparr>texture = 1, pixel_size = \<lparr>width = 2, height = 1\<rparr>\<rparr>]), s2)"
    "MainAsync example_world False (L ''frames'') (L ''backgrounds'') (L ''out.gif'')
       initial_state = (Inr (), s)"
    by (rule example_run)
  from advance_between_frames_flush_once[OF run] run(3) show ?thesis
    by (intro exI[of _ s]) simp
qed

section \<open>The background template\<close>

lemma extent_draw_over [simp]: "extent (draw_over w src dst) = extent dst"
  by (simp add: draw_over_def)

lemma extent_composite_over [simp]: "extent (composite_over w canvas layers) = extent canvas"
  by (induction layers arbitrary: canvas) (simp_all add: composite_over_def)

lemma composite_over_Nil [simp]: "composite_over w canvas [] = canvas"
  by (simp add: composite_over_def)

lemma composite_over_Cons:
  "composite_over w canvas (layer # layers) = composite_over w (draw_over w layer canvas) layers"
  by (simp add: composite_over_def)

lemma composite_over_append:
  "composite_over w canvas (lower @ upper) =
     composite_over w (composite_over w canvas lower) upper"
  by (simp add: composite_over_def)

lemma composite_over_pointwise:
  "pixels c x y = pixels c' x y \<Longrightarrow>
     pixels (composite_over w c layers) x y = pixels (composite_over w c' layers) x y"
proof (induction layers arbitrary: c c')
  case Nil
  then show ?case by simp
next
  case (Cons layer layers)
  have "pixels (draw_over w layer c) x y = pixels (draw_over w layer c') x y"
    using Cons.prems by (simp add: draw_over_def)
  then show ?case
    unfolding composite_over_Cons by (rule Cons.IH)
qed

lemma composite_over_covered:
  assumes "inside cover x y" and "covers w (pixels cover x y)"
  shows "pixels (composite_over w canvas (lower @ cover # upper)) x y =
         pixels (composite_over w cover upper) x y"
proof -
  have "pixels (draw_over w cover (composite_over w canvas lower)) x y = pixels cover x y"
    using assms by (simp add: draw_over_def inside_def covers_def)
  then show ?thesis
    unfolding composite_over_append composite_over_Cons by (rule composite_over_pointwise)
qed

lemma d2d_DrawBitmap_surfaces:
  assumes "target s = Some t" and "surfaces s t = Some c"
      and "surfaces s (texture bitmap) = Some src"
      and "d2d_DrawBitmap w bitmap s = (r, s')"
  shows "surfaces s' = (surfaces s)(t := Some (draw_over w src c))"
  using assms by (simp add: d2d_DrawBitmap_eq on_target_def)

lemma draw_backgrounds_surfaces:
  assumes "target s = Some t" and "surfaces s t = Some c"
      and "list_all2 (\<lambda>b layer. surfaces s (texture b) = Some layer \<and> texture b \<noteq> t)
             backgrounds layers"
      and "draw_backgrounds w backgrounds s = (r, s')"
  shows "surfaces s' = (surfaces s)(t := Some (composite_over w c layers))"
  using assms
proof (induction backgrounds arbitrary: s c layers)
  case Nil
  then show ?case by (auto simp: io_return_eq)
next
  case (Cons background backgrounds)
  from Cons.prems(3) obtain layer layers' where
    layers: "layers = layer # layers'"
    and here: "surfaces s (texture background) = Some layer" "texture background \<noteq> t"
    and rest: "list_all2 (\<lambda>b layer. surfaces s (texture b) = Some layer \<and> texture b \<noteq> t)
             backgrounds layers'"
    by (auto simp: list_all2_Cons1)
  obtain r1 s1 where one: "d2d_DrawBitmap w background s = (r1, s1)"
    by (cases "d2d_DrawBitmap w background s")
  have s1: "surfaces s1 = (surfaces s)(t := Some (draw_over w layer c))"
    using Cons.prems(1,2) here(1) one by (rule d2d_DrawBitmap_surfaces)
  have t1: "target s1 = Some t"
    using d2d_DrawBitmap_fields(3)[OF one] Cons.prems(1) by simp
  have c1: "surfaces s1 t = Some (draw_over w layer c)"
    by (simp add: s1)
  have rest1: "list_all2 (\<lambda>b layer. surfaces s1 (texture b) = Some layer \<and> texture b \<noteq> t)
             backgrounds layers'"
    using rest by (rule list_all2_mono) (simp add: s1)
  have loop: "draw_backgrounds w backgrounds s1 = (r, s')"
    using Cons.prems(4) one d2d_DrawBitmap_fields(1)[OF one] by (simp add: io_bind_def)
  from Cons.IH[OF t1 c1 rest1 loop] show ?case
    by (auto simp: s1 layers composite_over_Cons)
qed

lemma draw_background_template_surfaces:
  assumes "surfaces s (texture template) = Some c"
      and "list_all2 (\<lambda>b layer. surfaces s (texture b) = Some layer \<and>
              texture b \<noteq> texture template) backgrounds layers"
      and "draw_background_template w template backgrounds s = (Inr u, s')"
  shows "surfaces s' = (surfaces s)
           (texture template := Some (composite_over w (clear_surface opaque_white c) layers))"
proof -
  let ?t = "texture template"
  let ?s1 = "on_target (clear_surface opaque_white)
     (s\<lparr>target := Some ?t, trace := trace s @ [SetTarget ?t, BeginDraw, Clear opaque_white]\<rparr>)"
  obtain r s2 where loop: "draw_backgrounds w backgrounds ?s1 = (r, s2)"
    by (cases "draw_backgrounds w backgrounds ?s1")
  have s1: "surfaces ?s1 = (surfaces s)(?t := Some (clear_surface opaque_white c))"
    using assms(1) by (simp add: on_target_def)
  have "list_all2 (\<lambda>b layer. surfaces ?s1 (texture b) = Some layer \<and> texture b \<noteq> ?t)
      backgrounds layers"
    using assms(2) by (rule list_all2_mono) (simp add: s1)
  then have "surfaces s2 = (surfaces ?s1)
      (?t := Some (composite_over w (clear_surface opaque_white c) layers))"
    using loop by (intro draw_backgrounds_surfaces[where s = ?s1]) (simp_all add: s1)
  moreover have "surfaces s' = surfaces s2"
    using assms(3) loop draw_backgrounds_fields[OF loop]
    by (auto simp: draw_background_template_def d2d_SetTarget_def d2d_Clear_def Let_def
        io_bind_def emit_def modify_def call_def split: if_splits)
  ultimately show ?thesis
    by (auto simp: s1)
qed

text \<open>
  Claim C1. Take backgrounds that are bitmaps of existing textures (\<open>layers\<close>, in the
  order of the backgrounds), the render targets created for a frame size, and a
  completed pass of the background compositor. Then the template bitmap has the frame
  size, and its texture holds a surface of the frame size that is the white canvas with
  the layers drawn onto it in order; it is the white canvas itself when there are no
  backgrounds; and where a layer covers (inside its extent, with a pixel that the blend
  keeps over any destination), the template shows only that layer and the layers after
  it, nothing of the layers before.
\<close>

theorem background_template_is_composite:
  assumes "create_render_targets w frameSize s0 = (Inr rts, s1)"
      and "list_all2 (\<lambda>b layer. surfaces s0 (texture b) = Some layer \<and>
              texture b < next_handle s0) backgrounds layers"
      and "draw_background_template w (backgroundTemplate rts) backgrounds s1 = (Inr u, s2)"
  shows "\<exists>template.
     surfaces s2 (texture (backgroundTemplate rts)) = Some template \<and>
     pixel_size (backgroundTemplate rts) = frameSize \<and>
     extent template = frameSize \<and>
     template = composite_over w (white_canvas frameSize) layers \<and>
     (backgrounds = [] \<longrightarrow> template = white_canvas frameSize) \<and>
     (\<forall>lower cover upper x y.
        layers = lower @ cover # upper \<and> inside cover x y \<and> covers w (pixels cover x y) \<longrightarrow>
        pixels template x y = pixels (composite_over w cover upper) x y)"
proof -
  let ?n = "next_handle s0"
  let ?blank = "\<lparr>extent = frameSize, pixels = uninitialized w\<rparr>"
  let ?template = "composite_over w (white_canvas frameSize) layers"
  note t = create_render_targets_Inr[OF assms(1)]
  have handle: "texture (backgroundTemplate rts) = Suc ?n"
    and size: "pixel_size (backgroundTemplate rts) = frameSize"
    by (simp_all add: t(1))
  have blank: "surfaces s1 (texture (backgroundTemplate rts)) = Some ?blank"
    by (simp add: t(3) handle)
  have "list_all2 (\<lambda>b layer. surfaces s1 (texture b) = Some layer \<and>
      texture b \<noteq> texture (backgroundTemplate rts)) backgrounds layers"
    using assms(2) by (rule list_all2_mono) (auto simp: t(3) handle)
  with blank have "surfaces s2 = (surfaces s1)
      (texture (backgroundTemplate rts) :=
         Some (composite_over w (clear_surface opaque_white ?blank) layers))"
    using assms(3) by (rule draw_background_template_surfaces)
  moreover have "clear_surface opaque_white ?blank = white_canvas frameSize"
    by (simp add: clear_surface_def white_canvas_def)
  ultimately have here: "surfaces s2 (texture (backgroundTemplate rts)) = Some ?template"
    by simp
  have ext: "extent ?template = frameSize"
    by (simp add: white_canvas_def)
  have none: "backgrounds = [] \<longrightarrow> ?template = white_canvas frameSize"
    using assms(2) by auto
  have occl: "\<forall>lower cover upper x y.
        layers = lower @ cover # upper \<and> inside cover x y \<and> covers w (pixels cover x y) \<longrightarrow>
        pixels ?template x y = pixels (composite_over w cover upper) x y"
    by (auto simp: composite_over_covered)
  from here size ext none occl show ?thesis
    by (intro exI[of _ ?template] conjI) simp_all
qed

lemma example_load_backgrounds_state:
  "LoadBitmapsAsync example_world (L ''backgrounds'') s =
     (Inr [\<lparr>texture = next_handle s, pixel_size = \<lparr>width = 2, height = 1\<rparr>\<rparr>,
           \<lparr>texture = Suc (next_handle s), pixel_size = \<lparr>width = 2, height = 1\<rparr>\<rparr>],
      s\<lparr>trace := trace s @
           [fs_canonical (L ''backgrounds''), fs_directory_iterator (L ''backgrounds''),
            GetFolderFromPathAsync (L ''backgrounds''),
            GetFileAsync (L ''bg1.png''), OpenReadAsync (L ''bg1.png''),
            LoadTextureFromStreamAsync (L ''bg1.png''),
            CreateBitmapFromDxgiSurface (next_handle s),
            GetFileAsync (L ''bg2.png''), OpenReadAsync (L ''bg2.png''),
            LoadTextureFromStreamAsync (L ''bg2.png''),
            CreateBitmapFromDxgiSurface (Suc (next_handle s))],
         surfaces := (surfaces s)
           (next_handle s := Some \<lparr>extent = \<lparr>width = 2, height = 1\<rparr>,
              pixels = (\<lambda>x y. \<lparr>blue = 5, green = 5, red = 5, alpha = 0\<rparr>)\<rparr>,
            Suc (next_handle s) := Some \<lparr>extent = \<lparr>width = 2, height = 1\<rparr>,
              pixels = (\<lambda>x y. \<lparr>blue = 0, green = 0xFF, red = 0, alpha = 0xFF\<rparr>)\<rparr>),
         next_handle := Suc (Suc (next_handle s))\<rparr>)"
  by (simp add: loader_defs)

text \<open>
  The template of the example environment's \<^verbatim>\<open>backgrounds\<close> (a transparent layer, then
  an opaque green one) shows green at the origin; without backgrounds the template is
  the white canvas.
\<close>

theorem background_template_is_composite_witness:
  "(\<exists>backgrounds s0 rts s1 s2 template.
      LoadBitmapsAsync example_world (L ''backgrounds'') initial_state = (Inr backgrounds, s0) \<and>
      create_render_targets example_world \<lparr>width = 2, height = 1\<rparr> s0 = (Inr rts, s1) \<and>
      draw_background_template example_world (backgroundTemplate rts) backgrounds s1 =
        (Inr (), s2) \<and>
      surfaces s2 (texture (backgroundTemplate rts)) = Some template \<and>
      extent template = \<lparr>width = 2, height = 1\<rparr> \<and>
      pixels template 0 0 = \<lparr>blue = 0, green = 0xFF, red = 0, alpha = 0xFF\<rparr>) \<and>
   (\<exists>rts s1 s2.
      create_render_targets example_world \<lparr>width = 2, height = 1\<rparr> initial_state =
        (Inr rts, s1) \<and>
      draw_background_template example_world (backgroundTemplate rts) [] s1 = (Inr (), s2) \<and>
      surfaces s2 (texture (backgroundTemplate rts)) =
        Some (white_canvas \<lparr>width = 2, height = 1\<rparr>))"
proof
  let ?size = "\<lparr>width = 2, height = 1\<rparr> :: D2D1_SIZE_U"
  let ?green = "\<lparr>blue = 0, green = 0xFF, red = 0, alpha = 0xFF\<rparr> :: pixel"
  let ?b0 = "\<lparr>texture = 0, pixel_size = ?size\<rparr>"
  let ?b1 = "\<lparr>texture = 1, pixel_size = ?size\<rparr>"
  let ?l0 = "\<lparr>extent = ?size, pixels = (\<lambda>x y. \<lparr>blue = 5, green = 5, red = 5, alpha = 0\<rparr>)\<rparr>"
  let ?l1 = "\<lparr>extent = ?size, pixels = (\<lambda>x y. ?green)\<rparr>"
  obtain s0 where
    load: "LoadBitmapsAsync example_world (L ''backgrounds'') initial_state =
             (Inr [?b0, ?b1], s0)"
    and s0: "surfaces s0 0 = Some ?l0" "surfaces s0 1 = Some ?l1" "next_handle s0 = 2"
    by (simp add: example_load_backgrounds_state initial_state_def)
  from create_render_targets_ok[OF example_succeeds, of ?size s0] obtain rts s1 where
    targets: "create_render_targets example_world ?size s0 = (Inr rts, s1)"
    by (elim exE conjE)
  from draw_background_template_ok[OF example_succeeds, of "backgroundTemplate rts" "[?b0, ?b1]" s1 0]
  obtain s2 where
    drawn: "draw_background_template example_world (backgroundTemplate rts) [?b0, ?b1] s1 =
      (Inr (), s2)"
    by (elim exE conjE)
  have loaded: "list_all2 (\<lambda>b layer. surfaces s0 (texture b) = Some layer \<and>
      texture b < next_handle s0) [?b0, ?b1] [?l0, ?l1]"
    using s0 by simp
  from background_template_is_composite[OF targets loaded drawn] obtain template where
    *: "surfaces s2 (texture (backgroundTemplate rts)) = Some template"
      "extent template = ?size"
      "\<forall>lower cover upper x y.
        [?l0, ?l1] = lower @ cover # upper \<and> inside cover x y \<and>
        covers example_world (pixels cover x y) \<longrightarrow>
        pixels template x y = pixels (composite_over example_world cover upper) x y"
    by (elim exE conjE)
  have "[?l0, ?l1] = [?l0] @ ?l1 # [] \<and> inside ?l1 0 0 \<and>
      covers example_world (pixels ?l1 0 0)"
    by (simp add: inside_def covers_def example_world_def example_blend_def)
  with *(3) have "pixels template 0 0 = pixels (composite_over example_world ?l1 []) 0 0"
    by blast
  then have "pixels template 0 0 = ?green"
    by simp
  with load targets drawn *(1,2)
  show "\<exists>backgrounds s0 rts s1 s2 template.
      LoadBitmapsAsync example_world (L ''backgrounds'') initial_state = (Inr backgrounds, s0) \<and>
      create_render_targets example_world ?size s0 = (Inr rts, s1) \<and>
      draw_background_template example_world (backgroundTemplate rts) backgrounds s1 =
        (Inr (), s2) \<and>
      surfaces s2 (texture (backgroundTemplate rts)) = Some template \<and>
      extent template = ?size \<and>
      pixels template 0 0 = ?green"
    by (intro exI[of _ "[?b0, ?b1]"] exI[of _ s0] exI[of _ rts] exI[of _ s1] exI[of _ s2]
        exI[of _ template] conjI)
next
  let ?size = "\<lparr>width = 2, height = 1\<rparr> :: D2D1_SIZE_U"
  from create_render_targets_ok[OF example_succeeds, of ?size initial_state] obtain rts s1 where
    targets: "create_render_targets example_world ?size initial_state = (Inr rts, s1)"
    by (elim exE conjE)
  from draw_background_template_ok[OF example_succeeds, of "backgroundTemplate rts" "[]" s1 0]
  obtain s2 where
    drawn: "draw_background_template example_world (backgroundTemplate rts) [] s1 = (Inr (), s2)"
    by (elim exE conjE)
  have loaded: "list_all2 (\<lambda>b layer. surfaces initial_state (texture b) = Some layer \<and>
      texture b < next_handle initial_state) [] []"
    by simp
  from background_template_is_composite[OF targets loaded drawn] obtain template where
    *: "surfaces s2 (texture (backgroundTemplate rts)) = Some template"
      "([] :: ID2D1Bitmap1 list) = [] \<longrightarrow> template = white_canvas ?size"
    by (elim exE conjE)
  from *(2) have "template = white_canvas ?size"
    by simp
  with targets drawn *(1)
  show "\<exists>rts s1 s2.
      create_render_targets example_world ?size initial_state = (Inr rts, s1) \<and>
      draw_background_template example_world (backgroundTemplate rts) [] s1 = (Inr (), s2) \<and>
      surfaces s2 (texture (backgroundTemplate rts)) = Some (white_canvas ?size)"
    by (intro exI[of _ rts] exI[of _ s1] exI[of _ s2] conjI) simp_all
qed

section \<open>Which errors a part of the program raises\<close>

lemma fails_onlyD: "fails_only E m \<Longrightarrow> m s = (Inl e, s') \<Longrightarrow> E e"
  by (auto simp: fails_only_def)

lemma fails_only_return [intro!]: "fails_only E (io_return x)"
  by (simp add: fails_only_def io_return_def)

lemma fails_only_throw [intro!]: "E e \<Longrightarrow> fails_only E (io_throw e)"
  by (simp add: fails_only_def io_throw_def)

lemma fails_only_emit [intro!]: "fails_only E (emit e)"
  by (simp add: fails_only_def emit_def)

lemma fails_only_modify [intro!]: "fails_only E (modify f)"
  by (simp add: fails_only_def modify_def)

lemma fails_only_get_state [intro!]: "fails_only E get_state"
  by (simp add: fails_only_def get_state_def)

lemma fails_only_new_texture [intro!]: "fails_only E (new_texture sf)"
  by (simp add: fails_only_def new_texture_def)

lemma fails_only_call [intro!]: "fails_only outside_failure (call w e)"
  by (simp add: fails_only_def call_def)

lemma fails_only_bind [intro!]:
  "fails_only E m \<Longrightarrow> (\<And>x. fails_only E (f x)) \<Longrightarrow> fails_only E (io_bind m f)"
  by (auto simp: fails_only_def io_bind_def split: prod.splits sum.splits)

lemma fails_only_if [intro!]:
  "(c \<Longrightarrow> fails_only E a) \<Longrightarrow> (\<not> c \<Longrightarrow> fails_only E b) \<Longrightarrow> fails_only E (if c then a else b)"
  by simp

lemma fails_only_CreateBitmapFromTexture:
  "fails_only outside_failure (CreateBitmapFromTexture w tex)"
  unfolding CreateBitmapFromTexture_def by (auto split: option.splits)

lemma fails_only_d3d_CreateTexture2D: "fails_only outside_failure (d3d_CreateTexture2D w desc)"
  unfolding d3d_CreateTexture2D_def by auto

lemma fails_only_create_render_targets:
  "fails_only outside_failure (create_render_targets w frameSize)"
  unfolding create_render_targets_def Let_def
  by (intro fails_only_bind fails_only_return fails_only_CreateBitmapFromTexture
      fails_only_d3d_CreateTexture2D)

lemma fails_only_d2d_DrawBitmap: "fails_only E (d2d_DrawBitmap w bitmap)"
  unfolding d2d_DrawBitmap_def by auto

lemma fails_only_draw_backgrounds: "fails_only E (draw_backgrounds w backgrounds)"
  by (induction backgrounds) (auto intro: fails_only_d2d_DrawBitmap)

lemma fails_only_draw_background_template:
  "fails_only outside_failure (draw_background_template w template backgrounds)"
  unfolding draw_background_template_def d2d_SetTarget_def d2d_Clear_def Let_def
  by (intro fails_only_bind fails_only_emit fails_only_modify fails_only_call
      fails_only_draw_backgrounds)

lemma fails_only_render_and_encode_frame:
  "fails_only outside_failure (render_and_encode_frame w frames rts frameSize frameDelay i)"
  unfolding render_and_encode_frame_def d3d_CopyResource_def util_CopyBytesFromTexture_def Let_def
  by (intro fails_only_bind fails_only_emit fails_only_modify fails_only_call fails_only_if
      fails_only_return fails_only_d2d_DrawBitmap fails_only_get_state)
     (auto split: option.splits)

lemma frame_loop_fails_only:
  "frame_loop w frames rts frameSize frameDelay i s = (Inl e, s') \<Longrightarrow> outside_failure e"
proof (induction w frames rts frameSize frameDelay i s rule: frame_loop.induct)
  case (1 w frames rts frameSize frameDelay i s)
  show ?case
  proof (cases "i < length frames")
    case False
    with "1.prems" show ?thesis
      by (simp add: frame_loop.simps)
  next
    case True
    obtain r1 s1 where
      body: "render_and_encode_frame w frames rts frameSize frameDelay i s = (r1, s1)"
      by (cases "render_and_encode_frame w frames rts frameSize frameDelay i s")
    show ?thesis
    proof (cases r1)
      case (Inl e1)
      with "1.prems" True body have "e = e1"
        by (simp add: frame_loop.simps[of w frames rts frameSize frameDelay i s])
      moreover have "outside_failure e1"
        using fails_only_render_and_encode_frame body[unfolded Inl] by (rule fails_onlyD)
      ultimately show ?thesis
        by simp
    next
      case (Inr u1)
      with "1.prems" True body
      have "frame_loop w frames rts frameSize frameDelay (i + 1) s1 = (Inl e, s')"
        by (simp add: frame_loop.simps[of w frames rts frameSize frameDelay i s])
      with "1.IH"[OF True _ Inr] body show ?thesis
        by simp
    qed
  qed
qed

lemma fails_only_frame_loop:
  "fails_only outside_failure (frame_loop w frames rts frameSize frameDelay i)"
  unfolding fails_only_def by (blast intro: frame_loop_fails_only)

lemma fails_only_CreateGifEncoderAsync: "fails_only outside_failure (CreateGifEncoderAsync w)"
  unfolding CreateGifEncoderAsync_def WINRT_VERIFY_def Let_def by auto

lemma fails_only_encode_frames:
  "fails_only outside_failure (encode_frames w frames rts frameSize)"
  unfolding encode_frames_def d2d_SetTarget_def Let_def
  by (intro fails_only_bind fails_only_emit fails_only_modify fails_only_call
      fails_only_CreateGifEncoderAsync fails_only_frame_loop)

lemma outside_failure_not_mismatch: "outside_failure e \<Longrightarrow> \<not> DimensionMismatchError e"
  by (cases e) (simp_all add: DimensionMismatchError_def)

section \<open>A frame set of one frame\<close>

lemma MainAsync_after_checks:
  assumes init: "initialize_devices w useDebugLayer s0 = (Inr (), s1)"
      and load: "LoadBitmapsAsync w framesPath s1 = (Inr (frame0 # frames), s2)"
      and sizes: "\<forall>frame\<in>set frames. GetPixelSize frame = GetPixelSize frame0"
      and bg: "LoadBitmapsAsync w backgroundPath s2 = (Inr backgrounds, s3)"
      and bg_sizes: "\<forall>background\<in>set backgrounds. GetPixelSize background = GetPixelSize frame0"
  shows "MainAsync w useDebugLayer framesPath backgroundPath outputPath s0 =
     io_bind (call w (CreateStorageFileFromPathAsync outputPath)) (\<lambda>_.
     io_bind (create_render_targets w (GetPixelSize frame0)) (\<lambda>rts.
     io_bind (draw_background_template w (backgroundTemplate rts) backgrounds) (\<lambda>_.
     io_bind (encode_frames w (frame0 # frames) rts (GetPixelSize frame0)) (\<lambda>_.
     emit (wprintf (L ''Done!\<newline>'')))))) s3"
proof -
  let ?size = "GetPixelSize frame0"
  have chk1: "check_frame_sizes ?size (frame0 # frames) s2 = (Inr (), s2)"
    using sizes by (subst check_frame_sizes_eq) (rule if_P, simp)
  have chk2: "check_background_sizes ?size backgrounds s3 = (Inr (), s3)"
    using bg_sizes by (subst check_background_sizes_eq) (rule if_P)
  show ?thesis
    by (simp only: MainAsync_with_frames[OF init load]
        io_bind_Inr_I[where m = "check_frame_sizes ?size (frame0 # frames)", OF chk1]
        io_bind_Inr_I[where m = "LoadBitmapsAsync w backgroundPath", OF bg]
        io_bind_Inr_I[where m = "check_background_sizes ?size backgrounds", OF chk2])
qed

lemma MainAsync_no_mismatch_error:
  assumes "initialize_devices w useDebugLayer s0 = (Inr (), s1)"
      and "LoadBitmapsAsync w framesPath s1 = (Inr (frame0 # frames), s2)"
      and "\<forall>frame\<in>set frames. GetPixelSize frame = GetPixelSize frame0"
      and "LoadBitmapsAsync w backgroundPath s2 = (Inr backgrounds, s3)"
      and "\<forall>background\<in>set backgrounds. GetPixelSize background = GetPixelSize frame0"
      and "MainAsync w useDebugLayer framesPath backgroundPath outputPath s0 = (Inl e, s)"
  shows "outside_failure e"
proof -
  have "fails_only outside_failure
     (io_bind (call w (CreateStorageFileFromPathAsync outputPath)) (\<lambda>_.
      io_bind (create_render_targets w (GetPixelSize frame0)) (\<lambda>rts.
      io_bind (draw_background_template w (backgroundTemplate rts) backgrounds) (\<lambda>_.
      io_bind (encode_frames w (frame0 # frames) rts (GetPixelSize frame0)) (\<lambda>_.
      emit (wprintf (L ''Done!\<newline>'')))))))"
    by (intro fails_only_bind fails_only_call fails_only_create_render_targets
        fails_only_draw_background_template fails_only_encode_frames fails_only_emit)
  moreover from assms(6)
  have "io_bind (call w (CreateStorageFileFromPathAsync outputPath)) (\<lambda>_.
      io_bind (create_render_targets w (GetPixelSize frame0)) (\<lambda>rts.
      io_bind (draw_background_template w (backgroundTemplate rts) backgrounds) (\<lambda>_.
      io_bind (encode_frames w (frame0 # frames) rts (GetPixelSize frame0)) (\<lambda>_.
      emit (wprintf (L ''Done!\<newline>'')))))) s3 = (Inl e, s)"
    by (simp only: MainAsync_after_checks[OF assms(1-5)])
  ultimately show ?thesis
    by (rule fails_onlyD)
qed

lemma no_drawing_after_backgrounds:
  assumes "initialize_devices w useDebugLayer s0 = (Inr (), s1)"
      and "LoadBitmapsAsync w framesPath s1 = (r, s2)"
      and "LoadBitmapsAsync w backgroundPath s2 = (r', s3)"
  shows "list_all (\<lambda>ev. \<not> is_drawing ev \<and> \<not> is_output_call ev) (new_events s0 s3)"
proof -
  have a: "list_all (\<lambda>ev. \<not> is_drawing ev \<and> \<not> is_output_call ev) (new_events s0 s2)"
    using assms(1,2) by (rule no_drawing_after_loading(1))
  have s2: "trace s2 = trace s0 @ new_events s0 s2"
    using assms(1,2) by (rule no_drawing_after_loading(3))
  from emitsD[OF emits_LoadBitmapsAsync assms(3)] obtain c where
    c: "trace s3 = trace s2 @ c"
       "list_all (\<lambda>e. \<not> is_drawing e \<and> \<not> is_output_call e \<and>
          (\<forall>p. e = fs_canonical p \<longrightarrow> p = backgroundPath)) c"
    by blast
  have "new_events s0 s3 = new_events s0 s2 @ c"
    using s2 c(1) by (rule new_events_trans)
  with a c(2) show ?thesis
    by (auto simp: list_all_iff)
qed

text \<open>
  Claim C9, as the code has it. With the frames and the backgrounds loaded,
  \<^verbatim>\<open>MainAsync\<close> ends with \<open>DimensionMismatchError\<close> exactly when some frame differs in
  size from the first frame or some background does, and then nothing was drawn and the
  output was not touched. The number of frames plays no part: a frame set of one frame
  (\<open>frames = []\<close> after the first) raises the error only for a background of another
  size.
\<close>

theorem dimension_error_exactly_on_mismatch:
  assumes "initialize_devices w useDebugLayer s0 = (Inr (), s1)"
      and "LoadBitmapsAsync w framesPath s1 = (Inr (frame0 # frames), s2)"
      and "LoadBitmapsAsync w backgroundPath s2 = (Inr backgrounds, s3)"
  shows "((\<exists>e s. MainAsync w useDebugLayer framesPath backgroundPath outputPath s0 = (Inl e, s) \<and>
             DimensionMismatchError e) \<longleftrightarrow>
          (\<exists>f\<in>set frames. GetPixelSize f \<noteq> GetPixelSize frame0) \<or>
          (\<exists>b\<in>set backgrounds. GetPixelSize b \<noteq> GetPixelSize frame0)) \<and>
         (\<forall>e s. MainAsync w useDebugLayer framesPath backgroundPath outputPath s0 = (Inl e, s) \<and>
             DimensionMismatchError e \<longrightarrow>
             list_all (\<lambda>ev. \<not> is_drawing ev \<and> \<not> is_output_call ev) (new_events s0 s))"
proof -
  let ?run = "MainAsync w useDebugLayer framesPath backgroundPath outputPath s0"
  let ?quiet = "\<lambda>s. list_all (\<lambda>ev. \<not> is_drawing ev \<and> \<not> is_output_call ev) (new_events s0 s)"
  consider
    (frames) "\<not> (\<forall>f\<in>set (frame0 # frames). GetPixelSize f = GetPixelSize frame0)"
  | (backgrounds) "\<forall>f\<in>set (frame0 # frames). GetPixelSize f = GetPixelSize frame0"
      "\<not> (\<forall>b\<in>set backgrounds. GetPixelSize b = GetPixelSize frame0)"
  | (equal) "\<forall>f\<in>set frames. GetPixelSize f = GetPixelSize frame0"
      "\<forall>b\<in>set backgrounds. GetPixelSize b = GetPixelSize frame0"
    by (meson list.set_intros(2))
  then show ?thesis
  proof cases
    case frames
    have run: "?run =
        (Inl (hresult_invalid_argument (L ''All frames must be of the same size!'')), s2)"
      using assms(1,2) frames by (rule MainAsync_frames_mismatch)
    have quiet: "?quiet s2"
      using assms(1,2) by (rule no_drawing_after_loading(1))
    have mismatch: "\<exists>f\<in>set frames. GetPixelSize f \<noteq> GetPixelSize frame0"
      using frames by simp
    show ?thesis
      using run quiet mismatch by (simp add: DimensionMismatchError_def)
  next
    case backgrounds
    have run: "?run =
        (Inl (hresult_invalid_argument
           (L ''All backgrounds must be of the same size as the frames!'')), s3)"
      using assms(1,2) backgrounds(1) assms(3) backgrounds(2)
      by (rule MainAsync_backgrounds_mismatch)
    have quiet: "?quiet s3"
      using assms by (rule no_drawing_after_backgrounds)
    have mismatch: "\<exists>b\<in>set backgrounds. GetPixelSize b \<noteq> GetPixelSize frame0"
      using backgrounds(2) by simp
    show ?thesis
      using run quiet mismatch by (simp add: DimensionMismatchError_def)
  next
    case equal
    have "\<not> DimensionMismatchError e" if "?run = (Inl e, s)" for e s
      using MainAsync_no_mismatch_error[OF assms(1,2) equal(1) assms(3) equal(2) that]
      by (rule outside_failure_not_mismatch)
    with equal show ?thesis
      by blast
  qed
qed

lemma example_single_run:
  obtains s1 s2 s3 s where
    "next_handle s1 = 0"
    "initialize_devices example_world False initial_state = (Inr (), s1)"
    "LoadBitmapsAsync example_world (L ''single'') s1 =
       (Inr (\<lparr>texture = 0, pixel_size = \<lparr>width = 1, height = 1\<rparr>\<rparr> # []), s2)"
    "LoadBitmapsAsync example_world (L ''empty'') s2 = (Inr [], s3)"
    "MainAsync example_world False (L ''single'') (L ''empty'') (L ''out.gif'')
       initial_state = (Inr (), s)"
proof -
  obtain s1 where
    init: "initialize_devices example_world False initial_state = (Inr (), s1)"
    and h1: "next_handle s1 = 0"
    by (simp add: initialize_devices_ok example_succeeds initial_state_def)
  from example_load_single[of s1] obtain s2 where
    load: "LoadBitmapsAsync example_world (L ''single'') s1 =
       (Inr (\<lparr>texture = 0, pixel_size = \<lparr>width = 1, height = 1\<rparr>\<rparr> # []), s2)"
    unfolding h1 by (elim exE)
  obtain s3 where bg: "LoadBitmapsAsync example_world (L ''empty'') s2 = (Inr [], s3)"
    by (simp add: example_load_empty)
  have "\<exists>s. MainAsync example_world False (L ''single'') (L ''empty'') (L ''out.gif'')
       initial_state = (Inr (), s)"
    using example_succeeds init load _ bg by (rule MainAsync_ok) simp_all
  then obtain s where
    "MainAsync example_world False (L ''single'') (L ''empty'') (L ''out.gif'')
       initial_state = (Inr (), s)"
    by (elim exE)
  with h1 init load bg show ?thesis
    by (rule that)
qed

text \<open>
  A run whose frame set has exactly one frame: the directory \<^verbatim>\<open>single\<close> of the
  example environment holds one image, and the run returns normally.
\<close>

theorem single_frame_run_completes:
  "fst (LoadBitmapsAsync example_world (L ''single'')
          (snd (initialize_devices example_world False initial_state))) =
     Inr [\<lparr>texture = 0, pixel_size = \<lparr>width = 1, height = 1\<rparr>\<rparr>] \<and>
   fst (MainAsync example_world False (L ''single'') (L ''empty'') (L ''out.gif'')
          initial_state) = Inr ()"
proof -
  obtain s1 s2 s3 s where run:
    "next_handle s1 = 0"
    "initialize_devices example_world False initial_state = (Inr (), s1)"
    "LoadBitmapsAsync example_world (L ''single'') s1 =
       (Inr (\<lparr>texture = 0, pixel_size = \<lparr>width = 1, height = 1\<rparr>\<rparr> # []), s2)"
    "LoadBitmapsAsync example_world (L ''empty'') s2 = (Inr [], s3)"
    "MainAsync example_world False (L ''single'') (L ''empty'') (L ''out.gif'')
       initial_state = (Inr (), s)"
    by (rule example_single_run)
  then show ?thesis
    by simp
qed

theorem dimension_error_exactly_on_mismatch_witness:
  "\<not> (\<exists>e s. MainAsync example_world False (L ''single'') (L ''empty'') (L ''out.gif'')
               initial_state = (Inl e, s) \<and> DimensionMismatchError e) \<and>
   (\<exists>e s. MainAsync example_world False (L ''frames'') (L ''wide'') (L ''out.gif'')
             initial_state = (Inl e, s) \<and>
          DimensionMismatchError e \<and>
          list_all (\<lambda>ev. \<not> is_drawing ev \<and> \<not> is_output_call ev) (new_events initial_state s))"
proof
  obtain s1 s2 s3 s where run:
    "next_handle s1 = 0"
    "initialize_devices example_world False initial_state = (Inr (), s1)"
    "LoadBitmapsAsync example_world (L ''single'') s1 =
       (Inr (\<lparr>texture = 0, pixel_size = \<lparr>width = 1, height = 1\<rparr>\<rparr> # []), s2)"
    "LoadBitmapsAsync example_world (L ''empty'') s2 = (Inr [], s3)"
    "MainAsync example_world False (L ''single'') (L ''empty'') (L ''out.gif'')
       initial_state = (Inr (), s)"
    by (rule example_single_run)
  from dimension_error_exactly_on_mismatch[OF run(2,3,4), of "L ''out.gif''"]
  show "\<not> (\<exists>e s. MainAsync example_world False (L ''single'') (L ''empty'') (L ''out.gif'')
               initial_state = (Inl e, s) \<and> DimensionMismatchError e)"
    by simp
next
  obtain s1 where
    init: "initialize_devices example_world False initial_state = (Inr (), s1)"
    and h1: "next_handle s1 = 0"
    by (simp add: initialize_devices_ok example_succeeds initial_state_def)
  obtain s2 where
    load: "LoadBitmapsAsync example_world (L ''frames'') s1 =
      (Inr (\<lparr>texture = 0, pixel_size = \<lparr>width = 2, height = 1\<rparr>\<rparr> #
            [\<lparr>texture = 1, pixel_size = \<lparr>width = 2, height = 1\<rparr>\<rparr>]), s2)"
    by (simp add: example_load_frames h1)
  from example_load_wide[of s2] obtain s3 where
    bg: "LoadBitmapsAsync example_world (L ''wide'') s2 =
      (Inr [\<lparr>texture = next_handle s2, pixel_size = \<lparr>width = 3, height = 1\<rparr>\<rparr>], s3)"
    by (elim exE)
  have mismatch: "\<exists>b\<in>set [\<lparr>texture = next_handle s2, pixel_size = \<lparr>width = 3, height = 1\<rparr>\<rparr>].
      GetPixelSize b \<noteq> GetPixelSize \<lparr>texture = 0, pixel_size = \<lparr>width = 2, height = 1\<rparr>\<rparr>"
    by (simp add: GetPixelSize_def)
  from dimension_error_exactly_on_mismatch[OF init load bg, of "L ''out.gif''"] mismatch
  show "\<exists>e s. MainAsync example_world False (L ''frames'') (L ''wide'') (L ''out.gif'')
             initial_state = (Inl e, s) \<and>
          DimensionMismatchError e \<and>
          list_all (\<lambda>ev. \<not> is_drawing ev \<and> \<not> is_output_call ev) (new_events initial_state s)"
    by blast
qed

section \<open>What a complete run renders\<close>

lemma surface_bytes_pixels:
  "extent S = extent R \<Longrightarrow> surface_bytes (S\<lparr>pixels := pixels R\<rparr>) = surface_bytes R"
  by (simp add: surface_bytes_def)

lemma d3d_CopyResource_surfaces:
  assumes "surfaces s dst = Some d" and "surfaces s src = Some sf"
      and "d3d_CopyResource dst src s = (r, s')"
  shows "surfaces s' = (surfaces s)(dst := Some (d\<lparr>pixels := pixels sf\<rparr>))"
  using assms by (auto simp: d3d_CopyResource_def io_bind_def emit_def modify_def)

lemma render_and_encode_frame_pixels:
  assumes run: "render_and_encode_frame w frames rts frameSize 13 i s = (Inr u, s')"
      and tgt: "target s = Some (renderTargetTexture rts)"
      and rt: "surfaces s (renderTargetTexture rts) = Some R"
      and tm: "surfaces s (texture (backgroundTemplate rts)) = Some T"
      and fr: "surfaces s (texture (frames ! i)) = Some F"
      and st: "surfaces s (stagingTexture rts) = Some S"
      and ext: "extent S = extent R"
      and ne: "texture (frames ! i) \<noteq> renderTargetTexture rts"
        "stagingTexture rts \<noteq> renderTargetTexture rts"
  shows "trace s' = trace s @
      frame_calls rts frameSize (frames ! i)
        (surface_bytes (draw_over w F (draw_over w T R))) (i < length frames - 1)"
    and "surfaces s' = (surfaces s)
      (renderTargetTexture rts := Some (draw_over w F (draw_over w T R)),
       stagingTexture rts := Some (S\<lparr>pixels := pixels (draw_over w F (draw_over w T R))\<rparr>))"
    and "target s' = target s"
proof -
  let ?rt = "renderTargetTexture rts"
  let ?R1 = "draw_over w T R"
  let ?R2 = "draw_over w F ?R1"
  let ?s1 = "s\<lparr>trace := trace s @ [BeginDraw]\<rparr>"
  from run obtain s2 s3 s4 s5 bytes s6 s7 s8 u1 u2 u3 u4 u5 where
    steps: "d2d_DrawBitmap w (backgroundTemplate rts) ?s1 = (Inr u1, s2)"
      "d2d_DrawBitmap w (frames ! i) s2 = (Inr u2, s3)"
      "call w EndDraw s3 = (Inr u3, s4)"
      "d3d_CopyResource (stagingTexture rts) (renderTargetTexture rts) s4 = (Inr u4, s5)"
      "util_CopyBytesFromTexture w (stagingTexture rts) s5 = (Inr bytes, s6)"
      "call w (BitmapProperties_SetPropertiesAsync [(L ''/grctlext/Delay'', UInt16 (ucast (13 :: 32 word)))]) s6 = (Inr u5, s7)"
      "call w (SetPixelData Bgra8 Premultiplied (width frameSize) (height frameSize) 1 1 bytes) s7 = (Inr (), s8)"
      "(if i < length frames - 1 then call w GoToNextFrameAsync else io_return ()) s8 = (Inr u, s')"
    unfolding render_and_encode_frame_def Let_def io_bind_Inr emit_eq by auto
  have t2: "trace s2 = trace s @ [BeginDraw, DrawBitmap (texture (backgroundTemplate rts))]"
    using d2d_DrawBitmap_fields(2)[OF steps(1)] by simp
  have g2: "target s2 = Some ?rt"
    using d2d_DrawBitmap_fields(3)[OF steps(1)] tgt by simp
  have "surfaces s2 = (surfaces ?s1)(?rt := Some ?R1)"
    using _ _ _ steps(1) by (rule d2d_DrawBitmap_surfaces) (simp_all add: tgt rt tm)
  then have f2: "surfaces s2 = (surfaces s)(?rt := Some ?R1)"
    by simp
  have t3: "trace s3 = trace s2 @ [DrawBitmap (texture (frames ! i))]"
    using d2d_DrawBitmap_fields(2)[OF steps(2)] .
  have g3: "target s3 = Some ?rt"
    using d2d_DrawBitmap_fields(3)[OF steps(2)] g2 by simp
  have "surfaces s3 = (surfaces s2)(?rt := Some ?R2)"
    using g2 _ _ steps(2) by (rule d2d_DrawBitmap_surfaces) (simp_all add: f2 fr ne)
  then have f3: "surfaces s3 = (surfaces s)(?rt := Some ?R2)"
    by (simp add: f2)
  have s4: "s4 = s3\<lparr>trace := trace s3 @ [EndDraw]\<rparr>"
    using steps(3) by (simp add: call_Inr)
  have t5: "trace s5 = trace s4 @ [CopyResource (stagingTexture rts) ?rt]"
    using d3d_CopyResource_fields(2)[OF steps(4)] .
  have g5: "target s5 = Some ?rt"
    using d3d_CopyResource_fields(3)[OF steps(4)] g3 s4 by simp
  have "surfaces s5 = (surfaces s4)(stagingTexture rts := Some (S\<lparr>pixels := pixels ?R2\<rparr>))"
    using _ _ steps(4) by (rule d3d_CopyResource_surfaces) (simp_all add: s4 f3 st ne)
  then have f5: "surfaces s5 = (surfaces s)
      (?rt := Some ?R2, stagingTexture rts := Some (S\<lparr>pixels := pixels ?R2\<rparr>))"
    by (simp add: s4 f3)
  have s6: "s6 = s5\<lparr>trace := trace s5 @ [CopyBytesFromTexture (stagingTexture rts) bytes]\<rparr>"
    using util_CopyBytesFromTexture_Inr(1)[OF steps(5)] .
  from util_CopyBytesFromTexture_Inr(2)[OF steps(5)]
  have "bytes = surface_bytes (S\<lparr>pixels := pixels ?R2\<rparr>)"
    by (simp add: f5)
  then have bytes: "bytes = surface_bytes ?R2"
    using ext by (simp add: surface_bytes_pixels)
  have s7: "s7 = s6\<lparr>trace := trace s6 @
      [BitmapProperties_SetPropertiesAsync [(L ''/grctlext/Delay'', UInt16 13)]]\<rparr>"
    using steps(6) by (simp add: call_Inr)
  have s8: "s8 = s7\<lparr>trace := trace s7 @
      [SetPixelData Bgra8 Premultiplied (width frameSize) (height frameSize) 1 1 bytes]\<rparr>"
    using steps(7) by (simp add: call_Inr)
  have s': "s' = s8\<lparr>trace := trace s8 @
      (if i < length frames - 1 then [GoToNextFrameAsync] else [])\<rparr>"
    using steps(8) by (auto simp: call_Inr io_return_eq split: if_splits)
  show "trace s' = trace s @
      frame_calls rts frameSize (frames ! i) (surface_bytes ?R2) (i < length frames - 1)"
    by (simp add: s' s8 s7 s6 t5 s4 t3 t2 bytes frame_calls_def)
  show "surfaces s' = (surfaces s)
      (?rt := Some ?R2, stagingTexture rts := Some (S\<lparr>pixels := pixels ?R2\<rparr>))"
    by (simp add: s' s8 s7 s6 f5)
  show "target s' = target s"
    by (simp add: s' s8 s7 s6 g5 tgt)
qed

lemma rendered_frames_length [simp]:
  "length (rendered_frames w T surfs R) = length surfs"
  by (induction surfs arbitrary: R) (simp_all add: Let_def)

lemma frame_loop_pixels:
  "frame_loop w frames rts frameSize 13 i s = (Inr u, s') \<Longrightarrow>
   target s = Some (renderTargetTexture rts) \<Longrightarrow>
   surfaces s (renderTargetTexture rts) = Some R \<Longrightarrow>
   surfaces s (texture (backgroundTemplate rts)) = Some T \<Longrightarrow>
   surfaces s (stagingTexture rts) = Some S \<Longrightarrow>
   extent S = extent R \<Longrightarrow>
   list_all2 (\<lambda>f sf. surfaces s (texture f) = Some sf \<and>
       texture f \<noteq> renderTargetTexture rts \<and> texture f \<noteq> stagingTexture rts) frames surfs \<Longrightarrow>
   distinct [renderTargetTexture rts, texture (backgroundTemplate rts), stagingTexture rts] \<Longrightarrow>
   trace s' = trace s @
     concat (map (\<lambda>j. frame_calls rts frameSize (frames ! j)
                (map surface_bytes (rendered_frames w T (drop i surfs) R) ! (j - i))
                (j < length frames - 1)) [i ..< length frames]) \<and>
   (\<forall>h. h \<noteq> renderTargetTexture rts \<and> h \<noteq> stagingTexture rts \<longrightarrow>
      surfaces s' h = surfaces s h)"
proof (induction w frames rts frameSize "13 :: 32 word" i s arbitrary: R S
    rule: frame_loop.induct)
  case (1 w frames rts frameSize i s)
  let ?rt = "renderTargetTexture rts"
  let ?st = "stagingTexture rts"
  show ?case
  proof (cases "i < length frames")
    case False
    with "1.prems"(1) show ?thesis
      by (simp add: frame_loop.simps)
  next
    case True
    with "1.prems"(1) obtain u1 s1 where
      body: "render_and_encode_frame w frames rts frameSize 13 i s = (Inr u1, s1)"
      and rest: "frame_loop w frames rts frameSize 13 (i + 1) s1 = (Inr u, s')"
      by (auto simp: frame_loop.simps[of w frames rts frameSize 13 i s]
          split: prod.splits sum.splits)
    have len: "length surfs = length frames"
      using "1.prems"(7) by (simp add: list_all2_lengthD)
    have fi: "surfaces s (texture (frames ! i)) = Some (surfs ! i)"
      "texture (frames ! i) \<noteq> ?rt"
      using list_all2_nthD[OF "1.prems"(7) True] by simp_all
    let ?R' = "draw_over w (surfs ! i) (draw_over w T R)"
    let ?S' = "S\<lparr>pixels := pixels ?R'\<rparr>"
    have ne: "?st \<noteq> ?rt" "texture (backgroundTemplate rts) \<noteq> ?rt"
      "texture (backgroundTemplate rts) \<noteq> ?st"
      using "1.prems"(8) by auto
    note b = render_and_encode_frame_pixels[OF body "1.prems"(2) "1.prems"(3) "1.prems"(4)
        fi(1) "1.prems"(5) "1.prems"(6) fi(2) ne(1)]
    have g1: "target s1 = Some ?rt"
      using b(3) "1.prems"(2) by simp
    have r1: "surfaces s1 ?rt = Some ?R'"
      using ne(1) by (simp add: b(2))
    have t1: "surfaces s1 (texture (backgroundTemplate rts)) = Some T"
      using ne "1.prems"(4) by (simp add: b(2))
    have st1: "surfaces s1 ?st = Some ?S'"
      by (simp add: b(2))
    have e1: "extent ?S' = extent ?R'"
      using "1.prems"(6) by simp
    have l1: "list_all2 (\<lambda>f sf. surfaces s1 (texture f) = Some sf \<and>
       texture f \<noteq> ?rt \<and> texture f \<noteq> ?st) frames surfs"
      using "1.prems"(7) by (rule list_all2_mono) (simp add: b(2))
    from "1.hyps"[OF True body[symmetric] refl rest g1 r1 t1 st1 e1 l1 "1.prems"(8)]
    have ih: "trace s' = trace s1 @
       concat (map (\<lambda>j. frame_calls rts frameSize (frames ! j)
                (map surface_bytes (rendered_frames w T (drop (i + 1) surfs) ?R') ! (j - (i + 1)))
                (j < length frames - 1)) [i + 1 ..< length frames])"
      and keep: "\<forall>h. h \<noteq> ?rt \<and> h \<noteq> ?st \<longrightarrow> surfaces s' h = surfaces s1 h"
      by simp_all
    have dr: "drop i surfs = surfs ! i # drop (Suc i) surfs"
      using True len by (simp add: Cons_nth_drop_Suc)
    have rf: "rendered_frames w T (drop i surfs) R =
        ?R' # rendered_frames w T (drop (Suc i) surfs) ?R'"
      by (simp add: dr Let_def)
    have shift: "map (\<lambda>j. frame_calls rts frameSize (frames ! j)
           (map surface_bytes (rendered_frames w T (drop (Suc i) surfs) ?R') ! (j - Suc i))
           (j < length frames - Suc 0)) [Suc i ..< length frames] =
         map (\<lambda>j. frame_calls rts frameSize (frames ! j)
           (map surface_bytes (rendered_frames w T (drop i surfs) R) ! (j - i))
           (j < length frames - Suc 0)) [Suc i ..< length frames]"
      by (rule map_cong) (auto simp: rf Suc_diff_le)
    have here: "map surface_bytes (rendered_frames w T (drop i surfs) R) ! (i - i) =
        surface_bytes ?R'"
      by (simp add: rf)
    have "trace s' = trace s @
     concat (map (\<lambda>j. frame_calls rts frameSize (frames ! j)
                (map surface_bytes (rendered_frames w T (drop i surfs) R) ! (j - i))
                (j < length frames - 1)) [i ..< length frames])"
      using ih b(1) True here by (simp add: upt_conv_Cons shift)
    moreover have "\<forall>h. h \<noteq> ?rt \<and> h \<noteq> ?st \<longrightarrow> surfaces s' h = surfaces s h"
      using keep by (simp add: b(2))
    ultimately show ?thesis
      by (rule conjI)
  qed
qed


lemma encode_frames_pixels:
  assumes run: "encode_frames w frames rts frameSize s = (Inr u, s')"
      and same: "renderTargetTexture rts = texture (renderTarget rts)"
      and rt: "surfaces s (renderTargetTexture rts) = Some R"
      and tm: "surfaces s (texture (backgroundTemplate rts)) = Some T"
      and st: "surfaces s (stagingTexture rts) = Some S"
      and ext: "extent S = extent R"
      and fr: "list_all2 (\<lambda>f sf. surfaces s (texture f) = Some sf \<and>
          texture f \<noteq> renderTargetTexture rts \<and> texture f \<noteq> stagingTexture rts) frames surfs"
      and ne: "distinct [renderTargetTexture rts, texture (backgroundTemplate rts),
          stagingTexture rts]"
  shows "trace s' = trace s @ encoder_setup_calls rts @
      all_frame_calls rts frameSize frames (map surface_bytes (rendered_frames w T surfs R)) @
      [FlushAsync]"
    and "\<forall>h. h \<noteq> renderTargetTexture rts \<and> h \<noteq> stagingTexture rts \<longrightarrow>
      surfaces s' h = surfaces s h"
proof -
  let ?sa = "s\<lparr>target := Some (texture (renderTarget rts)),
      trace := trace s @ [SetTarget (texture (renderTarget rts))]\<rparr>"
  from run have "io_bind (d2d_SetTarget (renderTarget rts)) (\<lambda>_.
      io_bind (call w (OpenAsync ReadWrite)) (\<lambda>_.
      io_bind (CreateGifEncoderAsync w) (\<lambda>_.
      io_bind (frame_loop w frames rts frameSize 13 0) (\<lambda>_.
      call w FlushAsync)))) s = (Inr u, s')"
    by (simp add: encode_frames_def)
  then obtain u1 sa where
    a: "d2d_SetTarget (renderTarget rts) s = (Inr u1, sa)"
    and c1: "io_bind (call w (OpenAsync ReadWrite)) (\<lambda>_.
      io_bind (CreateGifEncoderAsync w) (\<lambda>_.
      io_bind (frame_loop w frames rts frameSize 13 0) (\<lambda>_.
      call w FlushAsync))) sa = (Inr u, s')"
    by (rule io_bind_InrE)
  from c1 obtain u2 sb where
    b: "call w (OpenAsync ReadWrite) sa = (Inr u2, sb)"
    and c2: "io_bind (CreateGifEncoderAsync w) (\<lambda>_.
      io_bind (frame_loop w frames rts frameSize 13 0) (\<lambda>_.
      call w FlushAsync)) sb = (Inr u, s')"
    by (rule io_bind_InrE)
  from c2 obtain u3 sc where
    c: "CreateGifEncoderAsync w sb = (Inr u3, sc)"
    and c3: "io_bind (frame_loop w frames rts frameSize 13 0) (\<lambda>_.
      call w FlushAsync) sc = (Inr u, s')"
    by (rule io_bind_InrE)
  from c3 obtain u4 sd where
    d: "frame_loop w frames rts frameSize 13 0 sc = (Inr u4, sd)"
    and e: "call w FlushAsync sd = (Inr u, s')"
    by (rule io_bind_InrE)
  have sa: "sa = ?sa"
    using a by (simp add: d2d_SetTarget_def io_simps)
  have sb: "sb = sa\<lparr>trace := trace sa @ [OpenAsync ReadWrite]\<rparr>"
    using b by (simp add: call_Inr)
  note sc = CreateGifEncoderAsync_Inr[OF c]
  have surf: "surfaces sc = surfaces s"
    by (subst sc) (simp add: sb sa)
  have tgt: "target sc = Some (renderTargetTexture rts)"
    by (subst sc) (simp add: sb sa same)
  have tr: "trace sc = trace s @ encoder_setup_calls rts"
    by (subst sc) (simp add: sb sa encoder_setup_calls_def)
  have fr': "list_all2 (\<lambda>f sf. surfaces sc (texture f) = Some sf \<and>
          texture f \<noteq> renderTargetTexture rts \<and> texture f \<noteq> stagingTexture rts) frames surfs"
    using fr by (simp add: surf)
  have loop: "trace sd = trace sc @
     concat (map (\<lambda>j. frame_calls rts frameSize (frames ! j)
                (map surface_bytes (rendered_frames w T (drop 0 surfs) R) ! (j - 0))
                (j < length frames - 1)) [0 ..< length frames]) \<and>
   (\<forall>h. h \<noteq> renderTargetTexture rts \<and> h \<noteq> stagingTexture rts \<longrightarrow>
      surfaces sd h = surfaces sc h)"
    using d tgt _ _ _ ext fr' ne by (rule frame_loop_pixels) (simp_all add: surf rt tm st)
  have s': "s' = sd\<lparr>trace := trace sd @ [FlushAsync]\<rparr>"
    using e by (simp add: call_Inr)
  show "trace s' = trace s @ encoder_setup_calls rts @
      all_frame_calls rts frameSize frames (map surface_bytes (rendered_frames w T surfs R)) @
      [FlushAsync]"
    using loop by (simp add: s' tr all_frame_calls_def)
  show "\<forall>h. h \<noteq> renderTargetTexture rts \<and> h \<noteq> stagingTexture rts \<longrightarrow>
      surfaces s' h = surfaces s h"
    using loop by (simp add: s' surf)
qed

lemma list_all2_choice:
  "\<forall>x\<in>set xs. \<exists>y. P x y \<Longrightarrow> \<exists>ys. list_all2 P xs ys"
proof (induction xs)
  case Nil
  show ?case by simp
next
  case (Cons x xs)
  then obtain y ys where "P x y" "list_all2 P xs ys"
    by auto
  then have "list_all2 P (x # xs) (y # ys)"
    by simp
  then show ?case ..
qed

lemma LoadBitmapsAsync_surfaces:
  assumes "LoadBitmapsAsync w path s = (Inr bitmaps, s')"
  obtains surfs where
    "list_all2 (\<lambda>b sf. surfaces s' (texture b) = Some sf \<and> texture b < next_handle s')
       bitmaps surfs"
    "next_handle s \<le> next_handle s'"
    "\<forall>h<next_handle s. surfaces s' h = surfaces s h"
proof -
  from LoadBitmapsAsync_Inr[OF assms] obtain entries where
    *: "list_all2 (\<lambda>name bitmap. loaded_from w entries s' name bitmap \<and>
          next_handle s \<le> texture bitmap \<and> texture bitmap < next_handle s')
        (sort (png_names entries)) bitmaps"
      "next_handle s \<le> next_handle s'"
      "\<forall>h<next_handle s. surfaces s' h = surfaces s h"
    by (elim exE conjE)
  have "\<forall>b\<in>set bitmaps. \<exists>sf. surfaces s' (texture b) = Some sf \<and> texture b < next_handle s'"
  proof
    fix b assume "b \<in> set bitmaps"
    then obtain j where j: "j < length bitmaps" "b = bitmaps ! j"
      by (auto simp: in_set_conv_nth)
    from *(1) j(1) have "loaded_from w entries s' (sort (png_names entries) ! j) (bitmaps ! j) \<and>
          next_handle s \<le> texture (bitmaps ! j) \<and> texture (bitmaps ! j) < next_handle s'"
      by (simp add: list_all2_conv_all_nth)
    then show "\<exists>sf. surfaces s' (texture b) = Some sf \<and> texture b < next_handle s'"
      unfolding loaded_from_def j(2) by blast
  qed
  then have "\<exists>surfs. list_all2
      (\<lambda>b sf. surfaces s' (texture b) = Some sf \<and> texture b < next_handle s') bitmaps surfs"
    by (rule list_all2_choice)
  then obtain surfs where
    "list_all2 (\<lambda>b sf. surfaces s' (texture b) = Some sf \<and> texture b < next_handle s')
       bitmaps surfs"
    by (elim exE)
  then show ?thesis
    using *(2,3) by (rule that)
qed


lemma MainAsync_success_steps:
  assumes init: "initialize_devices w useDebugLayer s0 = (Inr (), s1)"
      and load: "LoadBitmapsAsync w framesPath s1 = (Inr (frame0 # frames), s2)"
      and run: "MainAsync w useDebugLayer framesPath backgroundPath outputPath s0 = (Inr u, s)"
  obtains backgrounds s3 rts s5 s6 s7 u5 u6 where
      "LoadBitmapsAsync w backgroundPath s2 = (Inr backgrounds, s3)"
      "\<forall>f\<in>set (frame0 # frames). GetPixelSize f = GetPixelSize frame0"
      "\<forall>b\<in>set backgrounds. GetPixelSize b = GetPixelSize frame0"
      "create_render_targets w (GetPixelSize frame0)
         (s3\<lparr>trace := trace s3 @ [CreateStorageFileFromPathAsync outputPath]\<rparr>) = (Inr rts, s5)"
      "draw_background_template w (backgroundTemplate rts) backgrounds s5 = (Inr u5, s6)"
      "encode_frames w (frame0 # frames) rts (GetPixelSize frame0) s6 = (Inr u6, s7)"
      "s = s7\<lparr>trace := trace s7 @ [wprintf (L ''Done!\<newline>'')]\<rparr>"
proof -
  let ?size = "GetPixelSize frame0"
  from run have "io_bind (check_frame_sizes ?size (frame0 # frames)) (\<lambda>_.
     io_bind (LoadBitmapsAsync w backgroundPath) (\<lambda>backgrounds.
     io_bind (check_background_sizes ?size backgrounds) (\<lambda>_.
     io_bind (call w (CreateStorageFileFromPathAsync outputPath)) (\<lambda>_.
     io_bind (create_render_targets w ?size) (\<lambda>rts.
     io_bind (draw_background_template w (backgroundTemplate rts) backgrounds) (\<lambda>_.
     io_bind (encode_frames w (frame0 # frames) rts ?size) (\<lambda>_.
     emit (wprintf (L ''Done!\<newline>''))))))))) s2 = (Inr u, s)"
    by (simp only: MainAsync_with_frames[OF init load])
  then obtain u1 t1 where
    chk1: "check_frame_sizes ?size (frame0 # frames) s2 = (Inr u1, t1)"
    and c1: "io_bind (LoadBitmapsAsync w backgroundPath) (\<lambda>backgrounds.
     io_bind (check_background_sizes ?size backgrounds) (\<lambda>_.
     io_bind (call w (CreateStorageFileFromPathAsync outputPath)) (\<lambda>_.
     io_bind (create_render_targets w ?size) (\<lambda>rts.
     io_bind (draw_background_template w (backgroundTemplate rts) backgrounds) (\<lambda>_.
     io_bind (encode_frames w (frame0 # frames) rts ?size) (\<lambda>_.
     emit (wprintf (L ''Done!\<newline>'')))))))) t1 = (Inr u, s)"
    by (rule io_bind_InrE)
  from chk1 have frames_ok: "\<forall>f\<in>set (frame0 # frames). GetPixelSize f = ?size" and t1: "t1 = s2"
    unfolding check_frame_sizes_eq by (simp_all split: if_splits)
  from c1 obtain backgrounds s3 where
    bg: "LoadBitmapsAsync w backgroundPath t1 = (Inr backgrounds, s3)"
    and c2: "io_bind (check_background_sizes ?size backgrounds) (\<lambda>_.
     io_bind (call w (CreateStorageFileFromPathAsync outputPath)) (\<lambda>_.
     io_bind (create_render_targets w ?size) (\<lambda>rts.
     io_bind (draw_background_template w (backgroundTemplate rts) backgrounds) (\<lambda>_.
     io_bind (encode_frames w (frame0 # frames) rts ?size) (\<lambda>_.
     emit (wprintf (L ''Done!\<newline>''))))))) s3 = (Inr u, s)"
    by (rule io_bind_InrE)
  from c2 obtain u2 t2 where
    chk2: "check_background_sizes ?size backgrounds s3 = (Inr u2, t2)"
    and c3: "io_bind (call w (CreateStorageFileFromPathAsync outputPath)) (\<lambda>_.
     io_bind (create_render_targets w ?size) (\<lambda>rts.
     io_bind (draw_background_template w (backgroundTemplate rts) backgrounds) (\<lambda>_.
     io_bind (encode_frames w (frame0 # frames) rts ?size) (\<lambda>_.
     emit (wprintf (L ''Done!\<newline>'')))))) t2 = (Inr u, s)"
    by (rule io_bind_InrE)
  from chk2 have bgs_ok: "\<forall>b\<in>set backgrounds. GetPixelSize b = ?size" and t2: "t2 = s3"
    unfolding check_background_sizes_eq by (simp_all split: if_splits)
  from c3 obtain u3 s4 where
    outfile: "call w (CreateStorageFileFromPathAsync outputPath) t2 = (Inr u3, s4)"
    and c4: "io_bind (create_render_targets w ?size) (\<lambda>rts.
     io_bind (draw_background_template w (backgroundTemplate rts) backgrounds) (\<lambda>_.
     io_bind (encode_frames w (frame0 # frames) rts ?size) (\<lambda>_.
     emit (wprintf (L ''Done!\<newline>''))))) s4 = (Inr u, s)"
    by (rule io_bind_InrE)
  from c4 obtain rts s5 where
    targets: "create_render_targets w ?size s4 = (Inr rts, s5)"
    and c5: "io_bind (draw_background_template w (backgroundTemplate rts) backgrounds) (\<lambda>_.
     io_bind (encode_frames w (frame0 # frames) rts ?size) (\<lambda>_.
     emit (wprintf (L ''Done!\<newline>'')))) s5 = (Inr u, s)"
    by (rule io_bind_InrE)
  from c5 obtain u5 s6 where
    template: "draw_background_template w (backgroundTemplate rts) backgrounds s5 = (Inr u5, s6)"
    and c6: "io_bind (encode_frames w (frame0 # frames) rts ?size) (\<lambda>_.
     emit (wprintf (L ''Done!\<newline>''))) s6 = (Inr u, s)"
    by (rule io_bind_InrE)
  from c6 obtain u6 s7 where
    encode: "encode_frames w (frame0 # frames) rts ?size s6 = (Inr u6, s7)"
    and fin: "emit (wprintf (L ''Done!\<newline>'')) s7 = (Inr u, s)"
    by (rule io_bind_InrE)
  have s4: "s4 = s3\<lparr>trace := trace s3 @ [CreateStorageFileFromPathAsync outputPath]\<rparr>"
    using outfile t2 by (simp add: call_Inr)
  have a: "LoadBitmapsAsync w backgroundPath s2 = (Inr backgrounds, s3)"
    using bg t1 by simp
  have b: "create_render_targets w ?size
         (s3\<lparr>trace := trace s3 @ [CreateStorageFileFromPathAsync outputPath]\<rparr>) = (Inr rts, s5)"
    using targets s4 by simp
  have c: "s = s7\<lparr>trace := trace s7 @ [wprintf (L ''Done!\<newline>'')]\<rparr>"
    using fin by (simp add: emit_eq)
  from a frames_ok bgs_ok b template encode c show ?thesis
    by (rule that)
qed

lemma MainAsync_success_pixels:
  assumes init: "initialize_devices w useDebugLayer s0 = (Inr (), s1)"
      and load: "LoadBitmapsAsync w framesPath s1 = (Inr (frame0 # frames), s2)"
      and run: "MainAsync w useDebugLayer framesPath backgroundPath outputPath s0 = (Inr u, s)"
  obtains pre backgrounds s3 rts layers surfs where
      "LoadBitmapsAsync w backgroundPath s2 = (Inr backgrounds, s3)"
      "\<forall>f\<in>set (frame0 # frames). GetPixelSize f = GetPixelSize frame0"
      "list_all (\<lambda>e. \<not> is_drawing e \<and> \<not> is_output_call e) pre"
      "renderTargetTexture rts = texture (renderTarget rts)"
      "distinct [renderTargetTexture rts, texture (backgroundTemplate rts), stagingTexture rts]"
      "list_all2 (\<lambda>b sf. surfaces s3 (texture b) = Some sf) backgrounds layers"
      "list_all2 (\<lambda>f sf. surfaces s2 (texture f) = Some sf) (frame0 # frames) surfs"
      "surfaces s (texture (backgroundTemplate rts)) =
         Some (composite_over w (white_canvas (GetPixelSize frame0)) layers)"
      "new_events s0 s = pre @
        CreateStorageFileFromPathAsync outputPath #
        target_creation_calls (GetPixelSize frame0) rts @
        template_calls rts backgrounds @
        encoder_setup_calls rts @
        all_frame_calls rts (GetPixelSize frame0) (frame0 # frames)
          (map surface_bytes
             (rendered_frames w (composite_over w (white_canvas (GetPixelSize frame0)) layers)
                surfs \<lparr>extent = GetPixelSize frame0, pixels = uninitialized w\<rparr>)) @
        [FlushAsync, wprintf (L ''Done!\<newline>'')]"
proof -
  let ?size = "GetPixelSize frame0"
  let ?blank = "\<lparr>extent = ?size, pixels = uninitialized w\<rparr>"
  from init load run obtain backgrounds s3 rts s5 s6 s7 u5 u6 where
    bg: "LoadBitmapsAsync w backgroundPath s2 = (Inr backgrounds, s3)"
    and sizes: "\<forall>f\<in>set (frame0 # frames). GetPixelSize f = GetPixelSize frame0"
    and targets: "create_render_targets w ?size
         (s3\<lparr>trace := trace s3 @ [CreateStorageFileFromPathAsync outputPath]\<rparr>) = (Inr rts, s5)"
    and template: "draw_background_template w (backgroundTemplate rts) backgrounds s5 = (Inr u5, s6)"
    and encode: "encode_frames w (frame0 # frames) rts ?size s6 = (Inr u6, s7)"
    and fin: "s = s7\<lparr>trace := trace s7 @ [wprintf (L ''Done!\<newline>'')]\<rparr>"
    by (rule MainAsync_success_steps)
  let ?n = "next_handle s3"
  let ?rt = "renderTargetTexture rts"
  let ?tm = "texture (backgroundTemplate rts)"
  let ?st = "stagingTexture rts"
  from load obtain surfs where
    fr2: "list_all2 (\<lambda>f sf. surfaces s2 (texture f) = Some sf \<and> texture f < next_handle s2)
       (frame0 # frames) surfs"
    by (rule LoadBitmapsAsync_surfaces)
  from bg obtain layers where
    bg3: "list_all2 (\<lambda>b sf. surfaces s3 (texture b) = Some sf \<and> texture b < ?n)
       backgrounds layers"
    and mono: "next_handle s2 \<le> ?n"
    and keep3: "\<forall>h<next_handle s2. surfaces s3 h = surfaces s2 h"
    by (rule LoadBitmapsAsync_surfaces)
  have fr3: "list_all2 (\<lambda>f sf. surfaces s3 (texture f) = Some sf \<and> texture f < ?n)
       (frame0 # frames) surfs"
    using fr2 by (rule list_all2_mono) (use mono keep3 in auto)
  note t = create_render_targets_Inr[OF targets]
  have rts: "?rt = ?n" "?tm = Suc ?n" "?st = Suc (Suc ?n)" "texture (renderTarget rts) = ?n"
    by (simp_all add: t(1))
  have f5: "surfaces s5 = (surfaces s3)
      (?n := Some ?blank, Suc ?n := Some ?blank, Suc (Suc ?n) := Some ?blank)"
    using t(3) by simp
  have fr5: "list_all2 (\<lambda>f sf. surfaces s5 (texture f) = Some sf \<and> texture f < ?n)
       (frame0 # frames) surfs"
    using fr3 by (rule list_all2_mono) (auto simp: f5)
  have bg5: "list_all2 (\<lambda>b sf. surfaces s5 (texture b) = Some sf \<and> texture b < ?n)
       backgrounds layers"
    using bg3 by (rule list_all2_mono) (auto simp: f5)
  have tm5: "surfaces s5 (texture (backgroundTemplate rts)) = Some ?blank"
    by (simp add: f5 rts)
  have bg5': "list_all2 (\<lambda>b layer. surfaces s5 (texture b) = Some layer \<and>
      texture b \<noteq> texture (backgroundTemplate rts)) backgrounds layers"
    using bg5 by (rule list_all2_mono) (auto simp: rts)
  have "surfaces s6 = (surfaces s5)
      (texture (backgroundTemplate rts) :=
         Some (composite_over w (clear_surface opaque_white ?blank) layers))"
    using tm5 bg5' template by (rule draw_background_template_surfaces)
  moreover have "clear_surface opaque_white ?blank = white_canvas ?size"
    by (simp add: clear_surface_def white_canvas_def)
  ultimately have f6: "surfaces s6 = (surfaces s5)
      (?tm := Some (composite_over w (white_canvas ?size) layers))"
    by simp
  let ?T = "composite_over w (white_canvas ?size) layers"
  have rt6: "surfaces s6 ?rt = Some ?blank"
    by (simp add: f6 f5 rts)
  have tm6: "surfaces s6 ?tm = Some ?T"
    by (simp add: f6)
  have st6: "surfaces s6 ?st = Some ?blank"
    by (simp add: f6 f5 rts)
  have fr6: "list_all2 (\<lambda>f sf. surfaces s6 (texture f) = Some sf \<and>
          texture f \<noteq> ?rt \<and> texture f \<noteq> ?st) (frame0 # frames) surfs"
    using fr5 by (rule list_all2_mono) (auto simp: f6 rts)
  have same: "texture (renderTarget rts) = ?rt"
    by (simp add: rts)
  have ne: "distinct [?rt, ?tm, ?st]"
    by (simp add: rts)
  note e = encode_frames_pixels[OF encode same[symmetric] rt6 tm6 st6 refl fr6 ne]
  have keep: "\<And>h. h \<noteq> ?n \<Longrightarrow> h \<noteq> Suc (Suc ?n) \<Longrightarrow> surfaces s h = surfaces s6 h"
    using e(2) by (simp add: fin rts)
  have bgs: "list_all2 (\<lambda>b sf. surfaces s3 (texture b) = Some sf) backgrounds layers"
    using bg3 by (rule list_all2_mono) simp
  have frs: "list_all2 (\<lambda>f sf. surfaces s2 (texture f) = Some sf) (frame0 # frames) surfs"
    using fr2 by (rule list_all2_mono) simp
  have tms: "surfaces s ?tm = Some ?T"
    using keep[of "Suc ?n"] by (simp add: rts tm6[unfolded rts])
  have a: "list_all (\<lambda>e. \<not> is_drawing e \<and> \<not> is_output_call e) (new_events s0 s2)"
    using init load by (rule no_drawing_after_loading(1))
  have s2: "trace s2 = trace s0 @ new_events s0 s2"
    using init load by (rule no_drawing_after_loading(3))
  from emitsD[OF emits_LoadBitmapsAsync bg] obtain c where
    c: "trace s3 = trace s2 @ c"
       "list_all (\<lambda>e. \<not> is_drawing e \<and> \<not> is_output_call e \<and>
          (\<forall>p. e = fs_canonical p \<longrightarrow> p = backgroundPath)) c"
    by blast
  let ?pre = "new_events s0 s2 @ c"
  let ?rest = "CreateStorageFileFromPathAsync outputPath #
        target_creation_calls ?size rts @
        template_calls rts backgrounds @
        encoder_setup_calls rts @
        all_frame_calls rts ?size (frame0 # frames)
          (map surface_bytes (rendered_frames w ?T surfs ?blank)) @
        [FlushAsync, wprintf (L ''Done!\<newline>'')]"
  have pre: "list_all (\<lambda>e. \<not> is_drawing e \<and> \<not> is_output_call e) ?pre"
    using a c(2) by (auto simp: list_all_iff)
  have ts: "trace s = trace s3 @ ?rest"
    using t(2) draw_background_template_trace(1)[OF template] e(1)
    by (simp add: fin)
  have "trace s = trace s0 @ ?pre @ ?rest"
    unfolding ts c(1) by (subst s2) simp
  then have ev: "new_events s0 s = ?pre @ ?rest"
    by (rule new_events_append)
  show ?thesis
    using bg sizes pre same[symmetric] ne bgs frs tms ev by (rule that)
qed


lemma nth_rendered_bytes:
  "map (\<lambda>i. f i (map surface_bytes rendered ! i)) [0 ..< length rendered] =
   map (\<lambda>i. f i (surface_bytes (rendered ! i))) [0 ..< length rendered]"
  by (rule map_cong) simp_all

text \<open>
  Claim C6. Take a run that completes with a non-empty frame set, with the frames and the
  backgrounds as the loader returned them and the surfaces their textures hold. Then the
  drawing calls are: the calls that build the background template; then the render target
  is made the target once; then for every frame index in ascending order exactly
  \<^verbatim>\<open>BeginDraw\<close>, \<^verbatim>\<open>DrawBitmap\<close> of the template, \<^verbatim>\<open>DrawBitmap\<close> of that frame,
  \<^verbatim>\<open>EndDraw\<close>, \<^verbatim>\<open>CopyResource\<close> from the render target to the staging texture, and the
  read-back of the staging texture. The render target, the template and the staging
  texture are three different textures, the same for all frames, and the read-back of a
  frame comes before the \<^verbatim>\<open>BeginDraw\<close> of the next. The bytes read back for frame \<open>i\<close> are
  the pixels of the render target after the template and then frame \<open>i\<close> have been drawn
  onto what the passes before left there, the template being the white canvas with the
  backgrounds drawn onto it in order.
\<close>

theorem frames_rendered_one_at_a_time:
  assumes "initialize_devices w useDebugLayer s0 = (Inr (), s1)"
      and "LoadBitmapsAsync w framesPath s1 = (Inr (frame0 # frames), s2)"
      and "LoadBitmapsAsync w backgroundPath s2 = (Inr backgrounds, s3)"
      and "MainAsync w useDebugLayer framesPath backgroundPath outputPath s0 = (Inr u, s)"
  shows "\<exists>rts layers surfs rendered.
     list_all2 (\<lambda>background layer. surfaces s3 (texture background) = Some layer)
       backgrounds layers \<and>
     list_all2 (\<lambda>frame sf. surfaces s2 (texture frame) = Some sf) (frame0 # frames) surfs \<and>
     rendered = rendered_frames w
       (composite_over w (white_canvas (GetPixelSize frame0)) layers) surfs
       \<lparr>extent = GetPixelSize frame0, pixels = uninitialized w\<rparr> \<and>
     renderTargetTexture rts = texture (renderTarget rts) \<and>
     distinct [renderTargetTexture rts, texture (backgroundTemplate rts), stagingTexture rts] \<and>
     filter is_drawing (new_events s0 s) =
       template_calls rts backgrounds @
       SetTarget (texture (renderTarget rts)) #
       concat (map (\<lambda>i.
         [BeginDraw,
          DrawBitmap (texture (backgroundTemplate rts)),
          DrawBitmap (texture ((frame0 # frames) ! i)),
          EndDraw,
          CopyResource (stagingTexture rts) (renderTargetTexture rts),
          CopyBytesFromTexture (stagingTexture rts) (surface_bytes (rendered ! i))])
         [0 ..< length (frame0 # frames)])"
proof -
  let ?size = "GetPixelSize frame0"
  from assms(1,2,4) obtain pre backgrounds' s3' rts layers surfs where
    *: "LoadBitmapsAsync w backgroundPath s2 = (Inr backgrounds', s3')"
      "\<forall>f\<in>set (frame0 # frames). GetPixelSize f = GetPixelSize frame0"
      "list_all (\<lambda>e. \<not> is_drawing e \<and> \<not> is_output_call e) pre"
      "renderTargetTexture rts = texture (renderTarget rts)"
      "distinct [renderTargetTexture rts, texture (backgroundTemplate rts), stagingTexture rts]"
      "list_all2 (\<lambda>b sf. surfaces s3' (texture b) = Some sf) backgrounds' layers"
      "list_all2 (\<lambda>f sf. surfaces s2 (texture f) = Some sf) (frame0 # frames) surfs"
      "surfaces s (texture (backgroundTemplate rts)) =
         Some (composite_over w (white_canvas ?size) layers)"
      "new_events s0 s = pre @
        CreateStorageFileFromPathAsync outputPath #
        target_creation_calls ?size rts @
        template_calls rts backgrounds' @
        encoder_setup_calls rts @
        all_frame_calls rts ?size (frame0 # frames)
          (map surface_bytes
             (rendered_frames w (composite_over w (white_canvas ?size) layers)
                surfs \<lparr>extent = ?size, pixels = uninitialized w\<rparr>)) @
        [FlushAsync, wprintf (L ''Done!\<newline>'')]"
    by (rule MainAsync_success_pixels)
  let ?rendered = "rendered_frames w (composite_over w (white_canvas ?size) layers)
                surfs \<lparr>extent = ?size, pixels = uninitialized w\<rparr>"
  from *(1) assms(3) have same: "backgrounds' = backgrounds" "s3' = s3"
    by simp_all
  have len: "length (frame0 # frames) = length ?rendered"
    using list_all2_lengthD[OF *(7)] by simp
  have "filter is_drawing (new_events s0 s) =
       template_calls rts backgrounds @
       SetTarget (texture (renderTarget rts)) #
       filter is_drawing (all_frame_calls rts ?size (frame0 # frames)
         (map surface_bytes ?rendered))"
    by (simp add: *(9) same filter_drawing_no_output[OF *(3)] filter_drawing_template_calls
        target_creation_calls_def encoder_setup_calls_def)
  also have "filter is_drawing (all_frame_calls rts ?size (frame0 # frames)
         (map surface_bytes ?rendered)) =
       concat (map (\<lambda>i.
         [BeginDraw,
          DrawBitmap (texture (backgroundTemplate rts)),
          DrawBitmap (texture ((frame0 # frames) ! i)),
          EndDraw,
          CopyResource (stagingTexture rts) (renderTargetTexture rts),
          CopyBytesFromTexture (stagingTexture rts) (surface_bytes (?rendered ! i))])
         [0 ..< length (frame0 # frames)])"
    unfolding filter_drawing_all_frame_calls len by (subst nth_rendered_bytes) (rule refl)
  finally have calls: "filter is_drawing (new_events s0 s) =
       template_calls rts backgrounds @
       SetTarget (texture (renderTarget rts)) #
       concat (map (\<lambda>i.
         [BeginDraw,
          DrawBitmap (texture (backgroundTemplate rts)),
          DrawBitmap (texture ((frame0 # frames) ! i)),
          EndDraw,
          CopyResource (stagingTexture rts) (renderTargetTexture rts),
          CopyBytesFromTexture (stagingTexture rts) (surface_bytes (?rendered ! i))])
         [0 ..< length (frame0 # frames)])" .
  have l: "list_all2 (\<lambda>background layer. surfaces s3 (texture background) = Some layer)
       backgrounds layers"
    using *(6) by (simp add: same)
  from l *(7) refl *(4,5) calls show ?thesis
    by (intro exI[of _ rts] exI[of _ layers] exI[of _ surfs] exI[of _ ?rendered] conjI)
qed


lemma example_run_loaded:
  obtains s1 s2 s3 s where
    "initialize_devices example_world False initial_state = (Inr (), s1)"
    "LoadBitmapsAsync example_world (L ''frames'') s1 =
       (Inr (\<lparr>texture = 0, pixel_size = \<lparr>width = 2, height = 1\<rparr>\<rparr> #
             [\<lparr>texture = 1, pixel_size = \<lparr>width = 2, height = 1\<rparr>\<rparr>]), s2)"
    "LoadBitmapsAsync example_world (L ''backgrounds'') s2 =
       (Inr [\<lparr>texture = 2, pixel_size = \<lparr>width = 2, height = 1\<rparr>\<rparr>,
             \<lparr>texture = 3, pixel_size = \<lparr>width = 2, height = 1\<rparr>\<rparr>], s3)"
    "MainAsync example_world False (L ''frames'') (L ''backgrounds'') (L ''out.gif'')
       initial_state = (Inr (), s)"
    "surfaces s2 0 = Some \<lparr>extent = \<lparr>width = 2, height = 1\<rparr>,
       pixels = (\<lambda>x y. \<lparr>blue = 0xFF, green = 0, red = 0, alpha = 0xFF\<rparr>)\<rparr>"
    "surfaces s2 1 = Some \<lparr>extent = \<lparr>width = 2, height = 1\<rparr>,
       pixels = (\<lambda>x y. \<lparr>blue = 0, green = 0, red = 0xFF, alpha = 0xFF\<rparr>)\<rparr>"
    "surfaces s3 2 = Some \<lparr>extent = \<lparr>width = 2, height = 1\<rparr>,
       pixels = (\<lambda>x y. \<lparr>blue = 5, green = 5, red = 5, alpha = 0\<rparr>)\<rparr>"
    "surfaces s3 3 = Some \<lparr>extent = \<lparr>width = 2, height = 1\<rparr>,
       pixels = (\<lambda>x y. \<lparr>blue = 0, green = 0xFF, red = 0, alpha = 0xFF\<rparr>)\<rparr>"
proof -
  let ?size = "\<lparr>width = 2, height = 1\<rparr> :: D2D1_SIZE_U"
  obtain s1 where
    init: "initialize_devices example_world False initial_state = (Inr (), s1)"
    and h1: "next_handle s1 = 0"
    by (simp add: initialize_devices_ok example_succeeds initial_state_def)
  obtain s2 where
    load: "LoadBitmapsAsync example_world (L ''frames'') s1 =
       (Inr (\<lparr>texture = 0, pixel_size = ?size\<rparr> # [\<lparr>texture = 1, pixel_size = ?size\<rparr>]), s2)"
    and s2: "next_handle s2 = 2"
      "surfaces s2 0 = Some \<lparr>extent = ?size,
         pixels = (\<lambda>x y. \<lparr>blue = 0xFF, green = 0, red = 0, alpha = 0xFF\<rparr>)\<rparr>"
      "surfaces s2 1 = Some \<lparr>extent = ?size,
         pixels = (\<lambda>x y. \<lparr>blue = 0, green = 0, red = 0xFF, alpha = 0xFF\<rparr>)\<rparr>"
    by (simp add: example_load_frames h1)
  obtain s3 where
    bg: "LoadBitmapsAsync example_world (L ''backgrounds'') s2 =
       (Inr [\<lparr>texture = 2, pixel_size = ?size\<rparr>, \<lparr>texture = 3, pixel_size = ?size\<rparr>], s3)"
    and s3: "surfaces s3 2 = Some \<lparr>extent = ?size,
         pixels = (\<lambda>x y. \<lparr>blue = 5, green = 5, red = 5, alpha = 0\<rparr>)\<rparr>"
      "surfaces s3 3 = Some \<lparr>extent = ?size,
         pixels = (\<lambda>x y. \<lparr>blue = 0, green = 0xFF, red = 0, alpha = 0xFF\<rparr>)\<rparr>"
    by (simp add: example_load_backgrounds_state s2(1))
  have "\<exists>s. MainAsync example_world False (L ''frames'') (L ''backgrounds'') (L ''out.gif'')
       initial_state = (Inr (), s)"
    using example_succeeds init load _ bg
    by (rule MainAsync_ok) (simp_all add: GetPixelSize_def)
  then obtain s where
    run: "MainAsync example_world False (L ''frames'') (L ''backgrounds'') (L ''out.gif'')
       initial_state = (Inr (), s)"
    by (elim exE)
  from init load bg run s2(2,3) s3 show ?thesis
    by (rule that)
qed

lemma example_rendered:
  "map surface_bytes
     (rendered_frames example_world
        (composite_over example_world (white_canvas \<lparr>width = 2, height = 1\<rparr>)
           [\<lparr>extent = \<lparr>width = 2, height = 1\<rparr>,
              pixels = (\<lambda>x y. \<lparr>blue = 5, green = 5, red = 5, alpha = 0\<rparr>)\<rparr>,
            \<lparr>extent = \<lparr>width = 2, height = 1\<rparr>,
              pixels = (\<lambda>x y. \<lparr>blue = 0, green = 0xFF, red = 0, alpha = 0xFF\<rparr>)\<rparr>])
        [\<lparr>extent = \<lparr>width = 2, height = 1\<rparr>,
           pixels = (\<lambda>x y. \<lparr>blue = 0xFF, green = 0, red = 0, alpha = 0xFF\<rparr>)\<rparr>,
         \<lparr>extent = \<lparr>width = 2, height = 1\<rparr>,
           pixels = (\<lambda>x y. \<lparr>blue = 0, green = 0, red = 0xFF, alpha = 0xFF\<rparr>)\<rparr>]
        \<lparr>extent = \<lparr>width = 2, height = 1\<rparr>, pixels = uninitialized example_world\<rparr>) =
   [[0xFF, 0, 0, 0xFF, 0xFF, 0, 0, 0xFF], [0, 0, 0xFF, 0xFF, 0, 0, 0xFF, 0xFF]]"
  by (simp add: Let_def composite_over_def white_canvas_def draw_over_def surface_bytes_def
      example_world_def example_blend_def upt_rec)

text \<open>
  In the example environment the two frames are opaque blue and opaque red, 2x1 pixels
  each, so the bytes read back are those of a blue and of a red frame.
\<close>

theorem frames_rendered_one_at_a_time_witness:
  "\<exists>s (rts :: render_targets).
     MainAsync example_world False (L ''frames'') (L ''backgrounds'') (L ''out.gif'')
       initial_state = (Inr (), s) \<and>
     distinct [renderTargetTexture rts, texture (backgroundTemplate rts), stagingTexture rts] \<and>
     filter is_drawing (new_events initial_state s) =
       [SetTarget (texture (backgroundTemplate rts)), BeginDraw, Clear opaque_white,
        DrawBitmap 2, DrawBitmap 3, EndDraw,
        SetTarget (renderTargetTexture rts),
        BeginDraw, DrawBitmap (texture (backgroundTemplate rts)), DrawBitmap 0, EndDraw,
        CopyResource (stagingTexture rts) (renderTargetTexture rts),
        CopyBytesFromTexture (stagingTexture rts) [0xFF, 0, 0, 0xFF, 0xFF, 0, 0, 0xFF],
        BeginDraw, DrawBitmap (texture (backgroundTemplate rts)), DrawBitmap 1, EndDraw,
        CopyResource (stagingTexture rts) (renderTargetTexture rts),
        CopyBytesFromTexture (stagingTexture rts) [0, 0, 0xFF, 0xFF, 0, 0, 0xFF, 0xFF]]"
proof -
  let ?size = "\<lparr>width = 2, height = 1\<rparr> :: D2D1_SIZE_U"
  let ?f0 = "\<lparr>texture = 0, pixel_size = ?size\<rparr>"
  let ?f1 = "\<lparr>texture = 1, pixel_size = ?size\<rparr>"
  let ?b0 = "\<lparr>texture = 2, pixel_size = ?size\<rparr>"
  let ?b1 = "\<lparr>texture = 3, pixel_size = ?size\<rparr>"
  let ?blue = "\<lparr>extent = ?size,
         pixels = (\<lambda>x y. \<lparr>blue = 0xFF, green = 0, red = 0, alpha = 0xFF\<rparr>)\<rparr>"
  let ?red = "\<lparr>extent = ?size,
         pixels = (\<lambda>x y. \<lparr>blue = 0, green = 0, red = 0xFF, alpha = 0xFF\<rparr>)\<rparr>"
  let ?l0 = "\<lparr>extent = ?size, pixels = (\<lambda>x y. \<lparr>blue = 5, green = 5, red = 5, alpha = 0\<rparr>)\<rparr>"
  let ?l1 = "\<lparr>extent = ?size,
         pixels = (\<lambda>x y. \<lparr>blue = 0, green = 0xFF, red = 0, alpha = 0xFF\<rparr>)\<rparr>"
  obtain s1 s2 s3 s where run:
    "initialize_devices example_world False initial_state = (Inr (), s1)"
    "LoadBitmapsAsync example_world (L ''frames'') s1 = (Inr (?f0 # [?f1]), s2)"
    "LoadBitmapsAsync example_world (L ''backgrounds'') s2 = (Inr [?b0, ?b1], s3)"
    "MainAsync example_world False (L ''frames'') (L ''backgrounds'') (L ''out.gif'')
       initial_state = (Inr (), s)"
    and loaded: "surfaces s2 0 = Some ?blue" "surfaces s2 1 = Some ?red"
      "surfaces s3 2 = Some ?l0" "surfaces s3 3 = Some ?l1"
    by (rule example_run_loaded)
  from frames_rendered_one_at_a_time[OF run] obtain rts layers surfs rendered where
    *: "list_all2 (\<lambda>background layer. surfaces s3 (texture background) = Some layer)
         [?b0, ?b1] layers"
      "list_all2 (\<lambda>frame sf. surfaces s2 (texture frame) = Some sf) (?f0 # [?f1]) surfs"
      "rendered = rendered_frames example_world
         (composite_over example_world (white_canvas (GetPixelSize ?f0)) layers) surfs
         \<lparr>extent = GetPixelSize ?f0, pixels = uninitialized example_world\<rparr>"
      "renderTargetTexture rts = texture (renderTarget rts)"
      "distinct [renderTargetTexture rts, texture (backgroundTemplate rts), stagingTexture rts]"
      "filter is_drawing (new_events initial_state s) =
       template_calls rts [?b0, ?b1] @
       SetTarget (texture (renderTarget rts)) #
       concat (map (\<lambda>i.
         [BeginDraw,
          DrawBitmap (texture (backgroundTemplate rts)),
          DrawBitmap (texture ((?f0 # [?f1]) ! i)),
          EndDraw,
          CopyResource (stagingTexture rts) (renderTargetTexture rts),
          CopyBytesFromTexture (stagingTexture rts) (surface_bytes (rendered ! i))])
         [0 ..< length (?f0 # [?f1])])"
    by (elim exE conjE)
  from *(1) loaded(3,4) have layers: "layers = [?l0, ?l1]"
    by (auto simp: list_all2_Cons1)
  from *(2) loaded(1,2) have surfs: "surfs = [?blue, ?red]"
    by (auto simp: list_all2_Cons1)
  have "map surface_bytes rendered =
      [[0xFF, 0, 0, 0xFF, 0xFF, 0, 0, 0xFF], [0, 0, 0xFF, 0xFF, 0, 0, 0xFF, 0xFF]]"
    unfolding *(3) layers surfs GetPixelSize_def ID2D1Bitmap1.simps by (rule example_rendered)
  then have bytes: "surface_bytes (rendered ! 0) = [0xFF, 0, 0, 0xFF, 0xFF, 0, 0, 0xFF]"
    "surface_bytes (rendered ! Suc 0) = [0, 0, 0xFF, 0xFF, 0, 0, 0xFF, 0xFF]"
    by (auto simp: map_eq_Cons_conv)
  have "[0 ..< length (?f0 # [?f1])] = [0, Suc 0]"
    by (simp add: upt_rec)
  with *(6) have "filter is_drawing (new_events initial_state s) =
       [SetTarget (texture (backgroundTemplate rts)), BeginDraw, Clear opaque_white,
        DrawBitmap 2, DrawBitmap 3, EndDraw,
        SetTarget (renderTargetTexture rts),
        BeginDraw, DrawBitmap (texture (backgroundTemplate rts)), DrawBitmap 0, EndDraw,
        CopyResource (stagingTexture rts) (renderTargetTexture rts),
        CopyBytesFromTexture (stagingTexture rts) [0xFF, 0, 0, 0xFF, 0xFF, 0, 0, 0xFF],
        BeginDraw, DrawBitmap (texture (backgroundTemplate rts)), DrawBitmap 1, EndDraw,
        CopyResource (stagingTexture rts) (renderTargetTexture rts),
        CopyBytesFromTexture (stagingTexture rts) [0, 0, 0xFF, 0xFF, 0, 0, 0xFF, 0xFF]]"
    by (simp add: *(4) bytes template_calls_def)
  with run(4) *(5) show ?thesis
    by (intro exI[of _ s] exI[of _ rts] conjI)
qed



text \<open>
  Claim C4. Take a run that completes with a non-empty frame set, with the frames and the
  backgrounds as the loader returned them and the surfaces their textures hold. Then the
  calls that write frames are, for each frame in turn, first the metadata property
  \<^verbatim>\<open>/grctlext/Delay\<close> with the 16-bit value 13 and then \<^verbatim>\<open>SetPixelData\<close> with
  \<^verbatim>\<open>Bgra8\<close>, premultiplied alpha, the width and height of the first frame, both scale
  factors 1, and the bytes of that frame as rendered (the template and the frame drawn
  onto the render target); there is one such pair per frame and every frame has that
  width and height.
\<close>

theorem every_frame_delay_then_pixels:
  assumes "initialize_devices w useDebugLayer s0 = (Inr (), s1)"
      and "LoadBitmapsAsync w framesPath s1 = (Inr (frame0 # frames), s2)"
      and "LoadBitmapsAsync w backgroundPath s2 = (Inr backgrounds, s3)"
      and "MainAsync w useDebugLayer framesPath backgroundPath outputPath s0 = (Inr u, s)"
  shows "\<exists>layers surfs.
     list_all2 (\<lambda>background layer. surfaces s3 (texture background) = Some layer)
       backgrounds layers \<and>
     list_all2 (\<lambda>frame sf. surfaces s2 (texture frame) = Some sf) (frame0 # frames) surfs \<and>
     filter is_frame_write (new_events s0 s) =
       concat (map (\<lambda>rendered.
         [BitmapProperties_SetPropertiesAsync [(L ''/grctlext/Delay'', UInt16 13)],
          SetPixelData Bgra8 Premultiplied
            (width (GetPixelSize frame0)) (height (GetPixelSize frame0)) 1 1
            (surface_bytes rendered)])
         (rendered_frames w
            (composite_over w (white_canvas (GetPixelSize frame0)) layers) surfs
            \<lparr>extent = GetPixelSize frame0, pixels = uninitialized w\<rparr>)) \<and>
     (\<forall>frame\<in>set (frame0 # frames). GetPixelSize frame = GetPixelSize frame0)"
proof -
  let ?size = "GetPixelSize frame0"
  from assms(1,2,4) obtain pre backgrounds' s3' rts layers surfs where
    *: "LoadBitmapsAsync w backgroundPath s2 = (Inr backgrounds', s3')"
      "\<forall>f\<in>set (frame0 # frames). GetPixelSize f = GetPixelSize frame0"
      "list_all (\<lambda>e. \<not> is_drawing e \<and> \<not> is_output_call e) pre"
      "list_all2 (\<lambda>b sf. surfaces s3' (texture b) = Some sf) backgrounds' layers"
      "list_all2 (\<lambda>f sf. surfaces s2 (texture f) = Some sf) (frame0 # frames) surfs"
      "new_events s0 s = pre @
        CreateStorageFileFromPathAsync outputPath #
        target_creation_calls ?size rts @
        template_calls rts backgrounds' @
        encoder_setup_calls rts @
        all_frame_calls rts ?size (frame0 # frames)
          (map surface_bytes
             (rendered_frames w (composite_over w (white_canvas ?size) layers)
                surfs \<lparr>extent = ?size, pixels = uninitialized w\<rparr>)) @
        [FlushAsync, wprintf (L ''Done!\<newline>'')]"
    by (rule MainAsync_success_pixels)
  let ?rendered = "rendered_frames w (composite_over w (white_canvas ?size) layers)
                surfs \<lparr>extent = ?size, pixels = uninitialized w\<rparr>"
  from *(1) assms(3) have same: "backgrounds' = backgrounds" "s3' = s3"
    by simp_all
  have len: "length (map surface_bytes ?rendered) = length (frame0 # frames)"
    using list_all2_lengthD[OF *(5)] by simp
  have "filter is_frame_write (template_calls rts backgrounds) = []"
    by (simp add: template_calls_def filter_empty_conv)
  then have "filter is_frame_write (new_events s0 s) =
      filter is_frame_write
        (all_frame_calls rts ?size (frame0 # frames) (map surface_bytes ?rendered))"
    using not_output_not_frame_write[OF *(3)]
    by (simp add: *(6) same target_creation_calls_def encoder_setup_calls_def)
  also have "\<dots> = concat (map (\<lambda>bytes.
         [BitmapProperties_SetPropertiesAsync [(L ''/grctlext/Delay'', UInt16 13)],
          SetPixelData Bgra8 Premultiplied (width ?size) (height ?size) 1 1 bytes])
         (map surface_bytes ?rendered))"
    using len by (rule filter_all_frame_calls_write)
  also have "\<dots> = concat (map (\<lambda>rendered.
         [BitmapProperties_SetPropertiesAsync [(L ''/grctlext/Delay'', UInt16 13)],
          SetPixelData Bgra8 Premultiplied (width ?size) (height ?size) 1 1
            (surface_bytes rendered)]) ?rendered)"
    by (simp add: comp_def)
  finally have calls: "filter is_frame_write (new_events s0 s) =
       concat (map (\<lambda>rendered.
         [BitmapProperties_SetPropertiesAsync [(L ''/grctlext/Delay'', UInt16 13)],
          SetPixelData Bgra8 Premultiplied (width ?size) (height ?size) 1 1
            (surface_bytes rendered)]) ?rendered)" .
  have l: "list_all2 (\<lambda>background layer. surfaces s3 (texture background) = Some layer)
       backgrounds layers"
    using *(4) by (simp add: same)
  from l *(5) calls *(2) show ?thesis
    by (intro exI[of _ layers] exI[of _ surfs] conjI)
qed

theorem every_frame_delay_then_pixels_witness:
  "\<exists>s.
     MainAsync example_world False (L ''frames'') (L ''backgrounds'') (L ''out.gif'')
       initial_state = (Inr (), s) \<and>
     filter is_frame_write (new_events initial_state s) =
       [BitmapProperties_SetPropertiesAsync [(L ''/grctlext/Delay'', UInt16 13)],
        SetPixelData Bgra8 Premultiplied 2 1 1 1 [0xFF, 0, 0, 0xFF, 0xFF, 0, 0, 0xFF],
        BitmapProperties_SetPropertiesAsync [(L ''/grctlext/Delay'', UInt16 13)],
        SetPixelData Bgra8 Premultiplied 2 1 1 1 [0, 0, 0xFF, 0xFF, 0, 0, 0xFF, 0xFF]]"
proof -
  let ?size = "\<lparr>width = 2, height = 1\<rparr> :: D2D1_SIZE_U"
  let ?f0 = "\<lparr>texture = 0, pixel_size = ?size\<rparr>"
  let ?f1 = "\<lparr>texture = 1, pixel_size = ?size\<rparr>"
  let ?b0 = "\<lparr>texture = 2, pixel_size = ?size\<rparr>"
  let ?b1 = "\<lparr>texture = 3, pixel_size = ?size\<rparr>"
  let ?blue = "\<lparr>extent = ?size,
         pixels = (\<lambda>x y. \<lparr>blue = 0xFF, green = 0, red = 0, alpha = 0xFF\<rparr>)\<rparr>"
  let ?red = "\<lparr>extent = ?size,
         pixels = (\<lambda>x y. \<lparr>blue = 0, green = 0, red = 0xFF, alpha = 0xFF\<rparr>)\<rparr>"
  let ?l0 = "\<lparr>extent = ?size, pixels = (\<lambda>x y. \<lparr>blue = 5, green = 5, red = 5, alpha = 0\<rparr>)\<rparr>"
  let ?l1 = "\<lparr>extent = ?size,
         pixels = (\<lambda>x y. \<lparr>blue = 0, green = 0xFF, red = 0, alpha = 0xFF\<rparr>)\<rparr>"
  obtain s1 s2 s3 s where run:
    "initialize_devices example_world False initial_state = (Inr (), s1)"
    "LoadBitmapsAsync example_world (L ''frames'') s1 = (Inr (?f0 # [?f1]), s2)"
    "LoadBitmapsAsync example_world (L ''backgrounds'') s2 = (Inr [?b0, ?b1], s3)"
    "MainAsync example_world False (L ''frames'') (L ''backgrounds'') (L ''out.gif'')
       initial_state = (Inr (), s)"
    and loaded: "surfaces s2 0 = Some ?blue" "surfaces s2 1 = Some ?red"
      "surfaces s3 2 = Some ?l0" "surfaces s3 3 = Some ?l1"
    by (rule example_run_loaded)
  from every_frame_delay_then_pixels[OF run] obtain layers surfs where
    *: "list_all2 (\<lambda>background layer. surfaces s3 (texture background) = Some layer)
         [?b0, ?b1] layers"
      "list_all2 (\<lambda>frame sf. surfaces s2 (texture frame) = Some sf) (?f0 # [?f1]) surfs"
      "filter is_frame_write (new_events initial_state s) =
       concat (map (\<lambda>rendered.
         [BitmapProperties_SetPropertiesAsync [(L ''/grctlext/Delay'', UInt16 13)],
          SetPixelData Bgra8 Premultiplied
            (width (GetPixelSize ?f0)) (height (GetPixelSize ?f0)) 1 1
            (surface_bytes rendered)])
         (rendered_frames example_world
            (composite_over example_world (white_canvas (GetPixelSize ?f0)) layers) surfs
            \<lparr>extent = GetPixelSize ?f0, pixels = uninitialized example_world\<rparr>))"
    by (elim exE conjE)
  from *(1) loaded(3,4) have layers: "layers = [?l0, ?l1]"
    by (auto simp: list_all2_Cons1)
  from *(2) loaded(1,2) have surfs: "surfs = [?blue, ?red]"
    by (auto simp: list_all2_Cons1)
  let ?rendered = "rendered_frames example_world
            (composite_over example_world (white_canvas ?size) [?l0, ?l1]) [?blue, ?red]
            \<lparr>extent = ?size, pixels = uninitialized example_world\<rparr>"
  have "filter is_frame_write (new_events initial_state s) =
       concat (map (\<lambda>bytes.
         [BitmapProperties_SetPropertiesAsync [(L ''/grctlext/Delay'', UInt16 13)],
          SetPixelData Bgra8 Premultiplied 2 1 1 1 bytes])
         (map surface_bytes ?rendered))"
    unfolding *(3) layers surfs GetPixelSize_def ID2D1Bitmap1.simps D2D1_SIZE_U.simps
    by (simp only: map_map comp_def)
  then have "filter is_frame_write (new_events initial_state s) =
       [BitmapProperties_SetPropertiesAsync [(L ''/grctlext/Delay'', UInt16 13)],
        SetPixelData Bgra8 Premultiplied 2 1 1 1 [0xFF, 0, 0, 0xFF, 0xFF, 0, 0, 0xFF],
        BitmapProperties_SetPropertiesAsync [(L ''/grctlext/Delay'', UInt16 13)],
        SetPixelData Bgra8 Premultiplied 2 1 1 1 [0, 0, 0xFF, 0xFF, 0, 0, 0xFF, 0xFF]]"
    unfolding example_rendered by simp
  with run(4) show ?thesis
    by (intro exI[of _ s] conjI)
qed

end
